theory Spec2Isabelle
  imports Complex_Main
begin

section \<open>Conventions of the embedding\<close>

text \<open>
  The program is written in Python. A Python \<open>float\<close> is modelled as a \<^typ>\<open>real\<close>
  (exact arithmetic), a Python \<open>int\<close> as an \<^typ>\<open>int\<close>, a \<open>str\<close> as a
  \<^typ>\<open>string\<close>, a \<open>dict\<close> as a map, an \<open>Optional\<close> as an \<^typ>\<open>'a option\<close>.
  A Python \<open>set\<close> of strings that the code iterates over is modelled as a
  duplicate-free list built with \<^const>\<open>List.insert\<close>; the loops that run over such a
  set touch a different key for each element, so the iteration order does not matter.
  Objects mutated in place are passed in and returned.
\<close>

section \<open>Enumerations (models/enums.py)\<close>

datatype TargetType = CLASSIFIER | CHATBOT | RAG | AGENT_TARGET | MODERATION | EMBEDDING
  | MULTI_AGENT_SYSTEM | MCP_CLIENT

datatype AccessLevel = WHITE_BOX | GRAY_BOX | BLACK_BOX

datatype Domain = AML | LLM | AGENT

datatype Phase = RECON | PHASE_PROBE | PHASE_EXPLOIT | PERSISTENCE | EVALUATION

datatype Surface = MODEL | DATA | RETRIEVAL | TOOL | ACTION | GUARDRAIL

datatype Goal = EVASION | JAILBREAK | EXFIL_SIM | EXTRACTION | TOOL_MISUSE | POISONING | DOS

datatype StealthLevel = OVERT | MODERATE | COVERT

datatype CampaignPhase = PROBE | EXPLOIT

datatype CampaignStatus = PLANNING | ACTIVE | PAUSED | COMPLETED | ABORTED

fun Domain_value :: "Domain \<Rightarrow> string" where
  "Domain_value AML = ''aml''"
| "Domain_value LLM = ''llm''"
| "Domain_value AGENT = ''agent''"

fun Phase_value :: "Phase \<Rightarrow> string" where
  "Phase_value RECON = ''recon''"
| "Phase_value PHASE_PROBE = ''probe''"
| "Phase_value PHASE_EXPLOIT = ''exploit''"
| "Phase_value PERSISTENCE = ''persistence''"
| "Phase_value EVALUATION = ''evaluation''"

fun Surface_value :: "Surface \<Rightarrow> string" where
  "Surface_value MODEL = ''model''"
| "Surface_value DATA = ''data''"
| "Surface_value RETRIEVAL = ''retrieval''"
| "Surface_value TOOL = ''tool''"
| "Surface_value ACTION = ''action''"
| "Surface_value GUARDRAIL = ''guardrail''"

fun StealthLevel_value :: "StealthLevel \<Rightarrow> string" where
  "StealthLevel_value OVERT = ''overt''"
| "StealthLevel_value MODERATE = ''moderate''"
| "StealthLevel_value COVERT = ''covert''"

fun CampaignPhase_value :: "CampaignPhase \<Rightarrow> string" where
  "CampaignPhase_value PROBE = ''probe''"
| "CampaignPhase_value EXPLOIT = ''exploit''"

text \<open>\<open>list(Surface)\<close>: the members in declaration order; \<open>len(Surface)\<close> is its length.\<close>

definition all_surfaces :: "Surface list" where
  "all_surfaces = [MODEL, DATA, RETRIEVAL, TOOL, ACTION, GUARDRAIL]"

section \<open>Techniques, targets and results (models/)\<close>

text \<open>
  Only the fields that the planner, the scorers, the campaign manager and the analyzer
  read are kept; descriptions, references and timestamps are left out.
\<close>

record AttackTechnique =
  tid :: string
  name :: string
  domain :: Domain
  phase :: Phase
  surface :: Surface
  access_required :: AccessLevel
  goals_supported :: "Goal list"
  target_types :: "TargetType list"
  base_cost :: real
  stealth_profile :: StealthLevel
  tags :: "string list"

record ConstraintSpec =
  stealth_priority :: StealthLevel
  max_technique_cost :: "real option"

record DefenseProfile =
  has_moderation :: bool
  has_input_filtering :: bool
  has_output_filtering :: bool
  has_schema_validation :: bool
  has_rate_limiting :: bool
  has_prompt_injection_detection :: bool

record TargetProfile =
  target_name :: string
  target_type :: TargetType
  access_level :: AccessLevel
  constraints :: ConstraintSpec
  defenses :: DefenseProfile
  goals :: "Goal list"

text \<open>
  \<open>EvaluationResult\<close>: \<open>success\<close> is \<open>True\<close>, \<open>False\<close> or \<open>None\<close> (inconclusive);
  \<open>eval_technique_id\<close> is \<open>comparability.technique_id\<close> (default the empty string).
\<close>

record EvaluationResult =
  attempt_id :: string
  success :: "bool option"
  score :: "real option"
  evidence_quality :: real
  eval_technique_id :: string

record AttemptResult =
  attempt_result_id :: string
  attempt_technique_id :: string

section \<open>Posterior state (planner/posterior.py)\<close>

datatype py_error = ValueError | ZeroDivisionError

record TechniquePosterior =
  technique_id :: string
  alpha :: real
  beta :: real
  observations :: int

definition mean :: "TechniquePosterior \<Rightarrow> real" where
  "mean p = alpha p / (alpha p + beta p)"

text \<open>\<open>TechniquePosterior.update\<close> raises \<open>ValueError\<close> outside \<open>[0, 1]\<close>.\<close>

definition update :: "TechniquePosterior \<Rightarrow> real \<Rightarrow> py_error + TechniquePosterior" where
  "update p reward =
     (if \<not> (0 \<le> reward \<and> reward \<le> 1) then Inl ValueError
      else Inr (p\<lparr>alpha := alpha p + reward, beta := beta p + (1 - reward),
                   observations := observations p + 1\<rparr>))"

record PosteriorState =
  posteriors :: "string \<rightharpoonup> TechniquePosterior"
  prior_strength :: real

text \<open>
  \<open>PosteriorState.get_or_init\<close> returns the posterior and the state, which it has
  extended when the technique id was absent.
\<close>

definition get_or_init ::
    "PosteriorState \<Rightarrow> string \<Rightarrow> real \<Rightarrow> real option \<Rightarrow> TechniquePosterior \<times> PosteriorState" where
  "get_or_init st technique base_score benchmark_prior =
     (case posteriors st technique of
        Some stored \<Rightarrow> (stored, st)
      | None \<Rightarrow>
          (let p = (case benchmark_prior of Some b \<Rightarrow> b | None \<Rightarrow> base_score);
               k = prior_strength st;
               fresh = \<lparr>technique_id = technique, alpha = 1 + k * p,
                        beta = 1 + k * (1 - p), observations = 0\<rparr>
           in (fresh, st\<lparr>posteriors := (posteriors st)(technique \<mapsto> fresh)\<rparr>)))"

section \<open>Family correlation (planner/correlation.py)\<close>

record FamilyCorrelation =
  spillover_rate :: real
  families :: "string \<Rightarrow> string list"
  id_to_family :: "string \<rightharpoonup> string"

text \<open>The constructor; \<open>spillover_rate\<close> defaults to 0.3.\<close>

definition FamilyCorrelation_init :: "real option \<Rightarrow> FamilyCorrelation" where
  "FamilyCorrelation_init rate =
     \<lparr>spillover_rate = (case rate of Some r \<Rightarrow> r | None \<Rightarrow> 3 / 10),
      families = (\<lambda>_. []), id_to_family = Map.empty\<rparr>"

definition family_key :: "AttackTechnique \<Rightarrow> string" where
  "family_key t =
     (let primary_tag = (case tags t of [] \<Rightarrow> Surface_value (surface t) | tag # _ \<Rightarrow> tag)
      in Domain_value (domain t) @ '':'' @ Surface_value (surface t) @ '':'' @ primary_tag)"

fun register_loop :: "FamilyCorrelation \<Rightarrow> AttackTechnique list \<Rightarrow> FamilyCorrelation" where
  "register_loop c [] = c"
| "register_loop c (t # ts) =
     (let family = family_key t
      in register_loop
           (c\<lparr>families := (families c)(family := List.insert (tid t) (families c family)),
              id_to_family := (id_to_family c)(tid t \<mapsto> family)\<rparr>) ts)"

definition register_techniques :: "FamilyCorrelation \<Rightarrow> AttackTechnique list \<Rightarrow> FamilyCorrelation" where
  "register_techniques c catalog =
     register_loop (c\<lparr>families := (\<lambda>_. []), id_to_family := Map.empty\<rparr>) catalog"

text \<open>\<open>if not family\<close> holds for \<open>None\<close> and for the empty string.\<close>

definition get_siblings :: "FamilyCorrelation \<Rightarrow> string \<Rightarrow> string list" where
  "get_siblings c technique =
     (case id_to_family c technique of
        None \<Rightarrow> []
      | Some family \<Rightarrow> if family = [] then [] else removeAll technique (families c family))"

fun propagate_loop ::
    "real \<Rightarrow> real \<Rightarrow> string list \<Rightarrow> PosteriorState \<Rightarrow> PosteriorState" where
  "propagate_loop rate reward [] st = st"
| "propagate_loop rate reward (sibling_id # rest) st =
     (let (posterior, st1) =
            (case posteriors st sibling_id of
               None \<Rightarrow> get_or_init st sibling_id (1 / 2) None
             | Some stored \<Rightarrow> (stored, st));
          spillover = reward * rate;
          posterior' = posterior\<lparr>alpha := alpha posterior + spillover,
                                 beta := beta posterior + (1 - reward) * rate\<rparr>
      in propagate_loop rate reward rest
           (st1\<lparr>posteriors := (posteriors st1)(sibling_id \<mapsto> posterior')\<rparr>))"

definition propagate_update ::
    "FamilyCorrelation \<Rightarrow> string \<Rightarrow> real \<Rightarrow> PosteriorState \<Rightarrow> PosteriorState" where
  "propagate_update c observed_id reward st =
     (let siblings = get_siblings c observed_id
      in if siblings = [] then st
         else propagate_loop (spillover_rate c) reward siblings st)"

section \<open>Benchmark priors (planner/priors.py)\<close>

definition BENCHMARK_ASR :: "(string \<times> real) list" where
  "BENCHMARK_ASR =
     [(''llm:guardrail:jailbreak'', 55 / 100),
      (''llm:guardrail:pair'', 60 / 100),
      (''llm:guardrail:tap'', 65 / 100),
      (''llm:guardrail:crescendo'', 55 / 100),
      (''llm:guardrail:encoding'', 40 / 100),
      (''llm:guardrail:multilingual'', 45 / 100),
      (''llm:guardrail:persona'', 50 / 100),
      (''llm:guardrail:few-shot'', 50 / 100),
      (''llm:guardrail:prefix'', 35 / 100),
      (''llm:guardrail:gcg'', 25 / 100),
      (''llm:guardrail:injection'', 50 / 100),
      (''llm:model:extraction'', 30 / 100),
      (''llm:model:memorization'', 35 / 100),
      (''agent:tool:agent'', 35 / 100),
      (''agent:tool:injection'', 40 / 100),
      (''agent:action:agent'', 30 / 100),
      (''agent:data:agent'', 35 / 100),
      (''rag:retrieval:rag'', 40 / 100),
      (''rag:retrieval:injection'', 45 / 100),
      (''rag:data:poisoning'', 50 / 100),
      (''aml:model:adversarial-examples'', 70 / 100),
      (''aml:model:evasion'', 60 / 100),
      (''aml:model:poisoning'', 55 / 100),
      (''aml:model:backdoor'', 45 / 100),
      (''aml:model:inversion'', 20 / 100),
      (''aml:model:membership-inference'', 25 / 100),
      (''agent:action:a2a'', 25 / 100),
      (''agent:tool:a2a'', 30 / 100),
      (''agent:data:a2a'', 25 / 100),
      (''agent:tool:mcp'', 35 / 100),
      (''agent:tool:mcp-schema'', 30 / 100),
      (''agent:tool:mcp-squat'', 20 / 100),
      (''agent:action:delegation'', 30 / 100),
      (''agent:data:memory-poisoning'', 35 / 100),
      (''agent:data:observation'', 25 / 100)]"

definition DEFAULT_ASR :: real where
  "DEFAULT_ASR = 40 / 100"

definition get_benchmark_prior :: "string \<Rightarrow> real" where
  "get_benchmark_prior family =
     (let raw = (case map_of BENCHMARK_ASR family of Some v \<Rightarrow> v | None \<Rightarrow> DEFAULT_ASR)
      in max (5 / 100) (min (95 / 100) raw))"

section \<open>Hard filters (prioritizer/filters.py)\<close>

fun ACCESS_ORDER :: "AccessLevel \<Rightarrow> int" where
  "ACCESS_ORDER BLACK_BOX = 0"
| "ACCESS_ORDER GRAY_BOX = 1"
| "ACCESS_ORDER WHITE_BOX = 2"

definition is_target_type_compatible :: "AttackTechnique \<Rightarrow> TargetProfile \<Rightarrow> bool" where
  "is_target_type_compatible technique target =
     (if target_types technique = [] then True
      else target_type target \<in> set (target_types technique))"

definition is_access_sufficient :: "AttackTechnique \<Rightarrow> TargetProfile \<Rightarrow> bool" where
  "is_access_sufficient technique target =
     (ACCESS_ORDER (access_level target) \<ge> ACCESS_ORDER (access_required technique))"

definition is_within_budget :: "AttackTechnique \<Rightarrow> TargetProfile \<Rightarrow> bool" where
  "is_within_budget technique target =
     (case max_technique_cost (constraints target) of
        Some max_cost \<Rightarrow> \<not> (base_cost technique > max_cost)
      | None \<Rightarrow> True)"

definition is_goal_relevant :: "AttackTechnique \<Rightarrow> TargetProfile \<Rightarrow> bool" where
  "is_goal_relevant technique target =
     (if goals target = [] then True
      else set (goals_supported technique) \<inter> set (goals target) \<noteq> {})"

definition passes_all_filters :: "AttackTechnique \<Rightarrow> TargetProfile \<Rightarrow> bool" where
  "passes_all_filters technique target =
     (is_target_type_compatible technique target \<and> is_access_sufficient technique target
      \<and> is_within_budget technique target \<and> is_goal_relevant technique target)"

section \<open>Scorers (prioritizer/scorers.py)\<close>

text \<open>
  The threshold table is keyed by section and key; the pairs the scorers read are the
  constructors of \<open>threshold_key\<close>. A configured table \<open>thresholds\<close> gives a value for
  some of them (\<open>None\<close>, an empty table or a missing key: no value), and \<open>th_get\<close>
  (the source's \<open>_get\<close>) falls back to \<open>DEFAULT_THRESHOLDS\<close>.
\<close>

datatype threshold_key =
    DefenseBypass_no_defenses_baseline | DefenseBypass_min_bypass_likelihood
  | DefenseBypass_defense_impact_factor
  | SignalGain_untried_score | SignalGain_default_score | SignalGain_inconclusive_score
  | SignalGain_already_tested_score
  | Compatibility_exact_match | Compatibility_no_types_listed | Compatibility_no_match
  | AccessFit_exact_match | AccessFit_overqualified_floor | AccessFit_overqualified_decay
  | StealthPenalty_overt | StealthPenalty_moderate | StealthPenalty_covert
  | DetectionRisk_moderate_multiplier

fun DEFAULT_THRESHOLDS :: "threshold_key \<Rightarrow> real" where
  "DEFAULT_THRESHOLDS DefenseBypass_no_defenses_baseline = 8 / 10"
| "DEFAULT_THRESHOLDS DefenseBypass_min_bypass_likelihood = 1 / 10"
| "DEFAULT_THRESHOLDS DefenseBypass_defense_impact_factor = 7 / 10"
| "DEFAULT_THRESHOLDS SignalGain_untried_score = 1"
| "DEFAULT_THRESHOLDS SignalGain_default_score = 7 / 10"
| "DEFAULT_THRESHOLDS SignalGain_inconclusive_score = 5 / 10"
| "DEFAULT_THRESHOLDS SignalGain_already_tested_score = 1 / 10"
| "DEFAULT_THRESHOLDS Compatibility_exact_match = 1"
| "DEFAULT_THRESHOLDS Compatibility_no_types_listed = 5 / 10"
| "DEFAULT_THRESHOLDS Compatibility_no_match = 0"
| "DEFAULT_THRESHOLDS AccessFit_exact_match = 1"
| "DEFAULT_THRESHOLDS AccessFit_overqualified_floor = 5 / 10"
| "DEFAULT_THRESHOLDS AccessFit_overqualified_decay = 2 / 10"
| "DEFAULT_THRESHOLDS StealthPenalty_overt = 1"
| "DEFAULT_THRESHOLDS StealthPenalty_moderate = 5 / 10"
| "DEFAULT_THRESHOLDS StealthPenalty_covert = 1 / 10"
| "DEFAULT_THRESHOLDS DetectionRisk_moderate_multiplier = 5 / 10"

type_synonym thresholds = "threshold_key \<Rightarrow> real option"

definition no_thresholds :: thresholds where
  "no_thresholds = (\<lambda>_. None)"

definition th_get :: "thresholds \<Rightarrow> threshold_key \<Rightarrow> real" where
  "th_get th key = (case th key of Some v \<Rightarrow> v | None \<Rightarrow> DEFAULT_THRESHOLDS key)"

definition score_compatibility :: "AttackTechnique \<Rightarrow> TargetProfile \<Rightarrow> thresholds \<Rightarrow> real" where
  "score_compatibility technique target th =
     (if target_types technique = [] then th_get th Compatibility_no_types_listed
      else if target_type target \<in> set (target_types technique)
        then th_get th Compatibility_exact_match
      else th_get th Compatibility_no_match)"

definition score_access_fit :: "AttackTechnique \<Rightarrow> TargetProfile \<Rightarrow> thresholds \<Rightarrow> real" where
  "score_access_fit technique target th =
     (let available = ACCESS_ORDER (access_level target);
          required = ACCESS_ORDER (access_required technique)
      in if available < required then 0
         else if available = required then th_get th AccessFit_exact_match
         else (let floor = th_get th AccessFit_overqualified_floor;
                   decay = th_get th AccessFit_overqualified_decay
               in max floor (1 - decay * real_of_int (available - required))))"

text \<open>\<open>len(set(a) & set(b))\<close> is the number of distinct members of \<open>a\<close> that are in \<open>b\<close>.\<close>

definition score_goal_fit :: "AttackTechnique \<Rightarrow> TargetProfile \<Rightarrow> real" where
  "score_goal_fit technique target =
     (if goals target = [] then 1 / 2
      else if goals_supported technique = [] then 0
      else (let overlap = length (remdups (filter (\<lambda>g. g \<in> set (goals target))
                                              (goals_supported technique)))
            in real overlap / real (length (goals target))))"

definition DEFENSE_SURFACE_MAP :: "((DefenseProfile \<Rightarrow> bool) \<times> Surface) list" where
  "DEFENSE_SURFACE_MAP =
     [(has_moderation, GUARDRAIL),
      (has_input_filtering, GUARDRAIL),
      (has_output_filtering, GUARDRAIL),
      (has_prompt_injection_detection, MODEL),
      (has_schema_validation, TOOL),
      (has_rate_limiting, MODEL)]"

definition score_defense_bypass_likelihood ::
    "AttackTechnique \<Rightarrow> TargetProfile \<Rightarrow> thresholds \<Rightarrow> real" where
  "score_defense_bypass_likelihood technique target th =
     (let relevant = filter (\<lambda>(defense_field, s). s = surface technique) DEFENSE_SURFACE_MAP;
          relevant_defenses = length relevant;
          active_defenses = length (filter (\<lambda>(defense_field, s). defense_field (defenses target))
                                      relevant)
      in if relevant_defenses = 0 then th_get th DefenseBypass_no_defenses_baseline
         else (let min_val = th_get th DefenseBypass_min_bypass_likelihood;
                   impact = th_get th DefenseBypass_defense_impact_factor
               in max min_val (1 - (real active_defenses / real relevant_defenses) * impact)))"

text \<open>\<open>not prior_results\<close> holds for \<open>None\<close> and for the empty list.\<close>

definition score_signal_gain ::
    "AttackTechnique \<Rightarrow> EvaluationResult list option \<Rightarrow> thresholds \<Rightarrow> real" where
  "score_signal_gain technique prior_results th =
     (case prior_results of
        None \<Rightarrow> th_get th SignalGain_default_score
      | Some results \<Rightarrow>
          if results = [] then th_get th SignalGain_default_score
          else (let tried_techniques = set (map eval_technique_id results)
                in if tid technique \<notin> tried_techniques then th_get th SignalGain_untried_score
                   else (let technique_results =
                               filter (\<lambda>r. eval_technique_id r = tid technique) results;
                             inconclusive =
                               length (filter (\<lambda>r. success r = None) technique_results)
                         in if inconclusive > 0 then th_get th SignalGain_inconclusive_score
                            else th_get th SignalGain_already_tested_score)))"

definition score_cost_penalty :: "AttackTechnique \<Rightarrow> real" where
  "score_cost_penalty technique = base_cost technique"

definition score_detection_risk_penalty ::
    "AttackTechnique \<Rightarrow> TargetProfile \<Rightarrow> thresholds \<Rightarrow> real" where
  "score_detection_risk_penalty technique target th =
     (if stealth_priority (constraints target) = OVERT then 0
      else (let technique_risk =
                  (case stealth_profile technique of
                     OVERT \<Rightarrow> th_get th StealthPenalty_overt
                   | MODERATE \<Rightarrow> th_get th StealthPenalty_moderate
                   | COVERT \<Rightarrow> th_get th StealthPenalty_covert)
            in if stealth_priority (constraints target) = COVERT then technique_risk
               else technique_risk * th_get th DetectionRisk_moderate_multiplier))"

section \<open>Plans (models/plan.py)\<close>

record ScoreBreakdown =
  compatibility :: real
  access_fit :: real
  goal_fit :: real
  defense_bypass_likelihood :: real
  signal_gain :: real
  cost_penalty :: real
  detection_risk_penalty :: real
  diversity_bonus :: real
  thompson_sample :: "real option"
  utility :: "real option"
  total :: real
  confidence_interval :: "(real \<times> real) option"
  posterior_variance :: "real option"
  sb_observations :: int

definition ScoreBreakdown_default :: ScoreBreakdown where
  "ScoreBreakdown_default =
     \<lparr>compatibility = 0, access_fit = 0, goal_fit = 0, defense_bypass_likelihood = 0,
      signal_gain = 0, cost_penalty = 0, detection_risk_penalty = 0, diversity_bonus = 0,
      thompson_sample = None, utility = None, total = 0, confidence_interval = None,
      posterior_variance = None, sb_observations = 0\<rparr>"

record StructuredRationale =
  prior_source :: string
  prior_asr :: real
  sr_observations :: int
  posterior_mean :: real
  sr_confidence_interval :: "real list"
  family :: string
  siblings_observed :: int
  key_factors :: "string list"

record PlanEntry =
  rank :: int
  entry_technique_id :: string
  technique_name :: string
  entry_score :: ScoreBreakdown
  rationale :: string
  entry_tags :: "string list"
  structured_rationale :: "StructuredRationale option"

text \<open>\<open>config_used\<close> and a snapshot's \<open>planner_config\<close> are \<open>dict[str, Any]\<close>.\<close>

datatype cfg_value = CBool bool | CInt int | CReal real | CStr string

type_synonym config_dict = "(string \<times> cfg_value) list"

record AttackPlan =
  plan_target :: TargetProfile
  entries :: "PlanEntry list"
  config_used :: config_dict

definition technique_ids :: "AttackPlan \<Rightarrow> string list" where
  "technique_ids plan = map entry_technique_id (entries plan)"

section \<open>Python library functions\<close>

text \<open>
  The standard-library functions the planner calls are parameters of the model:
  \<open>sha256\<close> is \<open>hashlib.sha256(s.encode()).digest()\<close> read as a 256-bit big-endian
  number, \<open>Random\<close> is \<open>random.Random(seed)\<close>, \<open>betavariate\<close> draws from a generator
  and returns the value with the advanced generator (\<open>None\<close>: it raised
  \<open>ValueError\<close>), \<open>format_2f\<close> is \<open>format(x, ".2f")\<close>, \<open>py_hash\<close> is the built-in
  \<open>hash\<close> on strings.
\<close>

record 'r py_lib =
  sha256 :: "string \<Rightarrow> nat"
  Random :: "nat \<Rightarrow> 'r"
  betavariate :: "'r \<Rightarrow> real \<Rightarrow> real \<Rightarrow> (real \<times> 'r) option"
  format_2f :: "real \<Rightarrow> string"
  py_hash :: "string \<Rightarrow> int"

text \<open>\<open>str(n)\<close> for an \<open>int\<close>, and \<open>sep.join(parts)\<close>.\<close>

definition digit_char :: "nat \<Rightarrow> char" where
  "digit_char d = char_of (48 + d)"

fun str_nat :: "nat \<Rightarrow> string" where
  "str_nat n = (if n < 10 then [digit_char n] else str_nat (n div 10) @ [digit_char (n mod 10)])"

definition str_int :: "int \<Rightarrow> string" where
  "str_int i = (if i < 0 then ''-'' @ str_nat (nat (- i)) else str_nat (nat i))"

fun join :: "string \<Rightarrow> string list \<Rightarrow> string" where
  "join sep [] = []"
| "join sep [p] = p"
| "join sep (p # q # ps) = p @ sep @ join sep (q # ps)"

text \<open>\<open>xs[:n]\<close>: a negative \<open>n\<close> counts from the end.\<close>

definition slice_to :: "'a list \<Rightarrow> int \<Rightarrow> 'a list" where
  "slice_to xs n = (if n < 0 then take (nat (int (length xs) + n)) xs else take (nat n) xs)"

text \<open>\<open>xs.sort(key=f, reverse=True)\<close>: a stable sort by descending key.\<close>

definition sort_desc :: "('a \<Rightarrow> real) \<Rightarrow> 'a list \<Rightarrow> 'a list" where
  "sort_desc f xs = sort_key (\<lambda>x. - f x) xs"

fun TargetType_value :: "TargetType \<Rightarrow> string" where
  "TargetType_value CLASSIFIER = ''classifier''"
| "TargetType_value CHATBOT = ''chatbot''"
| "TargetType_value RAG = ''rag''"
| "TargetType_value AGENT_TARGET = ''agent''"
| "TargetType_value MODERATION = ''moderation''"
| "TargetType_value EMBEDDING = ''embedding''"
| "TargetType_value MULTI_AGENT_SYSTEM = ''multi_agent_system''"
| "TargetType_value MCP_CLIENT = ''mcp_client''"

fun Goal_value :: "Goal \<Rightarrow> string" where
  "Goal_value EVASION = ''evasion''"
| "Goal_value JAILBREAK = ''jailbreak''"
| "Goal_value EXFIL_SIM = ''exfil_sim''"
| "Goal_value EXTRACTION = ''extraction''"
| "Goal_value TOOL_MISUSE = ''tool_misuse''"
| "Goal_value POISONING = ''poisoning''"
| "Goal_value DOS = ''dos''"

section \<open>Prioritizer engine (prioritizer/engine.py)\<close>

datatype weight_key = W_compatibility | W_access_fit | W_goal_fit | W_defense_bypass_likelihood
  | W_signal_gain | W_cost_penalty | W_detection_risk_penalty

text \<open>
  The engine after \<open>__init__\<close>: the \<open>weights\<close> table of the configuration,
  \<open>scorer_thresholds\<close>, \<open>filters.max_cost\<close>, \<open>diversity.same_triple_penalty\<close> and the
  configuration itself as it is copied into a plan's \<open>config_used\<close>.
\<close>

record PrioritizerEngine =
  weights :: "weight_key \<Rightarrow> real option"
  scorer_thresholds :: thresholds
  filters_max_cost :: "real option"
  same_triple_penalty :: "real option"
  engine_config :: config_dict

definition w_get :: "PrioritizerEngine \<Rightarrow> weight_key \<Rightarrow> real \<Rightarrow> real" where
  "w_get e k d = (case weights e k of Some v \<Rightarrow> v | None \<Rightarrow> d)"

definition compute_score_range :: "PrioritizerEngine \<Rightarrow> real \<times> real" where
  "compute_score_range e =
     (let pos_sum = sum_list (map (\<lambda>k. w_get e k 0)
                      [W_compatibility, W_access_fit, W_goal_fit, W_defense_bypass_likelihood,
                       W_signal_gain]);
          neg_sum = sum_list (map (\<lambda>k. w_get e k 0) [W_cost_penalty, W_detection_risk_penalty])
      in (- neg_sum, pos_sum))"

definition normalize_score :: "PrioritizerEngine \<Rightarrow> real \<Rightarrow> real" where
  "normalize_score e raw =
     (let score_lo = fst (compute_score_range e);
          score_hi = snd (compute_score_range e);
          span = score_hi - score_lo
      in if span \<le> 0 then 1 / 2
         else max 0 (min 1 ((raw - score_lo) / span)))"

definition score_technique ::
    "PrioritizerEngine \<Rightarrow> AttackTechnique \<Rightarrow> TargetProfile \<Rightarrow> EvaluationResult list option
     \<Rightarrow> ScoreBreakdown" where
  "score_technique e technique target prior_results =
     (let th = scorer_thresholds e;
          compatibility_s = score_compatibility technique target th;
          access_fit_s = score_access_fit technique target th;
          goal_fit_s = score_goal_fit technique target;
          defense_bypass = score_defense_bypass_likelihood technique target th;
          signal = score_signal_gain technique prior_results th;
          cost = score_cost_penalty technique;
          detection = score_detection_risk_penalty technique target th;
          total_s = w_get e W_compatibility 1 * compatibility_s
                  + w_get e W_access_fit (8 / 10) * access_fit_s
                  + w_get e W_goal_fit 1 * goal_fit_s
                  + w_get e W_defense_bypass_likelihood (7 / 10) * defense_bypass
                  + w_get e W_signal_gain (5 / 10) * signal
                  - w_get e W_cost_penalty (4 / 10) * cost
                  - w_get e W_detection_risk_penalty (3 / 10) * detection
      in ScoreBreakdown_default
           \<lparr>compatibility := compatibility_s, access_fit := access_fit_s, goal_fit := goal_fit_s,
            defense_bypass_likelihood := defense_bypass, signal_gain := signal,
            cost_penalty := cost, detection_risk_penalty := detection, total := total_s\<rparr>)"

definition apply_hard_filters ::
    "PrioritizerEngine \<Rightarrow> AttackTechnique list \<Rightarrow> TargetProfile \<Rightarrow> AttackTechnique list" where
  "apply_hard_filters e techniques target =
     (let max_cost = (case filters_max_cost e of Some m \<Rightarrow> m | None \<Rightarrow> 1)
      in filter (\<lambda>t. passes_all_filters t target \<and> base_cost t \<le> max_cost) techniques)"

type_synonym ScoredTechnique = "AttackTechnique \<times> ScoreBreakdown"

definition score_techniques ::
    "PrioritizerEngine \<Rightarrow> AttackTechnique list \<Rightarrow> TargetProfile \<Rightarrow> EvaluationResult list option
     \<Rightarrow> ScoredTechnique list" where
  "score_techniques e techniques target prior_results =
     map (\<lambda>t. (t, score_technique e t target prior_results)) techniques"

fun diversity_loop ::
    "real \<Rightarrow> ((string \<times> string \<times> string) \<rightharpoonup> nat) \<Rightarrow> ScoredTechnique list
     \<Rightarrow> ScoredTechnique list" where
  "diversity_loop penalty seen_triples [] = []"
| "diversity_loop penalty seen_triples ((t, b) # rest) =
     (let triple = (Domain_value (domain t), Phase_value (phase t), Surface_value (surface t));
          count = (case seen_triples triple of Some c \<Rightarrow> c | None \<Rightarrow> 0);
          b' = (if count > 0
                then b\<lparr>diversity_bonus := - penalty * real count,
                       total := total b + (- penalty * real count)\<rparr>
                else b)
      in (t, b') # diversity_loop penalty (seen_triples(triple \<mapsto> count + 1)) rest)"

definition apply_diversity_bonus ::
    "PrioritizerEngine \<Rightarrow> ScoredTechnique list \<Rightarrow> ScoredTechnique list" where
  "apply_diversity_bonus e scored =
     (let penalty = (case same_triple_penalty e of Some p \<Rightarrow> p | None \<Rightarrow> 15 / 100)
      in diversity_loop penalty Map.empty (sort_desc (\<lambda>s. total (snd s)) scored))"

definition generate_rationale ::
    "'r py_lib \<Rightarrow> ScoredTechnique \<Rightarrow> TargetProfile \<Rightarrow> string" where
  "generate_rationale lib scored target =
     (let t = fst scored; b = snd scored;
          parts =
            (if compatibility b \<ge> 8 / 10
             then [''strong fit for '' @ TargetType_value (target_type target) @ '' targets'']
             else [])
          @ (if goal_fit b \<ge> 8 / 10
             then [''directly addresses goal(s): ''
                   @ join '', '' (map Goal_value
                        (filter (\<lambda>g. g \<in> set (goals target)) (goals_supported t)))]
             else [])
          @ (if defense_bypass_likelihood b \<ge> 7 / 10
             then [''likely to bypass observed defenses on '' @ Surface_value (surface t)
                   @ '' layer'']
             else [])
          @ (if signal_gain b \<ge> 8 / 10 then [''high information gain (untried technique)'']
             else [])
          @ (if cost_penalty b \<le> 3 / 10 then [''low cost''] else [])
          @ (if cost_penalty b \<ge> 7 / 10 then [''high cost - consider budget''] else []);
          parts' = (if parts = [] then [''moderate fit across scoring dimensions''] else parts)
      in join ''; '' parts' @ '' [total='' @ format_2f lib (total b) @ '']'')"

definition build_plan ::
    "'r py_lib \<Rightarrow> PrioritizerEngine \<Rightarrow> ScoredTechnique list \<Rightarrow> TargetProfile \<Rightarrow> AttackPlan" where
  "build_plan lib e scored target =
     \<lparr>plan_target = target,
      entries = map (\<lambda>(i, s).
                  \<lparr>rank = int i + 1, entry_technique_id = tid (fst s),
                   technique_name = name (fst s), entry_score = snd s,
                   rationale = generate_rationale lib s target, entry_tags = tags (fst s),
                   structured_rationale = None\<rparr>)
                (enumerate 0 scored),
      config_used = engine_config e\<rparr>"

text \<open>
  \<open>PrioritizerEngine.plan\<close>; \<open>if max_techniques\<close> is false for \<open>None\<close> and for 0, and the
  list is then not cut.
\<close>

definition engine_plan ::
    "'r py_lib \<Rightarrow> PrioritizerEngine \<Rightarrow> TargetProfile \<Rightarrow> AttackTechnique list
     \<Rightarrow> EvaluationResult list option \<Rightarrow> int option \<Rightarrow> AttackPlan" where
  "engine_plan lib e target registry prior_results max_techniques =
     (let filtered = apply_hard_filters e registry target;
          scored = score_techniques e filtered target prior_results;
          scored1 = apply_diversity_bonus e scored;
          scored2 = sort_desc (\<lambda>s. total (snd s)) scored1;
          scored3 = (case max_techniques of
                       None \<Rightarrow> scored2
                     | Some m \<Rightarrow> if m = 0 then scored2 else slice_to scored2 m)
      in build_plan lib e scored3 target)"

section \<open>Cost-aware utility (planner/cost_aware.py)\<close>

definition GOAL_SEVERITY :: "(Goal \<times> real) list" where
  "GOAL_SEVERITY =
     [(EXFIL_SIM, 1), (TOOL_MISUSE, 95 / 100), (EXTRACTION, 9 / 10), (JAILBREAK, 8 / 10),
      (EVASION, 7 / 10), (POISONING, 1), (DOS, 6 / 10)]"

definition SURFACE_CRITICALITY :: "(Surface \<times> real) list" where
  "SURFACE_CRITICALITY =
     [(ACTION, 95 / 100), (DATA, 9 / 10), (TOOL, 85 / 100), (RETRIEVAL, 8 / 10),
      (MODEL, 7 / 10), (GUARDRAIL, 6 / 10)]"

text \<open>\<open>d or None\<close> and \<open>d or DEFAULT\<close>: an empty dictionary counts as absent.\<close>

definition or_None :: "'a list \<Rightarrow> 'a list option" where
  "or_None d = (if d = [] then None else Some d)"

definition or_default :: "'a list option \<Rightarrow> 'a list \<Rightarrow> 'a list" where
  "or_default d dflt = (case d of None \<Rightarrow> dflt | Some v \<Rightarrow> if v = [] then dflt else v)"

definition dict_get :: "('k \<times> real) list \<Rightarrow> 'k \<Rightarrow> real \<Rightarrow> real" where
  "dict_get d k dflt = (case map_of d k of Some v \<Rightarrow> v | None \<Rightarrow> dflt)"

definition compute_impact_weight ::
    "AttackTechnique \<Rightarrow> Goal list \<Rightarrow> (Goal \<times> real) list option
     \<Rightarrow> (Surface \<times> real) list option \<Rightarrow> real" where
  "compute_impact_weight technique target_goals goal_severity surface_criticality =
     (let goal_sev = or_default goal_severity GOAL_SEVERITY;
          surf_crit = or_default surface_criticality SURFACE_CRITICALITY;
          relevant_goals = filter (\<lambda>g. g \<in> set (goals_supported technique)) target_goals;
          max_goal_sev = (if relevant_goals = [] then 0
                          else Max (set (map (\<lambda>g. dict_get goal_sev g (1 / 2)) relevant_goals)));
          surf_weight = dict_get surf_crit (surface technique) (1 / 2)
      in max_goal_sev * surf_weight)"

definition compute_cost :: "AttackTechnique \<Rightarrow> real \<Rightarrow> real" where
  "compute_cost technique max_cost = min (base_cost technique / max max_cost (1 / 100)) 1"

definition compute_utility :: "real \<Rightarrow> real \<Rightarrow> real \<Rightarrow> real \<Rightarrow> real \<Rightarrow> real \<Rightarrow> real \<Rightarrow> real" where
  "compute_utility success_prob impact_weight cost cost_weight_l info_gain_bonus
       detection_penalty diversity_bonus_v =
     success_prob * impact_weight + info_gain_bonus + diversity_bonus_v - detection_penalty
       - cost_weight_l * cost"

section \<open>Diversity tracker (planner/diversity.py)\<close>

record FamilyTracker =
  min_surface_coverage :: int
  untested_layer_bonus :: real
  repeat_family_penalty :: real
  below_coverage_bonus :: real
  tried_families :: "string set"
  surface_counts :: "Surface \<rightharpoonup> int"

text \<open>The keyword arguments of the constructor, each optional.\<close>

record DiversityConfig =
  cfg_min_surface_coverage :: "int option"
  cfg_untested_layer_bonus :: "real option"
  cfg_repeat_family_penalty :: "real option"
  cfg_below_coverage_bonus :: "real option"

definition no_diversity_config :: DiversityConfig where
  "no_diversity_config =
     \<lparr>cfg_min_surface_coverage = None, cfg_untested_layer_bonus = None,
      cfg_repeat_family_penalty = None, cfg_below_coverage_bonus = None\<rparr>"

definition FamilyTracker_init :: "DiversityConfig \<Rightarrow> FamilyTracker" where
  "FamilyTracker_init cfg =
     \<lparr>min_surface_coverage = (case cfg_min_surface_coverage cfg of Some v \<Rightarrow> v | None \<Rightarrow> 1),
      untested_layer_bonus = (case cfg_untested_layer_bonus cfg of Some v \<Rightarrow> v | None \<Rightarrow> 3 / 10),
      repeat_family_penalty =
        (case cfg_repeat_family_penalty cfg of Some v \<Rightarrow> v | None \<Rightarrow> 15 / 100),
      below_coverage_bonus =
        (case cfg_below_coverage_bonus cfg of Some v \<Rightarrow> v | None \<Rightarrow> 15 / 100),
      tried_families = {}, surface_counts = Map.empty\<rparr>"

definition tracker_family_key :: "AttackTechnique \<Rightarrow> string" where
  "tracker_family_key t =
     (let primary_tag = (case tags t of [] \<Rightarrow> ''none'' | tag # _ \<Rightarrow> tag)
      in Domain_value (domain t) @ '':'' @ Surface_value (surface t) @ '':'' @ primary_tag)"

definition mark_tried :: "FamilyTracker \<Rightarrow> AttackTechnique \<Rightarrow> FamilyTracker" where
  "mark_tried tr t =
     tr\<lparr>tried_families := insert (tracker_family_key t) (tried_families tr),
        surface_counts := (surface_counts tr)
          (surface t \<mapsto> (case surface_counts tr (surface t) of Some c \<Rightarrow> c | None \<Rightarrow> 0) + 1)\<rparr>"

definition compute_diversity_bonus :: "FamilyTracker \<Rightarrow> AttackTechnique \<Rightarrow> real" where
  "compute_diversity_bonus tr t =
     (let bonus0 = (case surface_counts tr (surface t) of
                      None \<Rightarrow> untested_layer_bonus tr
                    | Some c \<Rightarrow> if c < min_surface_coverage tr then below_coverage_bonus tr else 0)
      in if tracker_family_key t \<in> tried_families tr then bonus0 - repeat_family_penalty tr
         else bonus0)"

section \<open>Reward policies (planner/reward.py)\<close>

datatype RewardPolicy = BinaryRewardPolicy | WeightedRewardPolicy

fun compute_reward :: "RewardPolicy \<Rightarrow> EvaluationResult \<Rightarrow> real option" where
  "compute_reward BinaryRewardPolicy evaluation =
     (case success evaluation of None \<Rightarrow> None | Some s \<Rightarrow> Some (if s then 1 else 0))"
| "compute_reward WeightedRewardPolicy evaluation =
     (case score evaluation of
        Some sc \<Rightarrow> Some (max 0 (min 1 sc))
      | None \<Rightarrow> (case success evaluation of None \<Rightarrow> None | Some s \<Rightarrow> Some (if s then 1 else 0)))"

section \<open>Adaptive planner (planner/adaptive.py)\<close>

record AdaptivePlanner =
  engine :: PrioritizerEngine
  reward_policy :: RewardPolicy
  campaign_seed :: int
  planner_prior_strength :: real
  info_gain_weight :: real
  detection_penalty_weight :: real
  cost_weight :: real
  use_benchmark_priors :: bool
  benchmark_blend_weight :: real
  goal_severity :: "(Goal \<times> real) list"
  surface_criticality :: "(Surface \<times> real) list"
  correlation :: "FamilyCorrelation option"
  diversity_config :: DiversityConfig
  planner_max_cost :: "real option"

text \<open>
  The parsed configuration document as the constructor reads it: the \<open>adaptive\<close>,
  \<open>cost_aware\<close>, \<open>correlation\<close>, \<open>diversity_v2\<close> and \<open>filters\<close> sections, every key
  optional.
\<close>

record PlannerConfig =
  cfg_prior_strength :: "real option"
  cfg_info_gain_weight :: "real option"
  cfg_detection_penalty_weight :: "real option"
  cfg_cost_weight :: "real option"
  cfg_use_benchmark_priors :: "bool option"
  cfg_benchmark_blend_weight :: "real option"
  cfg_goal_severity :: "(Goal \<times> real) list"
  cfg_surface_criticality :: "(Surface \<times> real) list"
  cfg_correlation_enabled :: "bool option"
  cfg_spillover_rate :: "real option"
  cfg_diversity_v2 :: DiversityConfig
  cfg_max_cost :: "real option"

definition empty_config :: PlannerConfig where
  "empty_config =
     \<lparr>cfg_prior_strength = None, cfg_info_gain_weight = None,
      cfg_detection_penalty_weight = None, cfg_cost_weight = None,
      cfg_use_benchmark_priors = None, cfg_benchmark_blend_weight = None,
      cfg_goal_severity = [], cfg_surface_criticality = [], cfg_correlation_enabled = None,
      cfg_spillover_rate = None, cfg_diversity_v2 = no_diversity_config, cfg_max_cost = None\<rparr>"

text \<open>
  \<open>AdaptivePlanner.__init__\<close>. \<open>randint\<close> is the value that
  \<open>random.randint(0, 2**31 - 1)\<close> returns when it is called:
  \<open>campaign_seed or random.randint(...)\<close> draws it for \<open>None\<close> and for the seed 0.
\<close>

definition AdaptivePlanner_init ::
    "PlannerConfig \<Rightarrow> PrioritizerEngine \<Rightarrow> RewardPolicy option \<Rightarrow> int option
     \<Rightarrow> FamilyCorrelation option \<Rightarrow> int \<Rightarrow> AdaptivePlanner" where
  "AdaptivePlanner_init cfg eng policy seed corr randint =
     \<lparr>engine = eng,
      reward_policy = (case policy of Some p \<Rightarrow> p | None \<Rightarrow> BinaryRewardPolicy),
      campaign_seed = (case seed of Some s \<Rightarrow> if s \<noteq> 0 then s else randint | None \<Rightarrow> randint),
      planner_prior_strength = (case cfg_prior_strength cfg of Some v \<Rightarrow> v | None \<Rightarrow> 3),
      info_gain_weight = (case cfg_info_gain_weight cfg of Some v \<Rightarrow> v | None \<Rightarrow> 3 / 10),
      detection_penalty_weight =
        (case cfg_detection_penalty_weight cfg of Some v \<Rightarrow> v | None \<Rightarrow> 2 / 10),
      cost_weight = (case cfg_cost_weight cfg of Some v \<Rightarrow> v | None \<Rightarrow> 4 / 10),
      use_benchmark_priors = (case cfg_use_benchmark_priors cfg of Some v \<Rightarrow> v | None \<Rightarrow> True),
      benchmark_blend_weight =
        (case cfg_benchmark_blend_weight cfg of Some v \<Rightarrow> v | None \<Rightarrow> 6 / 10),
      goal_severity = cfg_goal_severity cfg,
      surface_criticality = cfg_surface_criticality cfg,
      correlation =
        (case corr of
           Some c \<Rightarrow> Some c
         | None \<Rightarrow>
             if (case cfg_correlation_enabled cfg of Some v \<Rightarrow> v | None \<Rightarrow> True)
             then Some (FamilyCorrelation_init
                          (Some (case cfg_spillover_rate cfg of Some v \<Rightarrow> v | None \<Rightarrow> 3 / 10)))
             else None),
      diversity_config = cfg_diversity_v2 cfg,
      planner_max_cost = cfg_max_cost cfg\<rparr>"

definition derive_step_seed :: "'r py_lib \<Rightarrow> AdaptivePlanner \<Rightarrow> int \<Rightarrow> nat" where
  "derive_step_seed lib p step_number =
     sha256 lib (str_int (campaign_seed p) @ '':'' @ str_int step_number) div 2 ^ 224"

definition compute_v1_base_score ::
    "AdaptivePlanner \<Rightarrow> AttackTechnique \<Rightarrow> TargetProfile \<Rightarrow> EvaluationResult list \<Rightarrow> real" where
  "compute_v1_base_score p technique target prior_results =
     normalize_score (engine p)
       (total (score_technique (engine p) technique target (Some prior_results)))"

definition compute_blended_prior :: "AdaptivePlanner \<Rightarrow> AttackTechnique \<Rightarrow> real \<Rightarrow> real option" where
  "compute_blended_prior p technique base_score =
     (if \<not> use_benchmark_priors p then None
      else (let fam = family_key technique;
                benchmark = get_benchmark_prior fam;
                w = benchmark_blend_weight p
            in Some (w * benchmark + (1 - w) * base_score)))"

definition py_div :: "real \<Rightarrow> real \<Rightarrow> py_error + real" where
  "py_div x y = (if y = 0 then Inl ZeroDivisionError else Inr (x / y))"

definition beta_variance :: "real \<Rightarrow> real \<Rightarrow> py_error + real" where
  "beta_variance a b = py_div (a * b) ((a + b) ^ 2 * (a + b + 1))"

definition compute_info_gain :: "TechniquePosterior \<Rightarrow> py_error + real" where
  "compute_info_gain posterior =
     (case beta_variance (alpha posterior) (beta posterior) of
        Inl e \<Rightarrow> Inl e
      | Inr variance \<Rightarrow> Inr (min (variance * 12) 1))"

definition compute_detection_penalty :: "AttackTechnique \<Rightarrow> real" where
  "compute_detection_penalty technique =
     (case stealth_profile technique of OVERT \<Rightarrow> 5 / 10 | MODERATE \<Rightarrow> 2 / 10 | COVERT \<Rightarrow> 0)"

text \<open>\<open>math.sqrt\<close> raises \<open>ValueError\<close> on a negative argument.\<close>

definition beta_ci :: "real \<Rightarrow> real \<Rightarrow> py_error + (real \<times> real)" where
  "beta_ci a b =
     (let tot = a + b
      in case py_div a tot of
           Inl e \<Rightarrow> Inl e
         | Inr mean_v \<Rightarrow>
             (case py_div (a * b) (tot ^ 2 * (tot + 1)) of
                Inl e \<Rightarrow> Inl e
              | Inr variance \<Rightarrow>
                  if variance < 0 then Inl ValueError
                  else (let std = sqrt variance;
                            lo = max 0 (mean_v - (196 / 100) * std);
                            hi = min 1 (mean_v + (196 / 100) * std)
                        in Inr (lo, hi))))"

record Candidate =
  c_technique :: AttackTechnique
  c_base_score :: real
  c_thompson_sample :: real
  c_impact :: real
  c_cost :: real
  c_info_gain :: real
  c_detection :: real
  c_diversity :: real
  c_repeat_penalty :: real
  c_utility :: real
  c_posterior :: TechniquePosterior

definition extract_key_factors :: "Candidate \<Rightarrow> string list" where
  "extract_key_factors c =
     (if c_diversity c > 2 / 10 then [''targets untested attack surface''] else [])
     @ (if c_info_gain c > 15 / 100 then [''high information gain (uncertain outcome)''] else [])
     @ (if c_cost c < 3 / 10 then [''low execution cost''] else [])
     @ (if c_cost c > 7 / 10 then [''high execution cost''] else [])
     @ (if c_thompson_sample c > 7 / 10 then [''high estimated success probability''] else [])
     @ (if c_thompson_sample c < 3 / 10 then [''low estimated success probability''] else [])
     @ (if c_repeat_penalty c > 0 then [''repeat technique (penalty applied)''] else [])"

definition build_rationale :: "'r py_lib \<Rightarrow> Candidate \<Rightarrow> string" where
  "build_rationale lib c =
     (let obs = observations (c_posterior c);
          parts =
            [if obs = 0
             then ''sampled p='' @ format_2f lib (c_thompson_sample c) @ '' from prior''
             else ''sampled p='' @ format_2f lib (c_thompson_sample c) @ '' (''
                  @ str_int obs @ '' obs)'']
            @ [''utility='' @ format_2f lib (c_utility c)]
            @ (if c_diversity c > 2 / 10 then [''untested surface''] else [])
            @ (if c_repeat_penalty c > 0 then [''repeat penalty applied''] else [])
            @ (if c_info_gain c > 2 / 10 then [''high info gain''] else [])
      in join ''; '' parts)"

section \<open>Weakest-layer analyzer (reporting/analyzer.py)\<close>

record WeakestLayerAnalyzer =
  min_attempts :: int
  z :: real

text \<open>The constructor: \<open>min_attempts\<close> defaults to 3 and \<open>z\<close> to 1.96.\<close>

definition WeakestLayerAnalyzer_init :: "int option \<Rightarrow> real option \<Rightarrow> WeakestLayerAnalyzer" where
  "WeakestLayerAnalyzer_init m zv =
     \<lparr>min_attempts = (case m of Some v \<Rightarrow> v | None \<Rightarrow> 3),
      z = (case zv of Some v \<Rightarrow> v | None \<Rightarrow> 196 / 100)\<rparr>"

definition wilson_center :: "WeakestLayerAnalyzer \<Rightarrow> int \<Rightarrow> int \<Rightarrow> py_error + real" where
  "wilson_center a successes tot =
     (if tot = 0 then Inr 0
      else (let z2 = (z a) ^ 2;
                p = real_of_int successes / real_of_int tot
            in py_div (p + z2 / (2 * real_of_int tot)) (1 + z2 / real_of_int tot)))"

text \<open>
  \<open>math.sqrt\<close> raises \<open>ValueError\<close> on a negative argument, which the interval
  passes on.
\<close>

definition wilson_interval :: "WeakestLayerAnalyzer \<Rightarrow> int \<Rightarrow> int \<Rightarrow> py_error + (real \<times> real)" where
  "wilson_interval a successes tot =
     (if tot = 0 then Inr (0, 1)
      else (let z2 = (z a) ^ 2;
                p = real_of_int successes / real_of_int tot;
                denominator = 1 + z2 / real_of_int tot;
                center = (p + z2 / (2 * real_of_int tot)) / denominator;
                radicand = p * (1 - p) / real_of_int tot + z2 / (4 * real_of_int tot ^ 2)
            in if denominator = 0 then Inl ZeroDivisionError
               else if radicand < 0 then Inl ValueError
               else (let spread = (z a / denominator) * sqrt radicand
                     in Inr (max 0 (center - spread), min 1 (center + spread)))))"

text \<open>
  The evidence of a layer assessment; the texts of caveats and recommendations are left
  out.
\<close>

record EvidenceBundle =
  supporting_attempt_ids :: "string list"
  success_count :: int
  total_attempts :: int
  smoothed_success_rate :: real
  ev_confidence_interval :: "real \<times> real"
  ev_evidence_quality :: real

record LayerAssessment =
  layer :: Surface
  evidence :: "EvidenceBundle option"
  risk_score :: real
  is_insufficient_evidence :: bool
  techniques_tested :: "string list"
  is_primary_weakness :: bool

definition assess_layer ::
    "WeakestLayerAnalyzer \<Rightarrow> Surface \<Rightarrow> EvaluationResult list \<Rightarrow> string list
     \<Rightarrow> py_error + LayerAssessment" where
  "assess_layer a l results ids =
     (let tot = int (length results);
          insufficient = (tot < min_attempts a)
      in if tot = 0
         then Inr \<lparr>layer = l, evidence = None, risk_score = 0, is_insufficient_evidence = True,
                   techniques_tested = ids, is_primary_weakness = False\<rparr>
         else (let successes = int (length (filter (\<lambda>r. success r = Some True) results))
               in case wilson_center a successes tot of
                    Inl e \<Rightarrow> Inl e
                  | Inr smoothed_rate \<Rightarrow>
               (case wilson_interval a successes tot of
                    Inl e \<Rightarrow> Inl e
                  | Inr ci \<Rightarrow>
                      (let avg_quality = sum_list (map evidence_quality results) / real_of_int tot
                       in if min_attempts a * 2 = 0 then Inl ZeroDivisionError
                          else (let coverage_factor =
                                      min 1 (real_of_int tot / real_of_int (min_attempts a * 2));
                                    risk = smoothed_rate * avg_quality * coverage_factor
                                in Inr \<lparr>layer = l,
                                        evidence = Some
                                          \<lparr>supporting_attempt_ids = map attempt_id results,
                                           success_count = successes, total_attempts = tot,
                                           smoothed_success_rate = smoothed_rate,
                                           ev_confidence_interval = ci,
                                           ev_evidence_quality = avg_quality\<rparr>,
                                        risk_score = risk,
                                        is_insufficient_evidence = insufficient,
                                        techniques_tested = ids,
                                        is_primary_weakness = False\<rparr>)))))"

text \<open>
  The grouping step of \<open>analyze\<close>: the results of a layer are those whose technique
  id is in the catalog, a dictionary from id to technique, with that surface.
\<close>

definition layer_results ::
    "(string \<rightharpoonup> AttackTechnique) \<Rightarrow> EvaluationResult list \<Rightarrow> Surface \<Rightarrow> EvaluationResult list" where
  "layer_results techniques results l =
     filter (\<lambda>r. case techniques (eval_technique_id r) of
                    None \<Rightarrow> False
                  | Some t \<Rightarrow> surface t = l) results"

definition layer_techniques ::
    "(string \<rightharpoonup> AttackTechnique) \<Rightarrow> EvaluationResult list \<Rightarrow> Surface \<Rightarrow> string list" where
  "layer_techniques techniques results l =
     remdups (map eval_technique_id (layer_results techniques results l))"

section \<open>The planning step (AdaptivePlanner.plan)\<close>

text \<open>
  One pass of the scoring loop for a technique that is not skipped: it returns the scored
  candidate with the advanced generator, or the exception raised, and in both cases the
  posterior state, which \<open>get_or_init\<close> may have extended before the exception.
\<close>

definition score_candidate ::
    "'r py_lib \<Rightarrow> AdaptivePlanner \<Rightarrow> TargetProfile \<Rightarrow> EvaluationResult list \<Rightarrow> string set
     \<Rightarrow> real \<Rightarrow> FamilyTracker \<Rightarrow> real \<Rightarrow> real \<Rightarrow> real
     \<Rightarrow> AttackTechnique \<Rightarrow> 'r \<Rightarrow> PosteriorState
     \<Rightarrow> (py_error + Candidate \<times> 'r) \<times> PosteriorState" where
  "score_candidate lib p target prior_results tried_ids repeat_penalty tracker
       info_gain_weight_s cost_weight_s max_cost technique rng st =
     (let base_score = compute_v1_base_score p technique target prior_results;
          blended_prior = compute_blended_prior p technique base_score;
          (posterior, st') = get_or_init st (tid technique) base_score blended_prior
      in case betavariate lib rng (alpha posterior) (beta posterior) of
           None \<Rightarrow> (Inl ValueError, st')
         | Some (thompson, rng') \<Rightarrow>
             (let impact = compute_impact_weight technique (goals target)
                             (or_None (goal_severity p)) (or_None (surface_criticality p));
                  cost = compute_cost technique max_cost
              in case compute_info_gain posterior of
                   Inl e \<Rightarrow> (Inl e, st')
                 | Inr gain \<Rightarrow>
                     (let info_gain = gain * info_gain_weight_s;
                          detection = compute_detection_penalty technique
                                        * detection_penalty_weight p;
                          diversity = compute_diversity_bonus tracker technique;
                          repeat_pen = (if tid technique \<in> tried_ids then repeat_penalty else 0);
                          utility_v = compute_utility thompson impact cost cost_weight_s info_gain
                                        detection diversity - repeat_pen
                      in (Inr (\<lparr>c_technique = technique, c_base_score = base_score,
                                 c_thompson_sample = thompson, c_impact = impact, c_cost = cost,
                                 c_info_gain = info_gain, c_detection = detection,
                                 c_diversity = diversity, c_repeat_penalty = repeat_pen,
                                 c_utility = utility_v, c_posterior = posterior\<rparr>, rng'),
                          st'))))"

text \<open>
  The loop over the filtered techniques: \<open>skip\<close> is the test
  \<open>exclude_tried and technique.id in tried_ids\<close>, \<open>step\<close> the body above.
\<close>

fun candidates_loop ::
    "(AttackTechnique \<Rightarrow> 'r \<Rightarrow> PosteriorState \<Rightarrow> (py_error + Candidate \<times> 'r) \<times> PosteriorState)
     \<Rightarrow> (AttackTechnique \<Rightarrow> bool) \<Rightarrow> AttackTechnique list \<Rightarrow> 'r \<Rightarrow> PosteriorState
     \<Rightarrow> (py_error + Candidate list) \<times> PosteriorState" where
  "candidates_loop step skip [] rng st = (Inr [], st)"
| "candidates_loop step skip (t # ts) rng st =
     (if skip t then candidates_loop step skip ts rng st
      else (case step t rng st of
              (Inl e, st') \<Rightarrow> (Inl e, st')
            | (Inr (c, rng'), st') \<Rightarrow>
                (case candidates_loop step skip ts rng' st' of
                   (Inl e, st'') \<Rightarrow> (Inl e, st'')
                 | (Inr cs, st'') \<Rightarrow> (Inr (c # cs), st''))))"

definition observed_siblings :: "AdaptivePlanner \<Rightarrow> PosteriorState \<Rightarrow> string \<Rightarrow> int" where
  "observed_siblings p st technique =
     (case correlation p of
        None \<Rightarrow> 0
      | Some c \<Rightarrow>
          sum_list (map (\<lambda>sib_id. case posteriors st sib_id of
                                    Some q \<Rightarrow> observations q
                                  | None \<Rightarrow> 0)
                      (get_siblings c technique)))"

definition build_entry ::
    "'r py_lib \<Rightarrow> AdaptivePlanner \<Rightarrow> PosteriorState \<Rightarrow> int \<Rightarrow> Candidate \<Rightarrow> py_error + PlanEntry" where
  "build_entry lib p st rank_v candidate =
     (let technique = c_technique candidate;
          posterior = c_posterior candidate;
          rationale_v = build_rationale lib candidate
      in case beta_ci (alpha posterior) (beta posterior) of
           Inl e \<Rightarrow> Inl e
         | Inr ci \<Rightarrow>
             (case beta_variance (alpha posterior) (beta posterior) of
                Inl e \<Rightarrow> Inl e
              | Inr variance \<Rightarrow>
                  (case py_div (alpha posterior) (alpha posterior + beta posterior) of
                     Inl e \<Rightarrow> Inl e
                   | Inr mean_v \<Rightarrow>
                       Inr \<lparr>rank = rank_v, entry_technique_id = tid technique,
                            technique_name = name technique,
                            entry_score = ScoreBreakdown_default
                              \<lparr>total := c_base_score candidate,
                               thompson_sample := Some (c_thompson_sample candidate),
                               utility := Some (c_utility candidate),
                               cost_penalty := c_cost candidate,
                               detection_risk_penalty := c_detection candidate,
                               diversity_bonus := c_diversity candidate,
                               confidence_interval := Some ci,
                               posterior_variance := Some variance,
                               sb_observations := observations posterior\<rparr>,
                            rationale = rationale_v, entry_tags = tags technique,
                            structured_rationale = Some
                              \<lparr>prior_source = (if use_benchmark_priors p then ''benchmark''
                                               else ''v1_heuristic''),
                               prior_asr = c_base_score candidate,
                               sr_observations = observations posterior,
                               posterior_mean = mean_v,
                               sr_confidence_interval = [fst ci, snd ci],
                               family = family_key technique,
                               siblings_observed = observed_siblings p st (tid technique),
                               key_factors = extract_key_factors candidate\<rparr>\<rparr>)))"

fun build_entries ::
    "'r py_lib \<Rightarrow> AdaptivePlanner \<Rightarrow> PosteriorState \<Rightarrow> int \<Rightarrow> Candidate list
     \<Rightarrow> py_error + PlanEntry list" where
  "build_entries lib p st rank_v [] = Inr []"
| "build_entries lib p st rank_v (c # cs) =
     (case build_entry lib p st rank_v c of
        Inl e \<Rightarrow> Inl e
      | Inr entry \<Rightarrow>
          (case build_entries lib p st (rank_v + 1) cs of
             Inl e \<Rightarrow> Inl e
           | Inr es \<Rightarrow> Inr (entry # es)))"

text \<open>The \<open>config_used\<close> dictionary that \<open>plan\<close> builds.\<close>

definition plan_config ::
    "AdaptivePlanner \<Rightarrow> int \<Rightarrow> nat \<Rightarrow> bool \<Rightarrow> real \<Rightarrow> CampaignPhase \<Rightarrow> config_dict" where
  "plan_config p step_number step_seed exclude_tried repeat_penalty campaign_phase =
     [(''adaptive'', CBool True),
      (''step_number'', CInt step_number),
      (''step_seed'', CInt (int step_seed)),
      (''prior_strength'', CReal (planner_prior_strength p)),
      (''cost_weight'', CReal (cost_weight p)),
      (''exclude_tried'', CBool exclude_tried),
      (''repeat_penalty'', CReal repeat_penalty),
      (''campaign_phase'', CStr (CampaignPhase_value campaign_phase))]"

text \<open>
  \<open>plan\<close> returns the plan or the exception raised, the posterior state (mutated in
  place by the source) and the planner, whose family index \<open>register_techniques\<close> has
  rebuilt. The registry is the list \<open>registry.get_all()\<close>.
\<close>

definition plan ::
    "'r py_lib \<Rightarrow> AdaptivePlanner \<Rightarrow> TargetProfile \<Rightarrow> AttackTechnique list
     \<Rightarrow> PosteriorState option \<Rightarrow> EvaluationResult list option \<Rightarrow> int \<Rightarrow> bool \<Rightarrow> real
     \<Rightarrow> FamilyTracker option \<Rightarrow> int \<Rightarrow> CampaignPhase
     \<Rightarrow> (py_error + AttackPlan) \<times> PosteriorState \<times> AdaptivePlanner" where
  "plan lib p target registry posterior_state_arg prior_results_arg max_techniques exclude_tried
       repeat_penalty family_tracker_arg step_number campaign_phase =
     (let st0 = (case posterior_state_arg of
                   None \<Rightarrow> \<lparr>posteriors = Map.empty, prior_strength = planner_prior_strength p\<rparr>
                 | Some s \<Rightarrow> s);
          family_tracker = (case family_tracker_arg of
                              None \<Rightarrow> FamilyTracker_init (diversity_config p)
                            | Some tr \<Rightarrow> tr);
          prior_results = (case prior_results_arg of None \<Rightarrow> [] | Some rs \<Rightarrow> rs);
          step_seed = derive_step_seed lib p step_number;
          rng = Random lib step_seed;
          info_gain_weight_s = (case campaign_phase of
                                  PROBE \<Rightarrow> info_gain_weight p * (15 / 10)
                                | EXPLOIT \<Rightarrow> info_gain_weight p * (3 / 10));
          cost_weight_s = (case campaign_phase of
                             PROBE \<Rightarrow> cost_weight p * (7 / 10)
                           | EXPLOIT \<Rightarrow> cost_weight p * (12 / 10));
          all_techniques = registry;
          p' = p\<lparr>correlation :=
                   map_option (\<lambda>c. register_techniques c all_techniques) (correlation p)\<rparr>;
          max_cost = (case planner_max_cost p of Some m \<Rightarrow> m | None \<Rightarrow> 1);
          filtered = filter (\<lambda>t. passes_all_filters t target \<and> base_cost t \<le> max_cost)
                       all_techniques;
          tried_ids = set (map eval_technique_id prior_results)
      in case candidates_loop
                (score_candidate lib p' target prior_results tried_ids repeat_penalty
                   family_tracker info_gain_weight_s cost_weight_s max_cost)
                (\<lambda>t. exclude_tried \<and> tid t \<in> tried_ids) filtered rng st0 of
           (Inl e, st) \<Rightarrow> (Inl e, st, p')
         | (Inr scored_candidates, st) \<Rightarrow>
             (case build_entries lib p' st 1
                     (slice_to (sort_desc c_utility scored_candidates) max_techniques) of
                Inl e \<Rightarrow> (Inl e, st, p')
              | Inr es \<Rightarrow>
                  (Inr \<lparr>plan_target = target, entries = es,
                        config_used = plan_config p step_number step_seed exclude_tried
                                        repeat_penalty campaign_phase\<rparr>,
                   st, p')))"

text \<open>
  The scoring loop of \<open>plan\<close> on its own, with the inputs that \<open>plan\<close> gives it.
\<close>

definition scored_candidates ::
    "'r py_lib \<Rightarrow> AdaptivePlanner \<Rightarrow> TargetProfile \<Rightarrow> AttackTechnique list
     \<Rightarrow> PosteriorState option \<Rightarrow> EvaluationResult list option \<Rightarrow> bool \<Rightarrow> real
     \<Rightarrow> FamilyTracker option \<Rightarrow> int \<Rightarrow> CampaignPhase
     \<Rightarrow> (py_error + Candidate list) \<times> PosteriorState" where
  "scored_candidates lib p target registry posterior_state_arg prior_results_arg exclude_tried
       repeat_penalty family_tracker_arg step_number campaign_phase =
     (let st0 = (case posterior_state_arg of
                   None \<Rightarrow> \<lparr>posteriors = Map.empty, prior_strength = planner_prior_strength p\<rparr>
                 | Some s \<Rightarrow> s);
          family_tracker = (case family_tracker_arg of
                              None \<Rightarrow> FamilyTracker_init (diversity_config p)
                            | Some tr \<Rightarrow> tr);
          prior_results = (case prior_results_arg of None \<Rightarrow> [] | Some rs \<Rightarrow> rs);
          step_seed = derive_step_seed lib p step_number;
          rng = Random lib step_seed;
          info_gain_weight_s = (case campaign_phase of
                                  PROBE \<Rightarrow> info_gain_weight p * (15 / 10)
                                | EXPLOIT \<Rightarrow> info_gain_weight p * (3 / 10));
          cost_weight_s = (case campaign_phase of
                             PROBE \<Rightarrow> cost_weight p * (7 / 10)
                           | EXPLOIT \<Rightarrow> cost_weight p * (12 / 10));
          p' = p\<lparr>correlation :=
                   map_option (\<lambda>c. register_techniques c registry) (correlation p)\<rparr>;
          max_cost = (case planner_max_cost p of Some m \<Rightarrow> m | None \<Rightarrow> 1);
          filtered = filter (\<lambda>t. passes_all_filters t target \<and> base_cost t \<le> max_cost)
                       registry;
          tried_ids = set (map eval_technique_id prior_results)
      in candidates_loop
           (score_candidate lib p' target prior_results tried_ids repeat_penalty
              family_tracker info_gain_weight_s cost_weight_s max_cost)
           (\<lambda>t. exclude_tried \<and> tid t \<in> tried_ids) filtered rng st0)"

text \<open>\<open>registry.get\<close>: the registry is a dictionary keyed by technique id.\<close>

definition registry_get :: "AttackTechnique list \<Rightarrow> string \<Rightarrow> AttackTechnique option" where
  "registry_get registry i = find (\<lambda>t. tid t = i) registry"

text \<open>
  \<open>update_posteriors\<close>: the loop over the new results. \<open>posterior.update\<close> writes the
  posterior that \<open>get_or_init\<close> returned, which is the one stored in the state.
\<close>

fun update_posteriors ::
    "AdaptivePlanner \<Rightarrow> PosteriorState \<Rightarrow> EvaluationResult list \<Rightarrow> AttackTechnique list
     \<Rightarrow> TargetProfile \<Rightarrow> py_error option \<times> PosteriorState" where
  "update_posteriors p st [] registry target = (None, st)"
| "update_posteriors p st (evaluation # rest) registry target =
     (let technique_id_v = eval_technique_id evaluation
      in if technique_id_v = [] then update_posteriors p st rest registry target
         else (case compute_reward (reward_policy p) evaluation of
                 None \<Rightarrow> update_posteriors p st rest registry target
               | Some reward \<Rightarrow>
                   (case registry_get registry technique_id_v of
                      None \<Rightarrow> update_posteriors p st rest registry target
                    | Some technique \<Rightarrow>
                        (let base_score = compute_v1_base_score p technique target [];
                             blended_prior = compute_blended_prior p technique base_score;
                             (posterior, st1) =
                               get_or_init st technique_id_v base_score blended_prior
                         in case update posterior reward of
                              Inl e \<Rightarrow> (Some e, st1)
                            | Inr posterior' \<Rightarrow>
                                (let st2 = st1\<lparr>posteriors :=
                                                  (posteriors st1)(technique_id_v \<mapsto> posterior')\<rparr>;
                                     st3 = (case correlation p of
                                              None \<Rightarrow> st2
                                            | Some c \<Rightarrow>
                                                propagate_update c technique_id_v reward st2)
                                 in update_posteriors p st3 rest registry target)))))"

section \<open>Campaigns and snapshots (models/campaign.py, replay/snapshot.py)\<close>

record CampaignState =
  attempts :: "AttemptResult list"
  evaluations :: "EvaluationResult list"
  techniques_tried :: "string list"
  queries_used :: int

text \<open>The keys of \<open>metadata\<close> that the manager reads, each possibly absent.\<close>

record CampaignMetadata =
  md_adaptive :: "bool option"
  md_campaign_seed :: "int option"

record Campaign =
  campaign_id :: string
  campaign_name :: string
  status :: CampaignStatus
  campaign_phase :: CampaignPhase
  campaign_target :: TargetProfile
  campaign_plan :: "AttackPlan option"
  state :: CampaignState
  posterior_state :: "PosteriorState option"
  metadata :: CampaignMetadata

record DecisionSnapshot =
  snapshot_id :: string
  snap_campaign_id :: string
  snap_step_number :: int
  snap_step_seed :: int
  snap_techniques_tried :: "string list"
  evaluation_count :: int
  snap_queries_used :: int
  snap_posterior_state :: PosteriorState
  planner_config :: config_dict
  produced_plan_entries :: "PlanEntry list"

section \<open>The file system\<close>

text \<open>
  Files hold the JSON of a campaign or of a snapshot. Every operation on the file system
  is appended to \<open>fs_log\<close>. Operations are taken to succeed: no \<open>OSError\<close>.
\<close>

datatype file_content = CampaignFile Campaign | SnapshotFile DecisionSnapshot

datatype fs_op = Mkdir string | WriteText string | Replace string string | Exists string
  | ReadText string | Glob string string

record FileSystem =
  fs_files :: "(string \<times> file_content) list"
  fs_dirs :: "string set"
  fs_log :: "fs_op list"

text \<open>\<open>a / b\<close> of \<open>pathlib\<close>: an absolute right operand replaces the left one.\<close>

definition path_join :: "string \<Rightarrow> string \<Rightarrow> string" where
  "path_join a b = (if b \<noteq> [] \<and> hd b = CHR ''/'' then b else a @ ''/'' @ b)"

definition fs_mkdir :: "FileSystem \<Rightarrow> string \<Rightarrow> FileSystem" where
  "fs_mkdir fs d = fs\<lparr>fs_dirs := insert d (fs_dirs fs), fs_log := fs_log fs @ [Mkdir d]\<rparr>"

definition fs_write_text :: "FileSystem \<Rightarrow> string \<Rightarrow> file_content \<Rightarrow> FileSystem" where
  "fs_write_text fs path content =
     fs\<lparr>fs_files := (path, content) # filter (\<lambda>(q, _). q \<noteq> path) (fs_files fs),
        fs_log := fs_log fs @ [WriteText path]\<rparr>"

definition fs_replace :: "FileSystem \<Rightarrow> string \<Rightarrow> string \<Rightarrow> FileSystem" where
  "fs_replace fs src dst =
     (case map_of (fs_files fs) src of
        None \<Rightarrow> fs\<lparr>fs_log := fs_log fs @ [Replace src dst]\<rparr>
      | Some content \<Rightarrow>
          fs\<lparr>fs_files := (dst, content)
                  # filter (\<lambda>(q, _). q \<noteq> src \<and> q \<noteq> dst) (fs_files fs),
             fs_log := fs_log fs @ [Replace src dst]\<rparr>)"

definition fs_exists :: "FileSystem \<Rightarrow> string \<Rightarrow> bool \<times> FileSystem" where
  "fs_exists fs path =
     (map_of (fs_files fs) path \<noteq> None \<or> path \<in> fs_dirs fs,
      fs\<lparr>fs_log := fs_log fs @ [Exists path]\<rparr>)"

definition fs_read_text :: "FileSystem \<Rightarrow> string \<Rightarrow> file_content option \<times> FileSystem" where
  "fs_read_text fs path = (map_of (fs_files fs) path, fs\<lparr>fs_log := fs_log fs @ [ReadText path]\<rparr>)"

section \<open>Campaign ids (campaign/manager.py)\<close>

text \<open>The character class \<open>[a-zA-Z0-9_-]\<close>, by character code.\<close>

definition safe_char :: "char \<Rightarrow> bool" where
  "safe_char c =
     (let n = (of_char c :: nat)
      in (97 \<le> n \<and> n \<le> 122) \<or> (65 \<le> n \<and> n \<le> 90) \<or> (48 \<le> n \<and> n \<le> 57)
         \<or> c = CHR ''_'' \<or> c = CHR ''-'')"

text \<open>
  \<open>_SAFE_ID_RE.match(s)\<close> for the pattern \<open>^[a-zA-Z0-9_-]+$\<close>: in Python \<open>$\<close> matches
  at the end of the string and also just before a newline that ends the string.
\<close>

definition SAFE_ID_RE_match :: "string \<Rightarrow> bool" where
  "SAFE_ID_RE_match s =
     (let body = (if s \<noteq> [] \<and> last s = CHR 0x0A then butlast s else s)
      in body \<noteq> [] \<and> list_all safe_char body)"

definition validate_campaign_id :: "string \<Rightarrow> py_error option" where
  "validate_campaign_id cid =
     (if cid = [] \<or> \<not> SAFE_ID_RE_match cid then Some ValueError else None)"

section \<open>Snapshot recorder (replay/recorder.py)\<close>

text \<open>\<open>format(n, "04d")\<close>.\<close>

definition format_04d :: "int \<Rightarrow> string" where
  "format_04d n =
     (let sign = (if n < 0 then ''-'' else []);
          digits = str_nat (nat \<bar>n\<bar>)
      in sign @ replicate (4 - length sign - length digits) CHR ''0'' @ digits)"

definition snapshot_dir :: "string \<Rightarrow> string \<Rightarrow> string" where
  "snapshot_dir storage cid = path_join (path_join storage cid) ''snapshots''"

definition snapshot_path :: "string \<Rightarrow> string \<Rightarrow> int \<Rightarrow> string" where
  "snapshot_path storage cid step_number =
     path_join (snapshot_dir storage cid) (''step_'' @ format_04d step_number @ ''.json'')"

text \<open>
  \<open>SnapshotRecorder.record\<close>; \<open>fresh_id\<close> is the value of \<open>uuid.uuid4().hex[:12]\<close>,
  used when the snapshot has no id yet.
\<close>

definition recorder_record ::
    "string \<Rightarrow> FileSystem \<Rightarrow> string \<Rightarrow> string \<Rightarrow> int \<Rightarrow> DecisionSnapshot
     \<Rightarrow> (py_error + string) \<times> FileSystem" where
  "recorder_record storage fs fresh_id cid step_number snapshot =
     (let dir = snapshot_dir storage cid;
          fs1 = fs_mkdir fs dir;
          snapshot' = (if snapshot_id snapshot = [] then snapshot\<lparr>snapshot_id := fresh_id\<rparr>
                       else snapshot);
          path = path_join dir (''step_'' @ format_04d step_number @ ''.json'');
          fs2 = fs_write_text fs1 path (SnapshotFile snapshot')
      in (Inr path, fs2))"

definition recorder_load ::
    "string \<Rightarrow> FileSystem \<Rightarrow> string \<Rightarrow> int \<Rightarrow> (py_error + DecisionSnapshot option) \<times> FileSystem" where
  "recorder_load storage fs cid step_number =
     (let path = snapshot_path storage cid step_number;
          (found, fs1) = fs_exists fs path
      in if \<not> found then (Inr None, fs1)
         else (case fs_read_text fs1 path of
                 (Some (SnapshotFile snapshot), fs2) \<Rightarrow> (Inr (Some snapshot), fs2)
               | (_, fs2) \<Rightarrow> (Inl ValueError, fs2)))"

text \<open>
  \<open>list_snapshots\<close>: the names \<open>step_*.json\<close> in the snapshot directory, the text
  between the first and the second underscore of the stem read by \<open>int\<close>, which is the
  parameter \<open>int_of_str\<close> (\<open>None\<close>: it raised \<open>ValueError\<close>, and the name is skipped).
\<close>

definition glob_step_files :: "FileSystem \<Rightarrow> string \<Rightarrow> string list" where
  "glob_step_files fs dir =
     [nm. (path, _) \<leftarrow> fs_files fs,
          nm \<leftarrow> [drop (length dir + 1) path],
          take (length dir + 1) path = dir @ ''/'',
          CHR ''/'' \<notin> set nm,
          length nm \<ge> 10,
          take 5 nm = ''step_'',
          drop (length nm - 5) nm = ''.json'']"

fun split_on :: "char \<Rightarrow> string \<Rightarrow> string list" where
  "split_on sep [] = [[]]"
| "split_on sep (c # cs) =
     (if c = sep then [] # split_on sep cs
      else (case split_on sep cs of
              [] \<Rightarrow> [[c]]
            | piece # pieces \<Rightarrow> (c # piece) # pieces))"

definition recorder_list_snapshots ::
    "(string \<Rightarrow> int option) \<Rightarrow> string \<Rightarrow> FileSystem \<Rightarrow> string
     \<Rightarrow> (py_error + int list) \<times> FileSystem" where
  "recorder_list_snapshots int_of_str storage fs cid =
     (let dir = snapshot_dir storage cid;
          (found, fs1) = fs_exists fs dir
      in if \<not> found then (Inr [], fs1)
         else (let names = glob_step_files fs1 dir;
                   fs2 = fs1\<lparr>fs_log := fs_log fs1 @ [Glob dir ''step_*.json'']\<rparr>;
                   step_numbers =
                     concat (map (\<lambda>nm. case split_on CHR ''_'' (take (length nm - 5) nm) of
                                          _ # piece # _ \<Rightarrow>
                                            (case int_of_str piece of
                                               Some n \<Rightarrow> [n]
                                             | None \<Rightarrow> [])
                                        | _ \<Rightarrow> []) names)
               in (Inr (sort step_numbers), fs2)))"

section \<open>Campaign manager (campaign/manager.py)\<close>

text \<open>
  The manager after \<open>__init__\<close>. The recorder exists when \<open>storage_dir\<close> is given and
  writes below the same directory. The state of the program is the manager together
  with the file system; every operation returns its result, or the exception raised, with
  the state it leaves behind.
\<close>

record CampaignManager =
  registry :: "AttackTechnique list"
  mgr_engine :: PrioritizerEngine
  adaptive_planner :: "AdaptivePlanner option"
  storage_dir :: "string option"
  campaigns :: "string \<rightharpoonup> Campaign"
  step_counters :: "string \<rightharpoonup> int"

definition CampaignManager_init ::
    "AttackTechnique list \<Rightarrow> PrioritizerEngine \<Rightarrow> AdaptivePlanner option \<Rightarrow> string option
     \<Rightarrow> CampaignManager" where
  "CampaignManager_init reg eng planner storage =
     \<lparr>registry = reg, mgr_engine = eng, adaptive_planner = planner, storage_dir = storage,
      campaigns = Map.empty, step_counters = Map.empty\<rparr>"

definition campaign_path :: "string \<Rightarrow> string \<Rightarrow> string" where
  "campaign_path storage cid = path_join storage (cid @ ''.json'')"

text \<open>
  \<open>_save\<close>. The temporary file is the path with its suffix replaced by \<open>.json.tmp\<close>;
  the id has been validated, so the suffix is the final \<open>.json\<close>.
\<close>

definition save ::
    "CampaignManager \<Rightarrow> FileSystem \<Rightarrow> Campaign \<Rightarrow> py_error option \<times> CampaignManager \<times> FileSystem" where
  "save m fs campaign =
     (case validate_campaign_id (campaign_id campaign) of
        Some e \<Rightarrow> (Some e, m, fs)
      | None \<Rightarrow>
          (let m' = m\<lparr>campaigns := (campaigns m)(campaign_id campaign \<mapsto> campaign)\<rparr>
           in case storage_dir m of
                None \<Rightarrow> (None, m', fs)
              | Some storage \<Rightarrow>
                  (let fs1 = fs_mkdir fs storage;
                       path = campaign_path storage (campaign_id campaign);
                       tmp_path = path @ ''.tmp'';
                       fs2 = fs_write_text fs1 tmp_path (CampaignFile campaign);
                       fs3 = fs_replace fs2 tmp_path path
                   in (None, m', fs3))))"

text \<open>\<open>_load\<close>; a file that does not hold a campaign gives \<open>None\<close>.\<close>

definition load ::
    "CampaignManager \<Rightarrow> FileSystem \<Rightarrow> string
     \<Rightarrow> (py_error + Campaign option) \<times> CampaignManager \<times> FileSystem" where
  "load m fs cid =
     (case validate_campaign_id cid of
        Some e \<Rightarrow> (Inl e, m, fs)
      | None \<Rightarrow>
          (case storage_dir m of
             None \<Rightarrow> (Inr None, m, fs)
           | Some storage \<Rightarrow>
               (let path = campaign_path storage cid;
                    (found, fs1) = fs_exists fs path
                in if \<not> found then (Inr None, m, fs1)
                   else (case fs_read_text fs1 path of
                           (Some (CampaignFile campaign), fs2) \<Rightarrow>
                             (Inr (Some campaign),
                              m\<lparr>campaigns := (campaigns m)(cid \<mapsto> campaign)\<rparr>, fs2)
                         | (_, fs2) \<Rightarrow> (Inr None, m, fs2)))))"

definition get ::
    "CampaignManager \<Rightarrow> FileSystem \<Rightarrow> string
     \<Rightarrow> (py_error + Campaign option) \<times> CampaignManager \<times> FileSystem" where
  "get m fs cid =
     (case campaigns m cid of
        Some campaign \<Rightarrow> (Inr (Some campaign), m, fs)
      | None \<Rightarrow> load m fs cid)"

definition tested_surfaces :: "CampaignManager \<Rightarrow> Campaign \<Rightarrow> Surface list" where
  "tested_surfaces m campaign =
     remdups (concat (map (\<lambda>tech_id. case registry_get (registry m) tech_id of
                                        Some technique \<Rightarrow> [surface technique]
                                      | None \<Rightarrow> [])
                        (techniques_tried (state campaign))))"

definition should_transition :: "CampaignManager \<Rightarrow> Campaign \<Rightarrow> bool" where
  "should_transition m campaign =
     (if campaign_phase campaign \<noteq> PROBE then False
      else (let step = (case step_counters m (campaign_id campaign) of
                          Some s \<Rightarrow> s | None \<Rightarrow> 0)
            in if step \<ge> 3 then True
               else (let total_surfaces = length all_surfaces
                     in real (length (tested_surfaces m campaign))
                          / real (max total_surfaces 1) \<ge> 6 / 10)))"

definition tracker_of_tried :: "AttackTechnique list \<Rightarrow> string list \<Rightarrow> FamilyTracker" where
  "tracker_of_tried reg tried =
     fold (\<lambda>tech_id tr. case registry_get reg tech_id of
                           Some technique \<Rightarrow> mark_tried tr technique
                         | None \<Rightarrow> tr)
       tried (FamilyTracker_init no_diversity_config)"

text \<open>
  \<open>_record_snapshot\<close>, called when the recorder exists; \<open>fresh_id\<close> is the id the
  recorder generates.
\<close>

definition record_snapshot ::
    "'r py_lib \<Rightarrow> string \<Rightarrow> FileSystem \<Rightarrow> string \<Rightarrow> Campaign \<Rightarrow> int \<Rightarrow> AttackPlan
     \<Rightarrow> (py_error + unit) \<times> FileSystem" where
  "record_snapshot lib storage fs fresh_id campaign step_number pl =
     (case posterior_state campaign of
        None \<Rightarrow> (Inr (), fs)
      | Some pst \<Rightarrow>
          (let seed = (case md_campaign_seed (metadata campaign) of Some s \<Rightarrow> s | None \<Rightarrow> 0);
               step_seed = py_hash lib (str_int seed @ '':'' @ str_int step_number) mod 2 ^ 31;
               snapshot =
                 \<lparr>snapshot_id = [], snap_campaign_id = campaign_id campaign,
                  snap_step_number = step_number, snap_step_seed = step_seed,
                  snap_techniques_tried = techniques_tried (state campaign),
                  evaluation_count = int (length (evaluations (state campaign))),
                  snap_queries_used = queries_used (state campaign),
                  snap_posterior_state = pst, planner_config = config_used pl,
                  produced_plan_entries = entries pl\<rparr>
           in case recorder_record storage fs fresh_id (campaign_id campaign) step_number
                     snapshot of
                (Inl e, fs') \<Rightarrow> (Inl e, fs')
              | (Inr _, fs') \<Rightarrow> (Inr (), fs')))"

text \<open>
  \<open>recommend_next\<close>, in parts. \<open>recommend_for\<close> is the body that runs once \<open>get\<close> has
  returned the campaign: \<open>transition_step\<close> increments the step counter and checks the
  phase transition, \<open>adaptive_recommend\<close> is the adaptive branch. The campaign object is
  the one stored under the id asked for, so each change to it is a change to the
  manager's dictionary.
\<close>

definition transition_step ::
    "CampaignManager \<Rightarrow> string \<Rightarrow> Campaign \<Rightarrow> CampaignManager \<times> Campaign \<times> int" where
  "transition_step m1 cid campaign =
     (let step_number = (case step_counters m1 cid of Some s \<Rightarrow> s | None \<Rightarrow> 0);
          m2 = m1\<lparr>step_counters := (step_counters m1)(cid \<mapsto> step_number + 1)\<rparr>;
          campaign1 = (if should_transition m2 campaign
                       then campaign\<lparr>campaign_phase := EXPLOIT\<rparr> else campaign);
          m3 = m2\<lparr>campaigns := (campaigns m2)(cid \<mapsto> campaign1)\<rparr>
      in (m3, campaign1, step_number))"

definition adaptive_recommend ::
    "'r py_lib \<Rightarrow> CampaignManager \<Rightarrow> FileSystem \<Rightarrow> string \<Rightarrow> string \<Rightarrow> Campaign
     \<Rightarrow> AdaptivePlanner \<Rightarrow> PosteriorState \<Rightarrow> int \<Rightarrow> int \<Rightarrow> bool \<Rightarrow> real
     \<Rightarrow> (py_error + AttackPlan) \<times> CampaignManager \<times> FileSystem" where
  "adaptive_recommend lib m3 fs1 fresh_id cid campaign1 planner pst step_number max_techniques
       exclude_tried repeat_penalty =
     (let family_tracker = tracker_of_tried (registry m3) (techniques_tried (state campaign1));
          (res, pst', planner') =
            plan lib planner (campaign_target campaign1) (registry m3) (Some pst)
              (Some (evaluations (state campaign1))) max_techniques exclude_tried
              repeat_penalty (Some family_tracker) step_number (campaign_phase campaign1);
          campaign2 = campaign1\<lparr>posterior_state := Some pst'\<rparr>;
          m4 = m3\<lparr>adaptive_planner := Some planner',
                 campaigns := (campaigns m3)(cid \<mapsto> campaign2)\<rparr>
      in case res of
           Inl e \<Rightarrow> (Inl e, m4, fs1)
         | Inr pl \<Rightarrow>
             (case save m4 fs1 campaign2 of
                (Some e, m5, fs2) \<Rightarrow> (Inl e, m5, fs2)
              | (None, m5, fs2) \<Rightarrow>
                  (case storage_dir m5 of
                     None \<Rightarrow> (Inr pl, m5, fs2)
                   | Some storage \<Rightarrow>
                       (case record_snapshot lib storage fs2 fresh_id campaign2 step_number pl of
                          (Inl e, fs3) \<Rightarrow> (Inl e, m5, fs3)
                        | (Inr _, fs3) \<Rightarrow> (Inr pl, m5, fs3)))))"

definition recommend_for ::
    "'r py_lib \<Rightarrow> CampaignManager \<Rightarrow> FileSystem \<Rightarrow> string \<Rightarrow> string \<Rightarrow> Campaign \<Rightarrow> int \<Rightarrow> bool
     \<Rightarrow> real \<Rightarrow> bool option \<Rightarrow> (py_error + AttackPlan) \<times> CampaignManager \<times> FileSystem" where
  "recommend_for lib m1 fs1 fresh_id cid campaign max_techniques exclude_tried repeat_penalty
       adaptive =
     (let is_adaptive =
            (case adaptive of
               Some a \<Rightarrow> a
             | None \<Rightarrow> (case md_adaptive (metadata campaign) of Some a \<Rightarrow> a | None \<Rightarrow> False));
          (m3, campaign1, step_number) = transition_step m1 cid campaign
      in case (if is_adaptive then adaptive_planner m3 else None,
               posterior_state campaign1) of
           (Some planner, Some pst) \<Rightarrow>
             adaptive_recommend lib m3 fs1 fresh_id cid campaign1 planner pst step_number
               max_techniques exclude_tried repeat_penalty
         | _ \<Rightarrow>
             (Inr (engine_plan lib (mgr_engine m3) (campaign_target campaign1) (registry m3)
                     (Some (evaluations (state campaign1))) (Some max_techniques)),
              m3, fs1))"

definition recommend_next ::
    "'r py_lib \<Rightarrow> CampaignManager \<Rightarrow> FileSystem \<Rightarrow> string \<Rightarrow> string \<Rightarrow> int \<Rightarrow> bool \<Rightarrow> real
     \<Rightarrow> bool option \<Rightarrow> (py_error + AttackPlan) \<times> CampaignManager \<times> FileSystem" where
  "recommend_next lib m fs fresh_id cid max_techniques exclude_tried repeat_penalty adaptive =
     (case get m fs cid of
        (Inl e, m1, fs1) \<Rightarrow> (Inl e, m1, fs1)
      | (Inr None, m1, fs1) \<Rightarrow> (Inl ValueError, m1, fs1)
      | (Inr (Some campaign), m1, fs1) \<Rightarrow>
          recommend_for lib m1 fs1 fresh_id cid campaign max_techniques exclude_tried
            repeat_penalty adaptive)"

text \<open>
  \<open>ingest_results\<close>, in two parts as above. The new technique ids are appended to
  \<open>techniques_tried\<close> in the order of their first attempt (the source iterates over a
  set of them).
\<close>

definition ingest_for ::
    "CampaignManager \<Rightarrow> FileSystem \<Rightarrow> string \<Rightarrow> Campaign \<Rightarrow> AttemptResult list
     \<Rightarrow> EvaluationResult list \<Rightarrow> (py_error + Campaign) \<times> CampaignManager \<times> FileSystem" where
  "ingest_for m1 fs1 cid campaign new_attempts new_evaluations =
     (let st = state campaign;
          new_technique_ids = remdups (map attempt_technique_id new_attempts);
          tried = fold (\<lambda>i tr. if i \<in> set tr then tr else tr @ [i]) new_technique_ids
                    (techniques_tried st);
          st' = st\<lparr>attempts := attempts st @ new_attempts,
                   evaluations := evaluations st @ new_evaluations,
                   techniques_tried := tried,
                   queries_used := queries_used st + int (length new_attempts)\<rparr>;
          campaign1 = campaign\<lparr>state := st'\<rparr>;
          is_adaptive = (case md_adaptive (metadata campaign1) of
                           Some a \<Rightarrow> a | None \<Rightarrow> False)
      in case (if is_adaptive then adaptive_planner m1 else None,
               posterior_state campaign1) of
           (Some planner, Some pst) \<Rightarrow>
             (let (err, pst') = update_posteriors planner pst new_evaluations (registry m1)
                                  (campaign_target campaign1);
                  campaign2 = campaign1\<lparr>posterior_state := Some pst'\<rparr>;
                  m2 = m1\<lparr>campaigns := (campaigns m1)(cid \<mapsto> campaign2)\<rparr>
              in case err of
                   Some e \<Rightarrow> (Inl e, m2, fs1)
                 | None \<Rightarrow>
                     (case save m2 fs1 campaign2 of
                        (Some e, m3, fs2) \<Rightarrow> (Inl e, m3, fs2)
                      | (None, m3, fs2) \<Rightarrow> (Inr campaign2, m3, fs2)))
         | _ \<Rightarrow>
             (let m2 = m1\<lparr>campaigns := (campaigns m1)(cid \<mapsto> campaign1)\<rparr>
              in case save m2 fs1 campaign1 of
                   (Some e, m3, fs2) \<Rightarrow> (Inl e, m3, fs2)
                 | (None, m3, fs2) \<Rightarrow> (Inr campaign1, m3, fs2)))"

definition ingest_results ::
    "CampaignManager \<Rightarrow> FileSystem \<Rightarrow> string \<Rightarrow> AttemptResult list \<Rightarrow> EvaluationResult list
     \<Rightarrow> (py_error + Campaign) \<times> CampaignManager \<times> FileSystem" where
  "ingest_results m fs cid new_attempts new_evaluations =
     (case get m fs cid of
        (Inl e, m1, fs1) \<Rightarrow> (Inl e, m1, fs1)
      | (Inr None, m1, fs1) \<Rightarrow> (Inl ValueError, m1, fs1)
      | (Inr (Some campaign), m1, fs1) \<Rightarrow>
          ingest_for m1 fs1 cid campaign new_attempts new_evaluations)"

definition update_status ::
    "CampaignManager \<Rightarrow> FileSystem \<Rightarrow> string \<Rightarrow> CampaignStatus
     \<Rightarrow> (py_error + Campaign) \<times> CampaignManager \<times> FileSystem" where
  "update_status m fs cid new_status =
     (case get m fs cid of
        (Inl e, m1, fs1) \<Rightarrow> (Inl e, m1, fs1)
      | (Inr None, m1, fs1) \<Rightarrow> (Inl ValueError, m1, fs1)
      | (Inr (Some campaign), m1, fs1) \<Rightarrow>
          (let campaign1 = campaign\<lparr>status := new_status\<rparr>;
               m2 = m1\<lparr>campaigns := (campaigns m1)(cid \<mapsto> campaign1)\<rparr>
           in case save m2 fs1 campaign1 of
                (Some e, m3, fs2) \<Rightarrow> (Inl e, m3, fs2)
              | (None, m3, fs2) \<Rightarrow> (Inr campaign1, m3, fs2)))"

text \<open>
  \<open>create\<close>; \<open>fresh_id\<close> is \<open>uuid.uuid4().hex[:12]\<close> and \<open>randint\<close> the value of
  \<open>random.randint(0, 2**31 - 1)\<close>. A new campaign is in phase \<open>PROBE\<close>, and its
  posterior state is \<open>PosteriorState()\<close>, with prior strength 8.
\<close>

definition create ::
    "'r py_lib \<Rightarrow> CampaignManager \<Rightarrow> FileSystem \<Rightarrow> string \<Rightarrow> int \<Rightarrow> TargetProfile \<Rightarrow> string
     \<Rightarrow> bool \<Rightarrow> bool \<Rightarrow> int option
     \<Rightarrow> (py_error + Campaign) \<times> CampaignManager \<times> FileSystem" where
  "create lib m fs fresh_id randint target nm auto_plan adaptive seed_arg =
     (let seed = (if adaptive \<and> seed_arg = None then Some randint else seed_arg);
          campaign0 =
            \<lparr>campaign_id = fresh_id,
             campaign_name = (if nm = [] then ''campaign-'' @ fresh_id else nm),
             status = PLANNING, campaign_phase = PROBE, campaign_target = target,
             campaign_plan = None,
             state = \<lparr>attempts = [], evaluations = [], techniques_tried = [], queries_used = 0\<rparr>,
             posterior_state = (if adaptive
                                then Some \<lparr>posteriors = Map.empty, prior_strength = 8\<rparr>
                                else None),
             metadata = \<lparr>md_adaptive = Some adaptive, md_campaign_seed = seed\<rparr>\<rparr>;
          (res, m1) =
            (if \<not> auto_plan then (Inr campaign0, m)
             else (case (if adaptive then adaptive_planner m else None) of
                     Some planner \<Rightarrow>
                       (case plan lib planner target (registry m) (posterior_state campaign0) None
                               10 False 0 None 0 PROBE of
                          (Inl e, _, planner') \<Rightarrow> (Inl e, m\<lparr>adaptive_planner := Some planner'\<rparr>)
                        | (Inr pl, pst', planner') \<Rightarrow>
                            (Inr (campaign0\<lparr>campaign_plan := Some pl,
                                           posterior_state := Some pst', status := ACTIVE\<rparr>),
                             m\<lparr>adaptive_planner := Some planner'\<rparr>))
                   | None \<Rightarrow>
                       (Inr (campaign0\<lparr>campaign_plan :=
                                         Some (engine_plan lib (mgr_engine m) target (registry m)
                                                 None None),
                                       status := ACTIVE\<rparr>), m)))
      in case res of
           Inl e \<Rightarrow> (Inl e, m1, fs)
         | Inr campaign \<Rightarrow>
             (let m2 = m1\<lparr>campaigns := (campaigns m1)(fresh_id \<mapsto> campaign),
                          step_counters := (step_counters m1)(fresh_id \<mapsto> 0)\<rparr>
              in case save m2 fs campaign of
                   (Some e, m3, fs') \<Rightarrow> (Inl e, m3, fs')
                 | (None, m3, fs') \<Rightarrow> (Inr campaign, m3, fs')))"

text \<open>The operations of the manager, with the values the environment supplies.\<close>

datatype manager_op =
    Create string int TargetProfile string bool bool "int option"
  | IngestResults string "AttemptResult list" "EvaluationResult list"
  | RecommendNext string string int bool real "bool option"
  | UpdateStatus string CampaignStatus
  | Get string

fun apply_op ::
    "'r py_lib \<Rightarrow> CampaignManager \<times> FileSystem \<Rightarrow> manager_op \<Rightarrow> CampaignManager \<times> FileSystem" where
  "apply_op lib (m, fs) (Create fresh_id randint target nm auto_plan adaptive seed) =
     snd (create lib m fs fresh_id randint target nm auto_plan adaptive seed)"
| "apply_op lib (m, fs) (IngestResults cid atts evs) = snd (ingest_results m fs cid atts evs)"
| "apply_op lib (m, fs) (RecommendNext fresh_id cid k excl pen adaptive) =
     snd (recommend_next lib m fs fresh_id cid k excl pen adaptive)"
| "apply_op lib (m, fs) (UpdateStatus cid s) = snd (update_status m fs cid s)"
| "apply_op lib (m, fs) (Get cid) = snd (get m fs cid)"

definition run_ops ::
    "'r py_lib \<Rightarrow> CampaignManager \<times> FileSystem \<Rightarrow> manager_op list \<Rightarrow> CampaignManager \<times> FileSystem" where
  "run_ops lib s ops = fold (\<lambda>op s'. apply_op lib s' op) ops s"

section \<open>Decision replayer (replay/replayer.py)\<close>

text \<open>
  The replayer holds the registry and, optionally, a planner. Without one, \<open>replay\<close>
  builds \<open>AdaptivePlanner(campaign_seed=snapshot.planner_config.get("campaign_seed"))\<close>
  from the default configuration \<open>cfg\<close> and the default engine \<open>eng\<close>; \<open>randint\<close> is
  the value \<open>random.randint\<close> returns if the constructor calls it. A value of
  \<open>campaign_seed\<close> that is not an integer is read as absent.
\<close>

definition config_campaign_seed :: "config_dict \<Rightarrow> int option" where
  "config_campaign_seed config =
     (case map_of config ''campaign_seed'' of Some (CInt s) \<Rightarrow> Some s | _ \<Rightarrow> None)"

definition replay_planner ::
    "AdaptivePlanner option \<Rightarrow> PlannerConfig \<Rightarrow> PrioritizerEngine \<Rightarrow> int \<Rightarrow> DecisionSnapshot
     \<Rightarrow> AdaptivePlanner" where
  "replay_planner planner_arg cfg eng randint snapshot =
     (case planner_arg of
        None \<Rightarrow> AdaptivePlanner_init cfg eng None
                  (config_campaign_seed (planner_config snapshot)) None randint
      | Some planner \<Rightarrow> planner)"

text \<open>\<open>CampaignPhase(phase_str)\<close> raises \<open>ValueError\<close> for any other string.\<close>

definition CampaignPhase_of :: "string \<Rightarrow> py_error + CampaignPhase" where
  "CampaignPhase_of s =
     (if s = ''probe'' then Inr PROBE else if s = ''exploit'' then Inr EXPLOIT
      else Inl ValueError)"

definition replay ::
    "'r py_lib \<Rightarrow> AttackTechnique list \<Rightarrow> AdaptivePlanner option \<Rightarrow> PlannerConfig
     \<Rightarrow> PrioritizerEngine \<Rightarrow> int \<Rightarrow> DecisionSnapshot \<Rightarrow> TargetProfile \<Rightarrow> py_error + AttackPlan" where
  "replay lib reg planner_arg cfg eng randint snapshot target =
     (let planner = replay_planner planner_arg cfg eng randint snapshot;
          pst = snap_posterior_state snapshot;
          step_number = snap_step_number snapshot;
          config = planner_config snapshot;
          max_techniques = int (length (produced_plan_entries snapshot));
          exclude_tried = (case map_of config ''exclude_tried'' of
                             Some (CBool b) \<Rightarrow> b | _ \<Rightarrow> False);
          repeat_penalty = (case map_of config ''repeat_penalty'' of
                              Some (CReal x) \<Rightarrow> x | Some (CInt i) \<Rightarrow> real_of_int i | _ \<Rightarrow> 0);
          family_tracker = tracker_of_tried reg (snap_techniques_tried snapshot);
          phase_str = (case map_of config ''campaign_phase'' of
                         Some (CStr s) \<Rightarrow> s | _ \<Rightarrow> ''probe'')
      in case CampaignPhase_of phase_str of
           Inl e \<Rightarrow> Inl e
         | Inr campaign_phase_v \<Rightarrow>
             fst (plan lib planner target reg (Some pst) (Some []) max_techniques exclude_tried
                    repeat_penalty (Some family_tracker) step_number campaign_phase_v))"

text \<open>
  \<open>verify\<close>: the divergences found, in the order the source appends them, as values
  instead of formatted messages.
\<close>

datatype divergence =
    LengthMismatch nat nat
  | TechniqueMismatch nat string string
  | UtilityMismatch nat string real real

definition entry_divergences :: "real \<Rightarrow> nat \<times> PlanEntry \<times> PlanEntry \<Rightarrow> divergence list" where
  "entry_divergences tolerance x =
     (case x of (i, original_entry, replayed_entry) \<Rightarrow>
        (if entry_technique_id original_entry \<noteq> entry_technique_id replayed_entry
         then [TechniqueMismatch (i + 1) (entry_technique_id original_entry)
                 (entry_technique_id replayed_entry)]
         else [])
        @ (case (utility (entry_score original_entry), utility (entry_score replayed_entry)) of
             (Some orig_utility, Some repl_utility) \<Rightarrow>
               if \<bar>orig_utility - repl_utility\<bar> > tolerance
               then [UtilityMismatch (i + 1) (entry_technique_id original_entry) orig_utility
                       repl_utility]
               else []
           | _ \<Rightarrow> []))"

definition verify ::
    "'r py_lib \<Rightarrow> AttackTechnique list \<Rightarrow> AdaptivePlanner option \<Rightarrow> PlannerConfig
     \<Rightarrow> PrioritizerEngine \<Rightarrow> int \<Rightarrow> DecisionSnapshot \<Rightarrow> TargetProfile \<Rightarrow> real
     \<Rightarrow> py_error + bool \<times> divergence list" where
  "verify lib reg planner_arg cfg eng randint snapshot target tolerance =
     (case replay lib reg planner_arg cfg eng randint snapshot target of
        Inl e \<Rightarrow> Inl e
      | Inr replayed_plan \<Rightarrow>
          (let original_len = length (produced_plan_entries snapshot);
               replayed_len = length (entries replayed_plan);
               divergences =
                 (if original_len \<noteq> replayed_len
                  then [LengthMismatch original_len replayed_len] else [])
                 @ concat (map (entry_divergences tolerance)
                             (enumerate 0 (zip (produced_plan_entries snapshot)
                                             (entries replayed_plan))))
           in Inr (divergences = [], divergences)))"

section \<open>Consistent states of the manager\<close>

text \<open>
  A state is consistent when every campaign in memory is stored under its own id, and
  every campaign file that \<open>_load\<close> can read holds the campaign of that id. A new
  manager on an empty storage directory is consistent, and the operations keep it so.
\<close>

definition disk_ok :: "string \<Rightarrow> FileSystem \<Rightarrow> bool" where
  "disk_ok storage fs =
     (\<forall>k c. validate_campaign_id k = None \<longrightarrow>
            map_of (fs_files fs) (campaign_path storage k) = Some (CampaignFile c) \<longrightarrow>
            campaign_id c = k)"

definition consistent :: "CampaignManager \<times> FileSystem \<Rightarrow> bool" where
  "consistent s =
     (case s of (m, fs) \<Rightarrow>
        (\<forall>k c. campaigns m k = Some c \<longrightarrow> campaign_id c = k) \<and>
        (case storage_dir m of None \<Rightarrow> True | Some storage \<Rightarrow> disk_ok storage fs))"

definition phase_of :: "CampaignManager \<times> FileSystem \<Rightarrow> string \<Rightarrow> CampaignPhase option" where
  "phase_of s cid = map_option campaign_phase (campaigns (fst s) cid)"

fun creates :: "manager_op \<Rightarrow> string \<Rightarrow> bool" where
  "creates (Create fresh_id _ _ _ _ _ _) cid = (fresh_id = cid)"
| "creates _ cid = False"

section \<open>Example inputs\<close>

definition example_technique :: "string \<Rightarrow> AttackTechnique" where
  "example_technique i =
     \<lparr>tid = i, name = ''Test'', domain = LLM, phase = PHASE_EXPLOIT, surface = GUARDRAIL,
      access_required = BLACK_BOX, goals_supported = [JAILBREAK], target_types = [CHATBOT],
      base_cost = 3 / 10, stealth_profile = MODERATE, tags = [''encoding'']\<rparr>"

definition example_family :: "AttackTechnique list" where
  "example_family = [example_technique ''A'', example_technique ''B'', example_technique ''C'']"

definition empty_state :: "real \<Rightarrow> PosteriorState" where
  "empty_state k = \<lparr>posteriors = Map.empty, prior_strength = k\<rparr>"

definition example_engine :: PrioritizerEngine where
  "example_engine =
     \<lparr>weights = (\<lambda>_. None), scorer_thresholds = no_thresholds, filters_max_cost = None,
      same_triple_penalty = None, engine_config = []\<rparr>"

definition example_planner :: AdaptivePlanner where
  "example_planner = AdaptivePlanner_init empty_config example_engine None (Some 42) None 7"

definition low_blend_planner :: AdaptivePlanner where
  "low_blend_planner =
     AdaptivePlanner_init (empty_config\<lparr>cfg_benchmark_blend_weight := Some (1 / 10)\<rparr>)
       example_engine None (Some 42) None 7"

definition example_aml_technique :: AttackTechnique where
  "example_aml_technique =
     \<lparr>tid = ''AP-TX-AML-FGSM'', name = ''FGSM'', domain = AML, phase = PHASE_EXPLOIT,
      surface = MODEL, access_required = WHITE_BOX, goals_supported = [EVASION],
      target_types = [CLASSIFIER], base_cost = 3 / 10, stealth_profile = OVERT,
      tags = [''adversarial-examples'']\<rparr>"

definition example_evaluation :: "string \<Rightarrow> string \<Rightarrow> bool option \<Rightarrow> EvaluationResult" where
  "example_evaluation a t s =
     \<lparr>attempt_id = a, success = s, score = None, evidence_quality = 1 / 2,
      eval_technique_id = t\<rparr>"

definition five_results :: "EvaluationResult list" where
  "five_results =
     [example_evaluation ''a1'' ''A'' (Some True), example_evaluation ''a2'' ''A'' (Some True),
      example_evaluation ''a3'' ''A'' (Some True), example_evaluation ''a4'' ''A'' (Some False),
      example_evaluation ''a5'' ''A'' None]"

text \<open>
  A stand-in for the library functions, for closed terms: a constant digest, a generator
  that counts its draws and always yields one half.
\<close>

definition stub_lib :: "nat py_lib" where
  "stub_lib =
     \<lparr>sha256 = (\<lambda>_. 0), Random = (\<lambda>seed. seed),
      betavariate = (\<lambda>g a b. if a \<le> 0 \<or> b \<le> 0 then None else Some (1 / 2, g + 1)),
      format_2f = (\<lambda>_. ''0.00''), py_hash = (\<lambda>_. 0)\<rparr>"

definition empty_fs :: FileSystem where
  "empty_fs = \<lparr>fs_files = [], fs_dirs = {}, fs_log = []\<rparr>"

definition example_snapshot :: DecisionSnapshot where
  "example_snapshot =
     \<lparr>snapshot_id = ''snap-test'', snap_campaign_id = ''../../etc'', snap_step_number = 0,
      snap_step_seed = 0, snap_techniques_tried = [], evaluation_count = 0,
      snap_queries_used = 0, snap_posterior_state = empty_state 8, planner_config = [],
      produced_plan_entries = []\<rparr>"

definition example_target :: TargetProfile where
  "example_target =
     \<lparr>target_name = ''Test Chatbot'', target_type = CHATBOT, access_level = BLACK_BOX,
      constraints = \<lparr>stealth_priority = OVERT, max_technique_cost = None\<rparr>,
      defenses = \<lparr>has_moderation = True, has_input_filtering = False,
                  has_output_filtering = False, has_schema_validation = False,
                  has_rate_limiting = False, has_prompt_injection_detection = False\<rparr>,
      goals = [JAILBREAK]\<rparr>"

definition example_manager :: CampaignManager where
  "example_manager = CampaignManager_init example_family example_engine None None"


text \<open>
  A registry with techniques on five of the six surfaces, and a manager holding two
  campaigns in the probe phase: one that has tried techniques on four surfaces, one that has
  tried four known techniques on three surfaces and one id the registry does not know.
\<close>

definition surface_technique :: "string \<Rightarrow> Surface \<Rightarrow> AttackTechnique" where
  "surface_technique i s = (example_technique i)\<lparr>surface := s\<rparr>"

definition surface_registry :: "AttackTechnique list" where
  "surface_registry =
     [surface_technique ''M'' MODEL, surface_technique ''D'' DATA,
      surface_technique ''R'' RETRIEVAL, surface_technique ''T'' TOOL,
      surface_technique ''G'' GUARDRAIL, surface_technique ''G2'' GUARDRAIL]"

definition probe_campaign :: "string \<Rightarrow> string list \<Rightarrow> Campaign" where
  "probe_campaign cid tried =
     \<lparr>campaign_id = cid, campaign_name = ''campaign'', status = ACTIVE,
      campaign_phase = PROBE, campaign_target = example_target, campaign_plan = None,
      state = \<lparr>attempts = [], evaluations = [], techniques_tried = tried, queries_used = 0\<rparr>,
      posterior_state = None,
      metadata = \<lparr>md_adaptive = None, md_campaign_seed = None\<rparr>\<rparr>"

definition wide_campaign :: Campaign where
  "wide_campaign = probe_campaign ''wide'' [''M'', ''D'', ''R'', ''T'']"

definition narrow_campaign :: Campaign where
  "narrow_campaign = probe_campaign ''narrow'' [''M'', ''D'', ''G'', ''G2'', ''unknown'']"

definition surface_manager :: CampaignManager where
  "surface_manager =
     (CampaignManager_init surface_registry example_engine None None)
       \<lparr>campaigns := [''wide'' \<mapsto> wide_campaign, ''narrow'' \<mapsto> narrow_campaign]\<rparr>"

text \<open>
  A campaign that has tried technique \<open>A\<close>, with a given list of evaluations, in a
  manager with an adaptive planner and the registry of the three techniques above.
\<close>

definition tried_campaign :: "EvaluationResult list \<Rightarrow> Campaign" where
  "tried_campaign evs =
     \<lparr>campaign_id = ''camp'', campaign_name = ''campaign'', status = ACTIVE,
      campaign_phase = PROBE, campaign_target = example_target, campaign_plan = None,
      state = \<lparr>attempts = [\<lparr>attempt_result_id = ''a1'', attempt_technique_id = ''A''\<rparr>],
               evaluations = evs, techniques_tried = [''A''], queries_used = 0\<rparr>,
      posterior_state = Some (empty_state 8),
      metadata = \<lparr>md_adaptive = Some True, md_campaign_seed = Some 42\<rparr>\<rparr>"

definition tried_manager :: "EvaluationResult list \<Rightarrow> CampaignManager" where
  "tried_manager evs =
     (CampaignManager_init example_family example_engine (Some example_planner) None)
       \<lparr>campaigns := [''camp'' \<mapsto> tried_campaign evs]\<rparr>"

definition tried_evaluations :: "EvaluationResult list" where
  "tried_evaluations = [example_evaluation ''a1'' ''A'' (Some True)]"
section \<open>Properties\<close>

subsection \<open>Posterior state\<close>

lemma get_or_init_present:
  "posteriors st t = Some p \<Longrightarrow> get_or_init st t b bp = (p, st)"
  by (simp add: get_or_init_def)

lemma get_or_init_stores:
  "posteriors (snd (get_or_init st t b bp)) t = Some (fst (get_or_init st t b bp))"
  by (cases "posteriors st t") (simp_all add: get_or_init_def Let_def)

text \<open>
  C10. For a technique id that is already in the posterior state, \<open>get_or_init\<close> returns
  the stored posterior and the unchanged state whatever \<open>base_score\<close> and
  \<open>benchmark_prior\<close> are; and a second call, with any other prior, returns what the first
  call returned (posterior and state), so initialisation happens on first touch only.
\<close>

theorem get_or_init_idempotent:
  "(posteriors st t = Some p \<longrightarrow> get_or_init st t b bp = (p, st)) \<and>
   get_or_init (snd (get_or_init st t b bp)) t b' bp' = get_or_init st t b bp"
proof
  show "posteriors st t = Some p \<longrightarrow> get_or_init st t b bp = (p, st)"
    by (simp add: get_or_init_present)
next
  have "get_or_init (snd (get_or_init st t b bp)) t b' bp'
      = (fst (get_or_init st t b bp), snd (get_or_init st t b bp))"
    by (rule get_or_init_present) (rule get_or_init_stores)
  then show "get_or_init (snd (get_or_init st t b bp)) t b' bp' = get_or_init st t b bp"
    by simp
qed

theorem get_or_init_idempotent_witness:
  "posteriors (snd (get_or_init (empty_state 8) ''A'' (1 / 2) None)) ''A''
     = Some \<lparr>technique_id = ''A'', alpha = 5, beta = 5, observations = 0\<rparr> \<and>
   get_or_init (snd (get_or_init (empty_state 8) ''A'' (1 / 2) None)) ''A'' (9 / 10)
       (Some (1 / 10))
     = (\<lparr>technique_id = ''A'', alpha = 5, beta = 5, observations = 0\<rparr>,
        snd (get_or_init (empty_state 8) ''A'' (1 / 2) None))"
proof -
  have s: "posteriors (snd (get_or_init (empty_state 8) ''A'' (1 / 2) None)) ''A''
     = Some \<lparr>technique_id = ''A'', alpha = 5, beta = 5, observations = 0\<rparr>"
    by (simp add: get_or_init_def empty_state_def Let_def)
  from get_or_init_idempotent
         [of "snd (get_or_init (empty_state 8) ''A'' (1 / 2) None)" "''A''"
             "\<lparr>technique_id = ''A'', alpha = 5, beta = 5, observations = 0\<rparr>"
             "9 / 10" "Some (1 / 10)"] s
  show ?thesis by blast
qed

subsection \<open>Family correlation\<close>

lemma propagate_loop_prior_strength:
  "prior_strength (propagate_loop rate r sibs st) = prior_strength st"
  by (induction sibs arbitrary: st)
     (auto simp: get_or_init_def Let_def split: option.splits prod.splits)

lemma propagate_loop_posteriors:
  "distinct sibs \<Longrightarrow>
   posteriors (propagate_loop rate r sibs st) x =
     (if x \<in> set sibs
      then (let p0 = fst (get_or_init st x (1 / 2) None)
            in Some (p0\<lparr>alpha := alpha p0 + r * rate, beta := beta p0 + (1 - r) * rate\<rparr>))
      else posteriors st x)"
proof (induction sibs arbitrary: st)
  case Nil
  then show ?case by simp
next
  case (Cons s rest)
  then show ?case
    by (auto simp: get_or_init_def Let_def split: option.splits prod.splits)
qed

lemma register_loop_rate: "spillover_rate (register_loop c ts) = spillover_rate c"
  by (induction ts arbitrary: c) (simp_all add: Let_def)

lemma register_loop_distinct:
  "(\<And>f. distinct (families c f)) \<Longrightarrow> distinct (families (register_loop c ts) f)"
proof (induction ts arbitrary: c)
  case Nil
  then show ?case by simp
next
  case (Cons t ts)
  show ?case
    unfolding register_loop.simps Let_def
    by (rule Cons.IH) (simp add: Cons.prems)
qed

lemma register_loop_families:
  "set (families (register_loop c ts) f) =
     set (families c f) \<union> {tid t | t. t \<in> set ts \<and> family_key t = f}"
  by (induction ts arbitrary: c) (auto simp: Let_def)

lemma register_loop_id_absent:
  "x \<notin> tid ` set ts \<Longrightarrow> id_to_family (register_loop c ts) x = id_to_family c x"
  by (induction ts arbitrary: c) (auto simp: Let_def)

lemma register_loop_id_present:
  "distinct (map tid ts) \<Longrightarrow> t \<in> set ts \<Longrightarrow>
   id_to_family (register_loop c ts) (tid t) = Some (family_key t)"
proof (induction ts arbitrary: c)
  case Nil
  then show ?case by simp
next
  case (Cons u ts)
  show ?case
  proof (cases "t = u")
    case True
    with Cons.prems have "tid t \<notin> tid ` set ts" by auto
    then show ?thesis using True
      by (simp add: Let_def register_loop_id_absent)
  next
    case False
    with Cons.prems have "t \<in> set ts" "distinct (map tid ts)" by auto
    then show ?thesis by (simp add: Let_def Cons.IH)
  qed
qed

lemma family_key_nonempty: "family_key t \<noteq> []"
  by (simp add: family_key_def Let_def)

lemma register_techniques_rate:
  "spillover_rate (register_techniques c0 catalog) = spillover_rate c0"
  by (simp add: register_techniques_def register_loop_rate)

lemma get_siblings_distinct:
  "distinct (get_siblings (register_techniques c0 catalog) t)"
proof -
  have "distinct (families (register_techniques c0 catalog) f)" for f
    unfolding register_techniques_def by (rule register_loop_distinct) simp
  then show ?thesis
    by (simp add: get_siblings_def distinct_removeAll split: option.splits)
qed

lemma get_siblings_not_self: "t \<notin> set (get_siblings c t)"
  by (simp add: get_siblings_def split: option.splits)

lemma get_siblings_register:
  assumes "distinct (map tid catalog)" and "u \<in> set catalog"
  shows "set (get_siblings (register_techniques c0 catalog) (tid u)) =
         {tid s | s. s \<in> set catalog \<and> family_key s = family_key u \<and> tid s \<noteq> tid u}"
  using assms
  by (auto simp: get_siblings_def register_techniques_def register_loop_id_present
        register_loop_families family_key_nonempty)

text \<open>
  C3. Spillover propagation for an observation of technique \<open>t\<close> with reward \<open>r\<close>, on a
  family index built by \<open>register_techniques\<close>: every sibling of \<open>t\<close> differs from \<open>t\<close>
  and ends with its alpha raised by \<open>spillover_rate * r\<close> and its beta raised by
  \<open>spillover_rate * (1 - r)\<close> (starting from its stored posterior, or from the prior that
  \<open>get_or_init\<close> gives it with base score 0.5 when it had none), with its observation
  count unchanged; the posterior of \<open>t\<close> itself is untouched; the default spillover rate
  is 0.3.
\<close>

theorem propagate_update_spillover:
  "(\<forall>s \<in> set (get_siblings (register_techniques c0 catalog) t).
      s \<noteq> t \<and>
      (\<exists>p'. posteriors (propagate_update (register_techniques c0 catalog) t r st) s = Some p' \<and>
         alpha p' = alpha (fst (get_or_init st s (1 / 2) None)) + spillover_rate c0 * r \<and>
         beta p' = beta (fst (get_or_init st s (1 / 2) None)) + spillover_rate c0 * (1 - r) \<and>
         observations p' = observations (fst (get_or_init st s (1 / 2) None)))) \<and>
   posteriors (propagate_update (register_techniques c0 catalog) t r st) t = posteriors st t \<and>
   spillover_rate (FamilyCorrelation_init None) = 3 / 10"
proof (intro conjI ballI)
  fix s
  assume s: "s \<in> set (get_siblings (register_techniques c0 catalog) t)"
  then show "s \<noteq> t" using get_siblings_not_self by metis
  from s have ne: "get_siblings (register_techniques c0 catalog) t \<noteq> []" by auto
  show "\<exists>p'. posteriors (propagate_update (register_techniques c0 catalog) t r st) s = Some p' \<and>
         alpha p' = alpha (fst (get_or_init st s (1 / 2) None)) + spillover_rate c0 * r \<and>
         beta p' = beta (fst (get_or_init st s (1 / 2) None)) + spillover_rate c0 * (1 - r) \<and>
         observations p' = observations (fst (get_or_init st s (1 / 2) None))"
    using s ne
    by (simp add: propagate_update_def Let_def propagate_loop_posteriors get_siblings_distinct
          register_techniques_rate mult.commute)
next
  show "posteriors (propagate_update (register_techniques c0 catalog) t r st) t = posteriors st t"
    by (simp add: propagate_update_def Let_def propagate_loop_posteriors get_siblings_distinct
          get_siblings_not_self)
next
  show "spillover_rate (FamilyCorrelation_init None) = 3 / 10"
    by (simp add: FamilyCorrelation_init_def)
qed

lemma example_siblings:
  "get_siblings (register_techniques (FamilyCorrelation_init None) example_family) ''A''
     = [''C'', ''B'']"
  by code_simp


theorem propagate_update_spillover_witness:
  "''B'' \<in> set (get_siblings (register_techniques (FamilyCorrelation_init None) example_family) ''A'') \<and>
   (\<exists>p'. posteriors (propagate_update
                 (register_techniques (FamilyCorrelation_init None) example_family) ''A'' 1
                 (empty_state 3)) ''B'' = Some p' \<and>
      alpha p' = 5 / 2 + 3 / 10 \<and> beta p' = 5 / 2 \<and> observations p' = 0)"
proof -
  have m: "''B'' \<in> set (get_siblings
             (register_techniques (FamilyCorrelation_init None) example_family) ''A'')"
    by (simp only: example_siblings) simp
  have g: "fst (get_or_init (empty_state 3) ''B'' (1 / 2) None)
           = \<lparr>technique_id = ''B'', alpha = 5 / 2, beta = 5 / 2, observations = 0\<rparr>"
    by (simp add: get_or_init_def empty_state_def Let_def)
  have r: "spillover_rate (FamilyCorrelation_init None) = 3 / 10"
    by (simp add: FamilyCorrelation_init_def)
  have all: "\<forall>s \<in> set (get_siblings
                 (register_techniques (FamilyCorrelation_init None) example_family) ''A'').
      s \<noteq> ''A'' \<and>
      (\<exists>p'. posteriors (propagate_update
                 (register_techniques (FamilyCorrelation_init None) example_family) ''A'' 1
                 (empty_state 3)) s = Some p' \<and>
         alpha p' = alpha (fst (get_or_init (empty_state 3) s (1 / 2) None))
                    + spillover_rate (FamilyCorrelation_init None) * 1 \<and>
         beta p' = beta (fst (get_or_init (empty_state 3) s (1 / 2) None))
                    + spillover_rate (FamilyCorrelation_init None) * (1 - 1) \<and>
         observations p' = observations (fst (get_or_init (empty_state 3) s (1 / 2) None)))"
    using propagate_update_spillover
         [of "FamilyCorrelation_init None" example_family "''A''" 1 "empty_state 3"]
    by (rule conjunct1)
  from bspec [OF all m] obtain p' where
    "posteriors (propagate_update
                 (register_techniques (FamilyCorrelation_init None) example_family) ''A'' 1
                 (empty_state 3)) ''B'' = Some p'"
    "alpha p' = alpha (fst (get_or_init (empty_state 3) ''B'' (1 / 2) None))
                    + spillover_rate (FamilyCorrelation_init None) * 1"
    "beta p' = beta (fst (get_or_init (empty_state 3) ''B'' (1 / 2) None))
                    + spillover_rate (FamilyCorrelation_init None) * (1 - 1)"
    "observations p' = observations (fst (get_or_init (empty_state 3) ''B'' (1 / 2) None))"
    by blast
  then have "posteriors (propagate_update
                 (register_techniques (FamilyCorrelation_init None) example_family) ''A'' 1
                 (empty_state 3)) ''B'' = Some p' \<and>
      alpha p' = 5 / 2 + 3 / 10 \<and> beta p' = 5 / 2 \<and> observations p' = 0"
    unfolding g r by simp
  with m show ?thesis by blast
qed

subsection \<open>Benchmark-blended prior\<close>

lemma get_benchmark_prior_range:
  "5 / 100 \<le> get_benchmark_prior f \<and> get_benchmark_prior f \<le> 95 / 100"
  by (simp add: get_benchmark_prior_def Let_def)

lemma blend_bounds:
  fixes w b x :: real
  assumes "0 \<le> w" "w \<le> 1" "0 \<le> x" "x \<le> 1" "5 / 100 \<le> b" "b \<le> 95 / 100"
  shows "5 / 100 * w \<le> w * b + (1 - w) * x" and "w * b + (1 - w) * x \<le> 1 - 5 / 100 * w"
proof -
  have 1: "w * (5 / 100) \<le> w * b" using assms by (intro mult_left_mono) auto
  have 2: "0 \<le> (1 - w) * x" using assms by simp
  show "5 / 100 * w \<le> w * b + (1 - w) * x" using 1 2 by (simp add: mult.commute)
  have 3: "w * b \<le> w * (95 / 100)" using assms by (intro mult_left_mono) auto
  have 4: "(1 - w) * x \<le> (1 - w) * 1" using assms by (intro mult_left_mono) auto
  show "w * b + (1 - w) * x \<le> 1 - 5 / 100 * w" using 3 4 by (simp add: algebra_simps)
qed

text \<open>
  C6, as the code has it. With benchmark priors enabled the prior is
  \<open>w * benchmark_asr(family) + (1 - w) * base\<close> for the blend weight \<open>w\<close>, where it is
  the benchmark term that is clamped to \<open>[0.05, 0.95]\<close>; the blended prior is not clamped,
  and for \<open>0 \<le> w \<le> 1\<close> and \<open>0 \<le> base \<le> 1\<close> it lies in \<open>[0.05 w, 1 - 0.05 w]\<close>. With
  benchmark priors disabled the prior is the base score. In both cases a posterior that
  is initialised gets \<open>alpha = 1 + k * prior\<close> and \<open>beta = 1 + k * (1 - prior)\<close>.
\<close>

theorem blended_prior_initialisation:
  "(use_benchmark_priors p \<longrightarrow>
      compute_blended_prior p t base =
        Some (benchmark_blend_weight p * get_benchmark_prior (family_key t)
              + (1 - benchmark_blend_weight p) * base) \<and>
      5 / 100 \<le> get_benchmark_prior (family_key t) \<and>
      get_benchmark_prior (family_key t) \<le> 95 / 100 \<and>
      (0 \<le> benchmark_blend_weight p \<and> benchmark_blend_weight p \<le> 1 \<and> 0 \<le> base \<and> base \<le> 1 \<longrightarrow>
         5 / 100 * benchmark_blend_weight p
           \<le> benchmark_blend_weight p * get_benchmark_prior (family_key t)
              + (1 - benchmark_blend_weight p) * base \<and>
         benchmark_blend_weight p * get_benchmark_prior (family_key t)
              + (1 - benchmark_blend_weight p) * base
           \<le> 1 - 5 / 100 * benchmark_blend_weight p)) \<and>
   (\<not> use_benchmark_priors p \<longrightarrow> compute_blended_prior p t base = None) \<and>
   (posteriors st (tid t) = None \<longrightarrow>
      alpha (fst (get_or_init st (tid t) base (compute_blended_prior p t base)))
        = 1 + prior_strength st
              * (if use_benchmark_priors p
                 then benchmark_blend_weight p * get_benchmark_prior (family_key t)
                      + (1 - benchmark_blend_weight p) * base
                 else base) \<and>
      beta (fst (get_or_init st (tid t) base (compute_blended_prior p t base)))
        = 1 + prior_strength st
              * (1 - (if use_benchmark_priors p
                      then benchmark_blend_weight p * get_benchmark_prior (family_key t)
                           + (1 - benchmark_blend_weight p) * base
                      else base)))"
proof (intro conjI impI)
  assume "0 \<le> benchmark_blend_weight p \<and> benchmark_blend_weight p \<le> 1 \<and> 0 \<le> base \<and> base \<le> 1"
  then have h: "0 \<le> benchmark_blend_weight p" "benchmark_blend_weight p \<le> 1" "0 \<le> base"
    "base \<le> 1" by auto
  show "5 / 100 * benchmark_blend_weight p
           \<le> benchmark_blend_weight p * get_benchmark_prior (family_key t)
              + (1 - benchmark_blend_weight p) * base"
    using blend_bounds(1) [OF h] get_benchmark_prior_range [of "family_key t"] by blast
  show "benchmark_blend_weight p * get_benchmark_prior (family_key t)
              + (1 - benchmark_blend_weight p) * base
           \<le> 1 - 5 / 100 * benchmark_blend_weight p"
    using blend_bounds(2) [OF h] get_benchmark_prior_range [of "family_key t"] by blast
next
  show "5 / 100 \<le> get_benchmark_prior (family_key t)"
    using get_benchmark_prior_range [of "family_key t"] by blast
next
  show "get_benchmark_prior (family_key t) \<le> 95 / 100"
    using get_benchmark_prior_range [of "family_key t"] by blast
qed (simp_all add: compute_blended_prior_def get_or_init_def Let_def)

lemma example_family_prior: "get_benchmark_prior (family_key (example_technique ''A'')) = 40 / 100"
  by code_simp

lemma example_planner_fields:
  "use_benchmark_priors example_planner" "benchmark_blend_weight example_planner = 6 / 10"
  by (simp_all add: example_planner_def AdaptivePlanner_init_def empty_config_def)

theorem blended_prior_initialisation_witness:
  "use_benchmark_priors example_planner \<and>
   compute_blended_prior example_planner (example_technique ''A'') (1 / 2) = Some (44 / 100) \<and>
   posteriors (empty_state 8) (tid (example_technique ''A'')) = None \<and>
   alpha (fst (get_or_init (empty_state 8) (tid (example_technique ''A'')) (1 / 2)
                 (compute_blended_prior example_planner (example_technique ''A'') (1 / 2))))
     = 1 + 8 * (44 / 100)"
proof -
  have e: "posteriors (empty_state 8) (tid (example_technique ''A'')) = None"
    "prior_strength (empty_state 8) = 8"
    by (simp_all add: empty_state_def)
  have v: "benchmark_blend_weight example_planner
             * get_benchmark_prior (family_key (example_technique ''A''))
           + (1 - benchmark_blend_weight example_planner) * (1 / 2) = 44 / 100"
    unfolding example_family_prior example_planner_fields(2) by simp
  note inst = blended_prior_initialisation
            [of example_planner "example_technique ''A''" "1 / 2" "empty_state 8"]
  from inst example_planner_fields(1)
  have c: "compute_blended_prior example_planner (example_technique ''A'') (1 / 2)
           = Some (benchmark_blend_weight example_planner
                     * get_benchmark_prior (family_key (example_technique ''A''))
                   + (1 - benchmark_blend_weight example_planner) * (1 / 2))"
    by blast
  from inst e(1)
  have a: "alpha (fst (get_or_init (empty_state 8) (tid (example_technique ''A'')) (1 / 2)
                 (compute_blended_prior example_planner (example_technique ''A'') (1 / 2))))
        = 1 + prior_strength (empty_state 8)
              * (if use_benchmark_priors example_planner
                 then benchmark_blend_weight example_planner
                        * get_benchmark_prior (family_key (example_technique ''A''))
                      + (1 - benchmark_blend_weight example_planner) * (1 / 2)
                 else 1 / 2)"
    by blast
  from c have c': "compute_blended_prior example_planner (example_technique ''A'') (1 / 2)
                   = Some (44 / 100)"
    unfolding v .
  from a have a': "alpha (fst (get_or_init (empty_state 8) (tid (example_technique ''A''))
                 (1 / 2)
                 (compute_blended_prior example_planner (example_technique ''A'') (1 / 2))))
                   = 1 + 8 * (44 / 100)"
    unfolding v e(2) using example_planner_fields(1) by (simp only: if_True)
  from c' a' example_planner_fields(1) e(1) show ?thesis by blast
qed

text \<open>
  The blended prior is not clamped: with blend weight 0.1, a family whose benchmark rate
  is 0.70 and base score 1 it is 0.97.
\<close>

theorem blended_prior_above_clamp:
  "use_benchmark_priors low_blend_planner \<and>
   compute_blended_prior low_blend_planner example_aml_technique 1 = Some (97 / 100) \<and>
   \<not> ((97 / 100 :: real) \<le> 95 / 100)"
  by code_simp

subsection \<open>Signal gain\<close>

text \<open>
  C7, as the code has it, for the default thresholds: the signal-gain score is 0.7 when
  there are no prior results (\<open>None\<close> or an empty list), 1.0 when the technique does not
  appear in the prior results, 0.5 when at least one of the technique's prior results is
  inconclusive, and 0.1 when the technique appears and none of its prior results is
  inconclusive.
\<close>

theorem score_signal_gain_cases:
  "score_signal_gain t None no_thresholds = 7 / 10 \<and>
   score_signal_gain t (Some []) no_thresholds = 7 / 10 \<and>
   (rs \<noteq> [] \<and> tid t \<notin> eval_technique_id ` set rs \<longrightarrow>
      score_signal_gain t (Some rs) no_thresholds = 1) \<and>
   ((\<exists>r \<in> set rs. eval_technique_id r = tid t \<and> success r = None) \<longrightarrow>
      score_signal_gain t (Some rs) no_thresholds = 1 / 2) \<and>
   (tid t \<in> eval_technique_id ` set rs \<and>
    (\<forall>r \<in> set rs. eval_technique_id r = tid t \<longrightarrow> success r \<noteq> None) \<longrightarrow>
      score_signal_gain t (Some rs) no_thresholds = 1 / 10)"
proof (intro conjI impI)
  assume "\<exists>r \<in> set rs. eval_technique_id r = tid t \<and> success r = None"
  then obtain r where r: "r \<in> set rs" "eval_technique_id r = tid t" "success r = None" by blast
  then have "rs \<noteq> []" "tid t \<in> eval_technique_id ` set rs"
    "filter (\<lambda>r. success r = None) (filter (\<lambda>r. eval_technique_id r = tid t) rs) \<noteq> []"
    by (force simp: filter_empty_conv)+
  then show "score_signal_gain t (Some rs) no_thresholds = 1 / 2"
    by (simp add: score_signal_gain_def th_get_def no_thresholds_def Let_def)
next
  assume a: "tid t \<in> eval_technique_id ` set rs \<and>
    (\<forall>r \<in> set rs. eval_technique_id r = tid t \<longrightarrow> success r \<noteq> None)"
  then have "rs \<noteq> []"
    "filter (\<lambda>r. success r = None) (filter (\<lambda>r. eval_technique_id r = tid t) rs) = []"
    by (auto simp: filter_empty_conv)
  with a show "score_signal_gain t (Some rs) no_thresholds = 1 / 10"
    by (simp add: score_signal_gain_def th_get_def no_thresholds_def Let_def)
qed (auto simp: score_signal_gain_def th_get_def no_thresholds_def Let_def)

theorem score_signal_gain_cases_witness:
  "score_signal_gain (example_technique ''A'')
     (Some [example_evaluation ''a1'' ''B'' (Some True)]) no_thresholds = 1 \<and>
   score_signal_gain (example_technique ''A'')
     (Some [example_evaluation ''a1'' ''A'' None]) no_thresholds = 1 / 2 \<and>
   score_signal_gain (example_technique ''A'')
     (Some [example_evaluation ''a1'' ''A'' (Some False)]) no_thresholds = 1 / 10"
proof -
  have 1: "score_signal_gain (example_technique ''A'')
     (Some [example_evaluation ''a1'' ''B'' (Some True)]) no_thresholds = 1"
    using score_signal_gain_cases
            [of "example_technique ''A''" "[example_evaluation ''a1'' ''B'' (Some True)]"]
    by (simp add: example_technique_def example_evaluation_def)
  have 2: "score_signal_gain (example_technique ''A'')
     (Some [example_evaluation ''a1'' ''A'' None]) no_thresholds = 1 / 2"
    using score_signal_gain_cases
            [of "example_technique ''A''" "[example_evaluation ''a1'' ''A'' None]"]
    by (simp add: example_technique_def example_evaluation_def)
  have 3: "score_signal_gain (example_technique ''A'')
     (Some [example_evaluation ''a1'' ''A'' (Some False)]) no_thresholds = 1 / 10"
    using score_signal_gain_cases
            [of "example_technique ''A''" "[example_evaluation ''a1'' ''A'' (Some False)]"]
    by (simp add: example_technique_def example_evaluation_def)
  from 1 2 3 show ?thesis by simp
qed

text \<open>
  A technique with one conclusive and one inconclusive prior result scores 0.5, not 0.1.
\<close>

theorem score_signal_gain_mixed:
  "success (example_evaluation ''a1'' ''A'' (Some True)) = Some True \<and>
   eval_technique_id (example_evaluation ''a1'' ''A'' (Some True)) = tid (example_technique ''A'') \<and>
   score_signal_gain (example_technique ''A'')
     (Some [example_evaluation ''a1'' ''A'' (Some True), example_evaluation ''a2'' ''A'' None])
     no_thresholds = 1 / 2 \<and>
   (1 / 2 :: real) \<noteq> 1 / 10"
  by (simp add: score_signal_gain_def th_get_def no_thresholds_def Let_def
        example_technique_def example_evaluation_def)

subsection \<open>Wilson interval\<close>

lemma sqrt_86416:
  "29396 / 100000 < sqrt (86416 / 1000000 :: real)"
  "sqrt (86416 / 1000000 :: real) < 29397 / 100000"
proof -
  show "29396 / 100000 < sqrt (86416 / 1000000 :: real)"
    by (rule real_less_rsqrt) (simp add: power2_eq_square)
  show "sqrt (86416 / 1000000 :: real) < 29397 / 100000"
    by (rule real_less_lsqrt) (simp_all add: power2_eq_square)
qed

lemma wilson_center_3_5:
  "wilson_center (WeakestLayerAnalyzer_init None None) 3 5 = Inr (98416 / 176832)"
  by (simp add: wilson_center_def py_div_def WeakestLayerAnalyzer_init_def Let_def
        power2_eq_square)

lemma wilson_interval_3_5:
  "wilson_interval (WeakestLayerAnalyzer_init None None) 3 5 =
     Inr (max 0 (98416 / 176832 - (196000 / 176832) * sqrt (86416 / 1000000)),
          min 1 (98416 / 176832 + (196000 / 176832) * sqrt (86416 / 1000000)))"
  by (simp add: wilson_interval_def WeakestLayerAnalyzer_init_def Let_def power2_eq_square)

lemma spread_3_5:
  "32582 / 100000 < (196000 / 176832) * sqrt (86416 / 1000000 :: real)"
  "(196000 / 176832) * sqrt (86416 / 1000000 :: real) < 32584 / 100000"
  using sqrt_86416 by simp_all

lemma wilson_radicand_nonneg:
  fixes n s :: real
  assumes "0 < n" "0 \<le> s" "s \<le> n"
  shows "0 \<le> (s / n) * (1 - s / n) / n + zz ^ 2 / (4 * n ^ 2)"
proof -
  have "0 \<le> s / n" "s / n \<le> 1" using assms by simp_all
  then have "0 \<le> (s / n) * (1 - s / n)" by (intro mult_nonneg_nonneg) simp_all
  then have "0 \<le> (s / n) * (1 - s / n) / n" using assms(1) by (intro divide_nonneg_pos)
  moreover have "0 \<le> zz ^ 2 / (4 * n ^ 2)" by simp
  ultimately show ?thesis by simp
qed

lemma wilson_denominator_pos:
  fixes n :: real
  assumes "0 < n"
  shows "0 < 1 + zz ^ 2 / n"
proof -
  have "0 \<le> zz ^ 2 / n" using assms by simp
  then show ?thesis by simp
qed

text \<open>
  C9, as the code has it. For a layer with \<open>n \<ge> 1\<close> results of which \<open>s\<close> succeeded, the
  default analyzer (\<open>z = 1.96\<close>) returns an assessment whose smoothed rate is the Wilson
  center \<open>(p + z\<^sup>2/(2n)) / (1 + z\<^sup>2/n)\<close> with \<open>p = s/n\<close> and whose confidence interval is
  center \<open>\<plusminus>\<close> \<open>(z / (1 + z\<^sup>2/n)) * sqrt (p (1 - p)/n + z\<^sup>2/(4n\<^sup>2))\<close> clamped to \<open>[0, 1]\<close>.
  For \<open>n = 5\<close>, \<open>s = 3\<close> the center lies between 0.5565 and 0.5566, the lower end of
  the interval between 0.2307 and 0.2308 and its upper end between 0.8823 and 0.8824.
\<close>

theorem wilson_assessment:
  "(results \<noteq> [] \<longrightarrow>
      (\<exists>la ev. assess_layer (WeakestLayerAnalyzer_init None None) l results ids = Inr la \<and>
         evidence la = Some ev \<and>
         smoothed_success_rate ev =
           (real (length (filter (\<lambda>r. success r = Some True) results)) / real (length results)
              + (196 / 100) ^ 2 / (2 * real (length results)))
           / (1 + (196 / 100) ^ 2 / real (length results)) \<and>
         ev_confidence_interval ev =
           (max 0 (smoothed_success_rate ev
                   - (196 / 100) / (1 + (196 / 100) ^ 2 / real (length results))
                     * sqrt (real (length (filter (\<lambda>r. success r = Some True) results))
                               / real (length results)
                             * (1 - real (length (filter (\<lambda>r. success r = Some True) results))
                                    / real (length results))
                             / real (length results)
                             + (196 / 100) ^ 2 / (4 * real (length results) ^ 2))),
            min 1 (smoothed_success_rate ev
                   + (196 / 100) / (1 + (196 / 100) ^ 2 / real (length results))
                     * sqrt (real (length (filter (\<lambda>r. success r = Some True) results))
                               / real (length results)
                             * (1 - real (length (filter (\<lambda>r. success r = Some True) results))
                                    / real (length results))
                             / real (length results)
                             + (196 / 100) ^ 2 / (4 * real (length results) ^ 2)))))) \<and>
   (\<exists>c lo hi. wilson_center (WeakestLayerAnalyzer_init None None) 3 5 = Inr c \<and>
      wilson_interval (WeakestLayerAnalyzer_init None None) 3 5 = Inr (lo, hi) \<and>
      5565 / 10000 < c \<and> c < 5566 / 10000 \<and>
      2307 / 10000 < lo \<and> lo < 2308 / 10000 \<and> 8823 / 10000 < hi \<and> hi < 8824 / 10000)"
proof (intro conjI impI)
  assume ne: "results \<noteq> []"
  define n where "n = real (length results)"
  define s where "s = real (length (filter (\<lambda>r. success r = Some True) results))"
  have n: "0 < n" using ne by (simp add: n_def)
  have s: "0 \<le> s" "s \<le> n" by (simp_all add: s_def n_def)
  have d: "1 + (196 / 100) ^ 2 / n \<noteq> 0"
    using wilson_denominator_pos [OF n, of "196 / 100"] by simp
  have r: "\<not> (s / n) * (1 - s / n) / n + (196 / 100) ^ 2 / (4 * n ^ 2) < 0"
    using wilson_radicand_nonneg [OF n s, of "196 / 100"] by simp
  have len: "int (length results) \<noteq> 0" "length results \<noteq> 0" using ne by simp_all
  show "\<exists>la ev. assess_layer (WeakestLayerAnalyzer_init None None) l results ids = Inr la \<and>
         evidence la = Some ev \<and>
         smoothed_success_rate ev =
           (real (length (filter (\<lambda>r. success r = Some True) results)) / real (length results)
              + (196 / 100) ^ 2 / (2 * real (length results)))
           / (1 + (196 / 100) ^ 2 / real (length results)) \<and>
         ev_confidence_interval ev =
           (max 0 (smoothed_success_rate ev
                   - (196 / 100) / (1 + (196 / 100) ^ 2 / real (length results))
                     * sqrt (real (length (filter (\<lambda>r. success r = Some True) results))
                               / real (length results)
                             * (1 - real (length (filter (\<lambda>r. success r = Some True) results))
                                    / real (length results))
                             / real (length results)
                             + (196 / 100) ^ 2 / (4 * real (length results) ^ 2))),
            min 1 (smoothed_success_rate ev
                   + (196 / 100) / (1 + (196 / 100) ^ 2 / real (length results))
                     * sqrt (real (length (filter (\<lambda>r. success r = Some True) results))
                               / real (length results)
                             * (1 - real (length (filter (\<lambda>r. success r = Some True) results))
                                    / real (length results))
                             / real (length results)
                             + (196 / 100) ^ 2 / (4 * real (length results) ^ 2))))"
    using d r len unfolding n_def s_def
    by (simp add: assess_layer_def wilson_center_def wilson_interval_def py_div_def
          WeakestLayerAnalyzer_init_def Let_def)
next
  have lo: "max 0 (98416 / 176832 - (196000 / 176832) * sqrt (86416 / 1000000 :: real))
            = 98416 / 176832 - (196000 / 176832) * sqrt (86416 / 1000000)"
    using spread_3_5 by simp
  have hi: "min 1 (98416 / 176832 + (196000 / 176832) * sqrt (86416 / 1000000 :: real))
            = 98416 / 176832 + (196000 / 176832) * sqrt (86416 / 1000000)"
    using spread_3_5 by simp
  have c: "5565 / 10000 < (98416 / 176832 :: real)" "(98416 / 176832 :: real) < 5566 / 10000"
    by simp_all
  have l: "2307 / 10000 < 98416 / 176832 - (196000 / 176832) * sqrt (86416 / 1000000 :: real)"
    "98416 / 176832 - (196000 / 176832) * sqrt (86416 / 1000000 :: real) < 2308 / 10000"
    using spread_3_5 by simp_all
  have h: "8823 / 10000 < 98416 / 176832 + (196000 / 176832) * sqrt (86416 / 1000000 :: real)"
    "98416 / 176832 + (196000 / 176832) * sqrt (86416 / 1000000 :: real) < 8824 / 10000"
    using spread_3_5 by simp_all
  have i: "wilson_interval (WeakestLayerAnalyzer_init None None) 3 5 =
       Inr (98416 / 176832 - (196000 / 176832) * sqrt (86416 / 1000000),
            98416 / 176832 + (196000 / 176832) * sqrt (86416 / 1000000))"
    unfolding wilson_interval_3_5 lo hi ..
  from wilson_center_3_5 i c l h
  show "\<exists>c lo hi. wilson_center (WeakestLayerAnalyzer_init None None) 3 5 = Inr c \<and>
      wilson_interval (WeakestLayerAnalyzer_init None None) 3 5 = Inr (lo, hi) \<and>
      5565 / 10000 < c \<and> c < 5566 / 10000 \<and>
      2307 / 10000 < lo \<and> lo < 2308 / 10000 \<and> 8823 / 10000 < hi \<and> hi < 8824 / 10000"
    by blast
qed

theorem wilson_assessment_witness:
  "five_results \<noteq> [] \<and>
   (\<exists>la ev. assess_layer (WeakestLayerAnalyzer_init None None) GUARDRAIL five_results [''A'']
              = Inr la \<and>
      evidence la = Some ev \<and> smoothed_success_rate ev = 98416 / 176832)"
proof -
  have ne: "five_results \<noteq> []" by (simp add: five_results_def)
  have len: "length five_results = 5"
    "length (filter (\<lambda>r. success r = Some True) five_results) = 3"
    by (simp_all add: five_results_def example_evaluation_def)
  from wilson_assessment [of five_results GUARDRAIL "[''A'']"] ne
  obtain la ev where
    "assess_layer (WeakestLayerAnalyzer_init None None) GUARDRAIL five_results [''A''] = Inr la"
    "evidence la = Some ev"
    "smoothed_success_rate ev =
       (real (length (filter (\<lambda>r. success r = Some True) five_results))
          / real (length five_results)
        + (196 / 100) ^ 2 / (2 * real (length five_results)))
       / (1 + (196 / 100) ^ 2 / real (length five_results))"
    by blast
  moreover have "(real (length (filter (\<lambda>r. success r = Some True) five_results))
          / real (length five_results)
        + (196 / 100) ^ 2 / (2 * real (length five_results)))
       / (1 + (196 / 100) ^ 2 / real (length five_results)) = 98416 / 176832"
    unfolding len by (simp add: power2_eq_square)
  ultimately show ?thesis using ne by auto
qed

text \<open>
  For 5 attempts and 3 successes the Wilson center is about 0.5566, more than 0.01 away
  from 0.5714, and the interval, about \<open>[0.2307, 0.8824]\<close>, is not inside
  \<open>[0.235, 0.860]\<close>.
\<close>

theorem wilson_3_of_5_values:
  "wilson_center (WeakestLayerAnalyzer_init None None) 3 5 = Inr (98416 / 176832) \<and>
   (98416 / 176832 :: real) < 5714 / 10000 - 1 / 100 \<and>
   wilson_interval (WeakestLayerAnalyzer_init None None) 3 5 =
     Inr (98416 / 176832 - (196000 / 176832) * sqrt (86416 / 1000000),
          98416 / 176832 + (196000 / 176832) * sqrt (86416 / 1000000)) \<and>
   98416 / 176832 - (196000 / 176832) * sqrt (86416 / 1000000 :: real) < 235 / 1000 \<and>
   860 / 1000 < 98416 / 176832 + (196000 / 176832) * sqrt (86416 / 1000000 :: real)"
proof -
  have lo: "max 0 (98416 / 176832 - (196000 / 176832) * sqrt (86416 / 1000000 :: real))
            = 98416 / 176832 - (196000 / 176832) * sqrt (86416 / 1000000)"
    using spread_3_5 by simp
  have hi: "min 1 (98416 / 176832 + (196000 / 176832) * sqrt (86416 / 1000000 :: real))
            = 98416 / 176832 + (196000 / 176832) * sqrt (86416 / 1000000)"
    using spread_3_5 by simp
  have i: "wilson_interval (WeakestLayerAnalyzer_init None None) 3 5 =
       Inr (98416 / 176832 - (196000 / 176832) * sqrt (86416 / 1000000),
            98416 / 176832 + (196000 / 176832) * sqrt (86416 / 1000000))"
    unfolding wilson_interval_3_5 lo hi ..
  have b: "98416 / 176832 - (196000 / 176832) * sqrt (86416 / 1000000 :: real) < 235 / 1000"
    "860 / 1000 < 98416 / 176832 + (196000 / 176832) * sqrt (86416 / 1000000 :: real)"
    using spread_3_5 by simp_all
  have c: "(98416 / 176832 :: real) < 5714 / 10000 - 1 / 100" by simp
  from wilson_center_3_5 i b c show ?thesis by blast
qed

subsection \<open>Campaign ids\<close>

lemma save_rejects_invalid_id:
  "validate_campaign_id (campaign_id c) = Some e \<Longrightarrow> save m fs c = (Some e, m, fs)"
  by (simp add: save_def)

lemma load_rejects_invalid_id:
  "validate_campaign_id cid = Some e \<Longrightarrow> load m fs cid = (Inl e, m, fs)"
  by (simp add: load_def)

lemma validate_campaign_id_iff:
  "validate_campaign_id cid = None \<longleftrightarrow>
     (cid \<noteq> [] \<and> list_all safe_char cid) \<or>
     (\<exists>body. cid = body @ [CHR 0x0A] \<and> body \<noteq> [] \<and> list_all safe_char body)"
proof (cases "cid = []")
  case True
  then show ?thesis by (simp add: validate_campaign_id_def)
next
  case False
  then obtain body c where cid: "cid = body @ [c]" by (metis rev_exhaust)
  have nl: "\<not> safe_char (CHR 0x0A)" by (simp add: safe_char_def)
  show ?thesis
  proof (cases "c = CHR 0x0A")
    case True
    with cid nl show ?thesis
      by (auto simp: validate_campaign_id_def SAFE_ID_RE_match_def Let_def)
  next
    case False
    with cid show ?thesis
      by (auto simp: validate_campaign_id_def SAFE_ID_RE_match_def Let_def)
  qed
qed

lemma format_04d_0: "format_04d 0 = ''0000''"
  by code_simp

text \<open>
  C8. The snapshot recorder does not validate the campaign id: \<open>record\<close> with the id
  \<open>../../etc\<close>, which the manager's validation rejects, creates the directory
  \<open>store/../../etc/snapshots\<close> and writes the snapshot file there. The validation itself
  accepts an id that ends with a newline.
\<close>

theorem recorder_record_unvalidated:
  "validate_campaign_id ''../../etc'' = Some ValueError \<and>
   fst (recorder_record ''store'' empty_fs ''0123456789ab'' ''../../etc'' 0 example_snapshot)
     = Inr ''store/../../etc/snapshots/step_0000.json'' \<and>
   fs_log (snd (recorder_record ''store'' empty_fs ''0123456789ab'' ''../../etc'' 0
                  example_snapshot))
     = [Mkdir ''store/../../etc/snapshots'',
        WriteText ''store/../../etc/snapshots/step_0000.json''] \<and>
   fs_log (snd (recorder_load ''store'' empty_fs ''../../etc'' 0))
     = [Exists ''store/../../etc/snapshots/step_0000.json''] \<and>
   fs_log (snd (recorder_list_snapshots int_of_str ''store'' empty_fs ''../../etc''))
     = [Exists ''store/../../etc/snapshots''] \<and>
   validate_campaign_id (''abc'' @ [CHR 0x0A]) = None"
  by (simp add: validate_campaign_id_def SAFE_ID_RE_match_def safe_char_def recorder_record_def
        recorder_load_def recorder_list_snapshots_def snapshot_dir_def snapshot_path_def
        path_join_def fs_mkdir_def fs_write_text_def fs_exists_def empty_fs_def format_04d_0
        Let_def)

subsection \<open>Effects of the manager's operations\<close>

lemma map_of_filter_neq:
  "q \<noteq> p \<Longrightarrow> map_of (filter (\<lambda>(q', _). q' \<noteq> p) xs) q = map_of xs q"
  by (induction xs) auto

lemma map_of_filter_neq2:
  "q \<noteq> p \<Longrightarrow> q \<noteq> p' \<Longrightarrow>
   map_of (filter (\<lambda>(q', _). q' \<noteq> p \<and> q' \<noteq> p') xs) q = map_of xs q"
  by (induction xs) auto

lemma map_of_write_text:
  "map_of (fs_files (fs_write_text fs p v)) q = (if q = p then Some v else map_of (fs_files fs) q)"
  by (simp add: fs_write_text_def map_of_filter_neq)

lemma map_of_replace:
  "map_of (fs_files fs) src = Some v \<Longrightarrow>
   map_of (fs_files (fs_replace fs src dst)) q =
     (if q = dst then Some v else if q = src then None else map_of (fs_files fs) q)"
proof -
  have gone: "map_of (filter (\<lambda>(q', _). q' \<noteq> src \<and> q' \<noteq> dst) xs) src = None" for xs
    by (induction xs) auto
  show "map_of (fs_files fs) src = Some v \<Longrightarrow> ?thesis"
    by (simp add: fs_replace_def map_of_filter_neq2 gone)
qed

lemma fs_files_mkdir [simp]: "fs_files (fs_mkdir fs d) = fs_files fs"
  by (simp add: fs_mkdir_def)

lemma fs_files_exists [simp]: "fs_files (snd (fs_exists fs p)) = fs_files fs"
  by (simp add: fs_exists_def)

lemma fs_files_read [simp]: "fs_files (snd (fs_read_text fs p)) = fs_files fs"
  by (simp add: fs_read_text_def)

lemma disk_ok_cong: "fs_files fs' = fs_files fs \<Longrightarrow> disk_ok storage fs' = disk_ok storage fs"
  by (simp add: disk_ok_def)

lemma valid_id_not_slash:
  "validate_campaign_id k = None \<Longrightarrow> \<not> (k @ ''.json'' \<noteq> [] \<and> hd (k @ ''.json'') = CHR ''/'')"
  by (cases k) (auto simp: validate_campaign_id_def SAFE_ID_RE_match_def safe_char_def Let_def
                     split: if_splits)

lemma campaign_path_inj:
  "validate_campaign_id k = None \<Longrightarrow> validate_campaign_id k' = None \<Longrightarrow>
   campaign_path storage k = campaign_path storage k' \<Longrightarrow> k = k'"
  using valid_id_not_slash [of k] valid_id_not_slash [of k']
  by (simp add: campaign_path_def path_join_def)

lemma save_effect:
  assumes "save m fs c = (r, m', fs')"
  shows "m' = (if r = None then m\<lparr>campaigns := (campaigns m)(campaign_id c \<mapsto> c)\<rparr> else m)"
  using assms by (auto simp: save_def Let_def split: option.splits)

lemma save_disk_ok:
  assumes "save m fs c = (r, m', fs')" and "storage_dir m = Some storage"
    and "disk_ok storage fs"
  shows "disk_ok storage fs'"
proof (cases "validate_campaign_id (campaign_id c)")
  case (Some e)
  with assms show ?thesis by (simp add: save_def)
next
  case None
  let ?path = "campaign_path storage (campaign_id c)"
  let ?tmp = "?path @ ''.tmp''"
  have fs': "fs' = fs_replace (fs_write_text (fs_mkdir fs storage) ?tmp (CampaignFile c)) ?tmp ?path"
    using assms(1,2) None by (simp add: save_def Let_def)
  have src: "map_of (fs_files (fs_write_text (fs_mkdir fs storage) ?tmp (CampaignFile c))) ?tmp
             = Some (CampaignFile c)"
    by (simp add: map_of_write_text)
  have files: "map_of (fs_files fs') q =
     (if q = ?path then Some (CampaignFile c) else if q = ?tmp then None
      else map_of (fs_files fs) q)" for q
    unfolding fs' map_of_replace [OF src] by (simp add: map_of_write_text)
  show ?thesis
    unfolding disk_ok_def
  proof (intro allI impI)
    fix k c'
    assume k: "validate_campaign_id k = None"
      and f: "map_of (fs_files fs') (campaign_path storage k) = Some (CampaignFile c')"
    show "campaign_id c' = k"
    proof (cases "campaign_path storage k = ?path")
      case True
      then have "k = campaign_id c" using campaign_path_inj k None by blast
      moreover from f True have "c' = c" by (simp add: files)
      ultimately show ?thesis by simp
    next
      case False
      with f have "map_of (fs_files fs) (campaign_path storage k) = Some (CampaignFile c')"
        by (simp add: files split: if_splits)
      with assms(3) k show ?thesis by (simp add: disk_ok_def)
    qed
  qed
qed

lemma load_effect:
  assumes "load m fs cid = (r, m', fs')"
  shows "fs_files fs' = fs_files fs \<and>
         (case r of
            Inr (Some c) \<Rightarrow> m' = m\<lparr>campaigns := (campaigns m)(cid \<mapsto> c)\<rparr> \<and>
               validate_campaign_id cid = None \<and>
               (\<exists>storage. storage_dir m = Some storage \<and>
                  map_of (fs_files fs) (campaign_path storage cid) = Some (CampaignFile c))
          | _ \<Rightarrow> m' = m)"
  using assms
  by (auto simp: load_def Let_def fs_exists_def fs_read_text_def
           split: option.splits prod.splits if_splits file_content.splits)

lemma get_effect:
  assumes "get m fs cid = (r, m', fs')" and "consistent (m, fs)"
  shows "fs_files fs' = fs_files fs \<and>
         (case r of
            Inr (Some c) \<Rightarrow> m' = m\<lparr>campaigns := (campaigns m)(cid \<mapsto> c)\<rparr> \<and>
               campaign_id c = cid \<and>
               (\<forall>c0. campaigns m cid = Some c0 \<longrightarrow> c = c0)
          | _ \<Rightarrow> m' = m \<and> campaigns m cid = None)"
proof (cases "campaigns m cid")
  case (Some c0)
  then have "m\<lparr>campaigns := (campaigns m)(cid \<mapsto> c0)\<rparr> = m"
    by (simp add: fun_upd_idem)
  with Some assms show ?thesis by (auto simp: get_def consistent_def)
next
  case None
  with assms(1) have l: "load m fs cid = (r, m', fs')" by (simp add: get_def)
  from load_effect [OF l] assms(2) None show ?thesis
    by (auto simp: consistent_def disk_ok_def split: sum.splits option.splits)
qed

lemma recorder_record_disk_ok:
  assumes "disk_ok storage' fs"
  shows "disk_ok storage' (snd (recorder_record storage fs fid cid n snap))"
  using assms
  by (simp add: recorder_record_def Let_def disk_ok_def map_of_write_text)

lemma record_snapshot_disk_ok:
  assumes "record_snapshot lib storage fs fid c n pl = (r, fs')" and "disk_ok storage' fs"
  shows "disk_ok storage' fs'"
proof (cases "posterior_state c")
  case None
  with assms show ?thesis by (simp add: record_snapshot_def)
next
  case (Some pst)
  with assms(1) have "\<exists>snap. fs' = snd (recorder_record storage fs fid (campaign_id c) n snap)"
    unfolding record_snapshot_def Let_def
    by (auto split: prod.splits sum.splits) (metis snd_conv)+
  with assms(2) show ?thesis by (auto simp: recorder_record_disk_ok)
qed

lemma save_after_update:
  assumes "save (m\<lparr>campaigns := (campaigns m)(cid \<mapsto> c)\<rparr>) fs c = (r, m', fs')"
    and "campaign_id c = cid"
  shows "campaigns m' = (campaigns m)(cid \<mapsto> c) \<and> step_counters m' = step_counters m \<and>
         registry m' = registry m \<and> storage_dir m' = storage_dir m \<and>
         mgr_engine m' = mgr_engine m \<and> adaptive_planner m' = adaptive_planner m \<and>
         (\<forall>storage. disk_ok storage fs \<and> storage_dir m = Some storage \<longrightarrow> disk_ok storage fs')"
proof -
  from save_effect [OF assms(1)] assms(2)
  have "m' = m\<lparr>campaigns := (campaigns m)(cid \<mapsto> c)\<rparr>" by (auto split: if_splits)
  moreover have "disk_ok storage fs'" if "disk_ok storage fs" "storage_dir m = Some storage"
    for storage
    using save_disk_ok [OF assms(1) _ that(1)] that(2) by simp
  ultimately show ?thesis by simp
qed

lemma transition_step_effect:
  assumes "transition_step m1 cid c = (m3, c1, n)"
  shows "n = (case step_counters m1 cid of Some s \<Rightarrow> s | None \<Rightarrow> 0) \<and>
         campaigns m3 = (campaigns m1)(cid \<mapsto> c1) \<and>
         step_counters m3 = (step_counters m1)(cid \<mapsto> n + 1) \<and>
         registry m3 = registry m1 \<and> storage_dir m3 = storage_dir m1 \<and>
         mgr_engine m3 = mgr_engine m1 \<and> adaptive_planner m3 = adaptive_planner m1 \<and>
         campaign_id c1 = campaign_id c \<and> state c1 = state c \<and> metadata c1 = metadata c \<and>
         posterior_state c1 = posterior_state c \<and>
         campaign_phase c1 =
           (if should_transition (m1\<lparr>step_counters := (step_counters m1)(cid \<mapsto> n + 1)\<rparr>) c
            then EXPLOIT else campaign_phase c)"
  using assms by (auto simp: transition_step_def Let_def)

lemma adaptive_recommend_effect:
  assumes r: "adaptive_recommend lib m3 fs1 fid cid c1 planner pst n k ex pen = (res, m', fs')"
    and cid: "campaign_id c1 = cid"
  shows "\<exists>c'. campaigns m' = (campaigns m3)(cid \<mapsto> c') \<and> campaign_id c' = cid \<and>
           state c' = state c1 \<and> metadata c' = metadata c1 \<and>
           campaign_phase c' = campaign_phase c1 \<and>
           step_counters m' = step_counters m3 \<and>
           registry m' = registry m3 \<and> storage_dir m' = storage_dir m3 \<and>
           mgr_engine m' = mgr_engine m3 \<and>
           (\<forall>storage. disk_ok storage fs1 \<and> storage_dir m3 = Some storage
                \<longrightarrow> disk_ok storage fs')"
proof -
  obtain pres pst' planner' where pl:
    "plan lib planner (campaign_target c1) (registry m3) (Some pst)
       (Some (evaluations (state c1))) k ex pen
       (Some (tracker_of_tried (registry m3) (techniques_tried (state c1)))) n
       (campaign_phase c1) = (pres, pst', planner')"
    by (metis prod_cases3)
  define c2 where "c2 = c1\<lparr>posterior_state := Some pst'\<rparr>"
  define m4 where "m4 = m3\<lparr>adaptive_planner := Some planner'\<rparr>"
  have c2: "campaign_id c2 = cid" "state c2 = state c1" "metadata c2 = metadata c1"
    "campaign_phase c2 = campaign_phase c1"
    using cid by (simp_all add: c2_def)
  have m4: "campaigns m4 = campaigns m3" "step_counters m4 = step_counters m3"
    "registry m4 = registry m3" "storage_dir m4 = storage_dir m3" "mgr_engine m4 = mgr_engine m3"
    by (simp_all add: m4_def)
  have m4': "m3\<lparr>adaptive_planner := Some planner',
               campaigns := (campaigns m3)(cid \<mapsto> c1\<lparr>posterior_state := Some pst'\<rparr>)\<rparr>
             = m4\<lparr>campaigns := (campaigns m4)(cid \<mapsto> c2)\<rparr>"
    by (simp add: m4_def c2_def)
  note unf = adaptive_recommend_def Let_def
  show ?thesis
  proof (cases pres)
    case (Inl e)
    with r pl have "m' = m4\<lparr>campaigns := (campaigns m4)(cid \<mapsto> c2)\<rparr>" "fs' = fs1"
      by (simp_all add: unf m4_def c2_def)
    with c2 m4 show ?thesis by auto
  next
    case (Inr pl')
    obtain sr m5 fs2 where sv:
      "save (m4\<lparr>campaigns := (campaigns m4)(cid \<mapsto> c2)\<rparr>) fs1 c2 = (sr, m5, fs2)"
      by (metis prod_cases3)
    note m5 = save_after_update [OF sv c2(1)]
    from sv have sv': "save (m3\<lparr>adaptive_planner := Some planner',
               campaigns := (campaigns m3)(cid \<mapsto> c1\<lparr>posterior_state := Some pst'\<rparr>)\<rparr>)
             fs1 (c1\<lparr>posterior_state := Some pst'\<rparr>) = (sr, m5, fs2)"
      unfolding m4' by (simp add: c2_def)
    show ?thesis
    proof (cases sr)
      case (Some e)
      with r pl Inr sv' have "m' = m5" "fs' = fs2" by (simp_all add: unf)
      with c2 m4 m5 show ?thesis by auto
    next
      case None
      show ?thesis
      proof (cases "storage_dir m5")
        case None': None
        with r pl Inr sv' None have "m' = m5" "fs' = fs2" by (simp_all add: unf)
        with c2 m4 m5 show ?thesis by auto
      next
        case (Some storage)
        obtain rr fs3 where rs: "record_snapshot lib storage fs2 fid c2 n pl' = (rr, fs3)"
          by (metis prod.exhaust)
        with r pl Inr sv' None Some have "m' = m5" "fs' = fs3"
          by (auto simp: unf c2_def split: sum.splits)
        moreover have "disk_ok storage' fs3" if "disk_ok storage' fs1"
          "storage_dir m3 = Some storage'" for storage'
          using record_snapshot_disk_ok [OF rs] m5 m4 that by auto
        ultimately show ?thesis using c2 m4 m5 by auto
      qed
    qed
  qed
qed

lemma recommend_for_effect:
  assumes r: "recommend_for lib m1 fs1 fid cid c k ex pen ad = (res, m', fs')"
    and cid: "campaign_id c = cid"
  shows "\<exists>c'. campaigns m' = (campaigns m1)(cid \<mapsto> c') \<and> campaign_id c' = cid \<and>
           state c' = state c \<and> metadata c' = metadata c \<and>
           campaign_phase c' =
             (if should_transition
                   (m1\<lparr>step_counters := (step_counters m1)
                        (cid \<mapsto> (case step_counters m1 cid of Some s \<Rightarrow> s | None \<Rightarrow> 0) + 1)\<rparr>) c
              then EXPLOIT else campaign_phase c) \<and>
           step_counters m' = (step_counters m1)
                        (cid \<mapsto> (case step_counters m1 cid of Some s \<Rightarrow> s | None \<Rightarrow> 0) + 1) \<and>
           registry m' = registry m1 \<and> storage_dir m' = storage_dir m1 \<and>
           mgr_engine m' = mgr_engine m1 \<and>
           (\<forall>storage. disk_ok storage fs1 \<and> storage_dir m1 = Some storage
                \<longrightarrow> disk_ok storage fs')"
proof -
  obtain m3 c1 n where ts: "transition_step m1 cid c = (m3, c1, n)" by (metis prod_cases3)
  note t = transition_step_effect [OF ts]
  have c1: "campaign_id c1 = cid" using t cid by simp
  show ?thesis
  proof (cases "\<exists>planner pst.
      (if (case ad of Some a \<Rightarrow> a
           | None \<Rightarrow> (case md_adaptive (metadata c) of Some a \<Rightarrow> a | None \<Rightarrow> False))
       then adaptive_planner m3 else None) = Some planner \<and> posterior_state c1 = Some pst")
    case True
    then obtain planner pst where
      "(if (case ad of Some a \<Rightarrow> a
           | None \<Rightarrow> (case md_adaptive (metadata c) of Some a \<Rightarrow> a | None \<Rightarrow> False))
       then adaptive_planner m3 else None) = Some planner" "posterior_state c1 = Some pst"
      by blast
    with r ts have "adaptive_recommend lib m3 fs1 fid cid c1 planner pst n k ex pen
                    = (res, m', fs')"
      by (simp add: recommend_for_def Let_def)
    from adaptive_recommend_effect [OF this c1] t show ?thesis by auto
  next
    case False
    with r ts have "m' = m3" "fs' = fs1"
      by (auto simp: recommend_for_def Let_def split: option.splits)
    with t c1 show ?thesis by auto
  qed
qed

lemma ingest_for_effect:
  assumes r: "ingest_for m1 fs1 cid c atts evs = (res, m', fs')"
    and cid: "campaign_id c = cid"
  shows "\<exists>c'. campaigns m' = (campaigns m1)(cid \<mapsto> c') \<and> campaign_id c' = cid \<and>
           campaign_phase c' = campaign_phase c \<and>
           step_counters m' = step_counters m1 \<and>
           registry m' = registry m1 \<and> storage_dir m' = storage_dir m1 \<and>
           mgr_engine m' = mgr_engine m1 \<and>
           (\<forall>storage. disk_ok storage fs1 \<and> storage_dir m1 = Some storage
                \<longrightarrow> disk_ok storage fs')"
proof -
  define c1 where "c1 = c\<lparr>state := (state c)
       \<lparr>attempts := attempts (state c) @ atts,
        evaluations := evaluations (state c) @ evs,
        techniques_tried := fold (\<lambda>i tr. if i \<in> set tr then tr else tr @ [i])
                              (remdups (map attempt_technique_id atts))
                              (techniques_tried (state c)),
        queries_used := queries_used (state c) + int (length atts)\<rparr>\<rparr>"
  have c1: "campaign_id c1 = cid" "campaign_phase c1 = campaign_phase c"
    "metadata c1 = metadata c" "posterior_state c1 = posterior_state c"
    using cid by (simp_all add: c1_def)
  note unf = ingest_for_def Let_def c1_def [symmetric]
  show ?thesis
  proof (cases "\<exists>planner pst.
      (if (case md_adaptive (metadata c1) of Some a \<Rightarrow> a | None \<Rightarrow> False)
       then adaptive_planner m1 else None) = Some planner \<and> posterior_state c1 = Some pst")
    case False
    obtain sr m3 fs2 where sv:
      "save (m1\<lparr>campaigns := (campaigns m1)(cid \<mapsto> c1)\<rparr>) fs1 c1 = (sr, m3, fs2)"
      by (metis prod_cases3)
    note m3 = save_after_update [OF sv c1(1)]
    from r False sv have "m' = m3" "fs' = fs2"
      unfolding unf by (auto split: option.splits if_splits)
    with m3 c1 show ?thesis by auto
  next
    case True
    then obtain planner pst where ap:
      "(if (case md_adaptive (metadata c1) of Some a \<Rightarrow> a | None \<Rightarrow> False)
       then adaptive_planner m1 else None) = Some planner" "posterior_state c1 = Some pst"
      by blast
    obtain err pst' where up:
      "update_posteriors planner pst evs (registry m1) (campaign_target c1) = (err, pst')"
      by (metis prod.exhaust)
    define c2 where "c2 = c1\<lparr>posterior_state := Some pst'\<rparr>"
    have c2: "campaign_id c2 = cid" "campaign_phase c2 = campaign_phase c"
      using c1 by (simp_all add: c2_def)
    show ?thesis
    proof (cases err)
      case (Some e)
      with r ap up have "m' = m1\<lparr>campaigns := (campaigns m1)(cid \<mapsto> c2)\<rparr>" "fs' = fs1"
        unfolding unf c2_def by simp_all
      with c2 show ?thesis by auto
    next
      case None
      obtain sr m3 fs2 where sv:
        "save (m1\<lparr>campaigns := (campaigns m1)(cid \<mapsto> c2)\<rparr>) fs1 c2 = (sr, m3, fs2)"
        by (metis prod_cases3)
      note m3 = save_after_update [OF sv c2(1)]
      from r ap up None sv have "m' = m3" "fs' = fs2"
        unfolding unf c2_def by (auto split: option.splits)
      with m3 c2 show ?thesis by auto
    qed
  qed
qed

lemma update_status_effect_core:
  assumes "save (m1\<lparr>campaigns := (campaigns m1)(cid \<mapsto> c\<lparr>status := s\<rparr>)\<rparr>) fs1 (c\<lparr>status := s\<rparr>)
             = (sr, m', fs')"
    and cid: "campaign_id c = cid"
  shows "\<exists>c'. campaigns m' = (campaigns m1)(cid \<mapsto> c') \<and> campaign_id c' = cid \<and>
           campaign_phase c' = campaign_phase c \<and>
           step_counters m' = step_counters m1 \<and>
           registry m' = registry m1 \<and> storage_dir m' = storage_dir m1 \<and>
           mgr_engine m' = mgr_engine m1 \<and>
           (\<forall>storage. disk_ok storage fs1 \<and> storage_dir m1 = Some storage
                \<longrightarrow> disk_ok storage fs')"
proof -
  have "campaign_id (c\<lparr>status := s\<rparr>) = cid" using cid by simp
  from save_after_update [OF assms(1) this] show ?thesis
    by (intro exI [of _ "c\<lparr>status := s\<rparr>"]) (simp add: cid)
qed

text \<open>
  What an operation on the campaign \<open>cid\<close> leaves behind, whatever it returns: the
  campaign stored under \<open>cid\<close> is replaced by one of the same id, and nothing else in the
  manager's dictionary changes.
\<close>

lemma consistent_update:
  assumes "consistent (m, fs)" and "campaigns m' = (campaigns m)(cid \<mapsto> c')"
    and "campaign_id c' = cid" and "storage_dir m' = storage_dir m"
    and "\<forall>storage. disk_ok storage fs \<and> storage_dir m = Some storage \<longrightarrow> disk_ok storage fs'"
  shows "consistent (m', fs')"
  using assms by (auto simp: consistent_def split: option.splits)

lemma consistent_files:
  assumes "consistent (m, fs)" and "fs_files fs' = fs_files fs"
  shows "consistent (m, fs')"
  using assms by (auto simp: consistent_def disk_ok_def split: option.splits)

lemma recommend_next_found:
  assumes r: "recommend_next lib m fs fid cid k ex pen ad = (res, m', fs')"
    and g: "get m fs cid = (Inr (Some c), m1, fs1)"
    and con: "consistent (m, fs)"
  shows "campaign_id c = cid \<and>
         (\<exists>c'. campaigns m' = (campaigns m)(cid \<mapsto> c') \<and> campaign_id c' = cid \<and>
           state c' = state c \<and>
           campaign_phase c' =
             (if should_transition
                   (m1\<lparr>step_counters := (step_counters m)
                        (cid \<mapsto> (case step_counters m cid of Some s \<Rightarrow> s | None \<Rightarrow> 0) + 1)\<rparr>) c
              then EXPLOIT else campaign_phase c) \<and>
           step_counters m' = (step_counters m)
                        (cid \<mapsto> (case step_counters m cid of Some s \<Rightarrow> s | None \<Rightarrow> 0) + 1) \<and>
           registry m' = registry m \<and> storage_dir m' = storage_dir m \<and>
           mgr_engine m' = mgr_engine m) \<and>
         consistent (m', fs')"
proof -
  from get_effect [OF g con] have g': "fs_files fs1 = fs_files fs"
    "m1 = m\<lparr>campaigns := (campaigns m)(cid \<mapsto> c)\<rparr>" "campaign_id c = cid"
    by simp_all
  from r g have rf: "recommend_for lib m1 fs1 fid cid c k ex pen ad = (res, m', fs')"
    by (simp add: recommend_next_def)
  from recommend_for_effect [OF rf g'(3)] obtain c' where c':
    "campaigns m' = (campaigns m1)(cid \<mapsto> c')" "campaign_id c' = cid"
    "state c' = state c"
    "campaign_phase c' =
             (if should_transition
                   (m1\<lparr>step_counters := (step_counters m1)
                        (cid \<mapsto> (case step_counters m1 cid of Some s \<Rightarrow> s | None \<Rightarrow> 0) + 1)\<rparr>) c
              then EXPLOIT else campaign_phase c)"
    "step_counters m' = (step_counters m1)
                        (cid \<mapsto> (case step_counters m1 cid of Some s \<Rightarrow> s | None \<Rightarrow> 0) + 1)"
    "registry m' = registry m1" "storage_dir m' = storage_dir m1"
    "mgr_engine m' = mgr_engine m1"
    "\<forall>storage. disk_ok storage fs1 \<and> storage_dir m1 = Some storage \<longrightarrow> disk_ok storage fs'"
    by blast
  have sc: "step_counters m1 = step_counters m" "registry m1 = registry m"
    "storage_dir m1 = storage_dir m" "mgr_engine m1 = mgr_engine m"
    by (simp_all add: g'(2))
  have cm: "campaigns m' = (campaigns m)(cid \<mapsto> c')" using c'(1) by (simp add: g'(2))
  have d: "\<forall>storage. disk_ok storage fs \<and> storage_dir m = Some storage \<longrightarrow> disk_ok storage fs'"
  proof (intro allI impI)
    fix storage
    assume a: "disk_ok storage fs \<and> storage_dir m = Some storage"
    then have "disk_ok storage fs1" using disk_ok_cong [OF g'(1)] by blast
    moreover have "storage_dir m1 = Some storage" using a sc(3) by simp
    ultimately show "disk_ok storage fs'" using c'(9) by blast
  qed
  have con': "consistent (m', fs')"
    using consistent_update [OF con cm c'(2) _ d] c'(7) sc(3) by simp
  have ph: "campaign_phase c' =
             (if should_transition
                   (m1\<lparr>step_counters := (step_counters m)
                        (cid \<mapsto> (case step_counters m cid of Some s \<Rightarrow> s | None \<Rightarrow> 0) + 1)\<rparr>) c
              then EXPLOIT else campaign_phase c)"
    using c'(4) unfolding sc(1) .
  have st: "step_counters m' = (step_counters m)
                        (cid \<mapsto> (case step_counters m cid of Some s \<Rightarrow> s | None \<Rightarrow> 0) + 1)"
    using c'(5) unfolding sc(1) .
  have rest: "registry m' = registry m" "storage_dir m' = storage_dir m"
    "mgr_engine m' = mgr_engine m"
    using c'(6,7,8) sc(2,3,4) by simp_all
  have "\<exists>c'. campaigns m' = (campaigns m)(cid \<mapsto> c') \<and> campaign_id c' = cid \<and>
           state c' = state c \<and>
           campaign_phase c' =
             (if should_transition
                   (m1\<lparr>step_counters := (step_counters m)
                        (cid \<mapsto> (case step_counters m cid of Some s \<Rightarrow> s | None \<Rightarrow> 0) + 1)\<rparr>) c
              then EXPLOIT else campaign_phase c) \<and>
           step_counters m' = (step_counters m)
                        (cid \<mapsto> (case step_counters m cid of Some s \<Rightarrow> s | None \<Rightarrow> 0) + 1) \<and>
           registry m' = registry m \<and> storage_dir m' = storage_dir m \<and>
           mgr_engine m' = mgr_engine m"
    by (rule exI [of _ c']) (intro conjI cm c'(2,3) ph st rest)
  with g'(3) con' show ?thesis by (intro conjI)
qed

lemma step_found:
  assumes con: "consistent (m, fs)"
    and g: "get m fs cid = (Inr (Some c), m1, fs1)"
    and e: "campaigns m' = (campaigns m1)(cid \<mapsto> c')" "campaign_id c' = cid"
      "campaign_phase c = EXPLOIT \<Longrightarrow> campaign_phase c' = EXPLOIT"
      "storage_dir m' = storage_dir m1"
      "\<forall>storage. disk_ok storage fs1 \<and> storage_dir m1 = Some storage \<longrightarrow> disk_ok storage fs'"
  shows "consistent (m', fs')"
    and "phase_of (m, fs) k = Some EXPLOIT \<Longrightarrow> phase_of (m', fs') k = Some EXPLOIT"
proof -
  from get_effect [OF g con] have g': "fs_files fs1 = fs_files fs"
    "m1 = m\<lparr>campaigns := (campaigns m)(cid \<mapsto> c)\<rparr>" "campaign_id c = cid"
    "\<forall>c0. campaigns m cid = Some c0 \<longrightarrow> c = c0"
    by simp_all
  have cm: "campaigns m' = (campaigns m)(cid \<mapsto> c')" using e(1) by (simp add: g'(2))
  have sd: "storage_dir m' = storage_dir m" using e(4) by (simp add: g'(2))
  have d: "\<forall>storage. disk_ok storage fs \<and> storage_dir m = Some storage \<longrightarrow> disk_ok storage fs'"
  proof (intro allI impI)
    fix storage
    assume a: "disk_ok storage fs \<and> storage_dir m = Some storage"
    then have "disk_ok storage fs1" using disk_ok_cong [OF g'(1)] by blast
    moreover have "storage_dir m1 = Some storage" using a by (simp add: g'(2))
    ultimately show "disk_ok storage fs'" using e(5) by blast
  qed
  show "consistent (m', fs')" by (rule consistent_update [OF con cm e(2) sd d])
  show "phase_of (m', fs') k = Some EXPLOIT" if p: "phase_of (m, fs) k = Some EXPLOIT"
  proof (cases "k = cid")
    case False
    with p cm show ?thesis by (simp add: phase_of_def)
  next
    case True
    with p obtain c0 where c0: "campaigns m cid = Some c0" "campaign_phase c0 = EXPLOIT"
      by (auto simp: phase_of_def)
    with g'(4) have "campaign_phase c = EXPLOIT" by auto
    with e(3) True cm show ?thesis by (simp add: phase_of_def)
  qed
qed

lemma step_not_found:
  assumes con: "consistent (m, fs)"
    and g: "get m fs cid = (r, m1, fs1)" and r: "\<And>c. r \<noteq> Inr (Some c)"
  shows "consistent (m1, fs1)" and "phase_of (m1, fs1) k = phase_of (m, fs) k"
proof -
  from get_effect [OF g con] r have "fs_files fs1 = fs_files fs" "m1 = m"
    by (auto split: sum.splits option.splits)
  then show "consistent (m1, fs1)" "phase_of (m1, fs1) k = phase_of (m, fs) k"
    using consistent_files [OF con] by (simp_all add: phase_of_def)
qed

lemma get_preserves:
  assumes con: "consistent (m, fs)" and g: "get m fs cid = (r, m1, fs1)"
  shows "consistent (m1, fs1)"
    and "phase_of (m, fs) k = Some EXPLOIT \<Longrightarrow> phase_of (m1, fs1) k = Some EXPLOIT"
proof -
  have "consistent (m1, fs1) \<and>
        (phase_of (m, fs) k = Some EXPLOIT \<longrightarrow> phase_of (m1, fs1) k = Some EXPLOIT)"
  proof (cases "\<exists>c. r = Inr (Some c)")
    case True
    then obtain c where rc: "r = Inr (Some c)" by blast
    from get_effect [OF g con] rc have g': "fs_files fs1 = fs_files fs"
      "m1 = m\<lparr>campaigns := (campaigns m)(cid \<mapsto> c)\<rparr>" "campaign_id c = cid"
      by simp_all
    have "campaigns m1 = (campaigns m1)(cid \<mapsto> c)" by (simp add: g'(2))
    moreover have "\<forall>storage. disk_ok storage fs1 \<and> storage_dir m1 = Some storage
                     \<longrightarrow> disk_ok storage fs1" by simp
    ultimately show ?thesis
      using step_found(1) [OF con g [unfolded rc], where m' = m1 and c' = c and fs' = fs1]
        step_found(2) [OF con g [unfolded rc], where m' = m1 and c' = c and fs' = fs1 and k = k]
        g'(3) by blast
  next
    case False
    then have "\<And>c. r \<noteq> Inr (Some c)" by blast
    from step_not_found(1) [OF con g this] step_not_found(2) [OF con g this, where k = k]
    show ?thesis by simp
  qed
  then show "consistent (m1, fs1)"
    and "phase_of (m, fs) k = Some EXPLOIT \<Longrightarrow> phase_of (m1, fs1) k = Some EXPLOIT"
    by blast+
qed

lemma recommend_next_preserves:
  assumes con: "consistent (m, fs)"
    and r: "recommend_next lib m fs fid cid n ex pen ad = (res, m', fs')"
  shows "consistent (m', fs')"
    and "phase_of (m, fs) k = Some EXPLOIT \<Longrightarrow> phase_of (m', fs') k = Some EXPLOIT"
proof -
  obtain gr m1 fs1 where g: "get m fs cid = (gr, m1, fs1)" by (metis prod_cases3)
  have "consistent (m', fs') \<and>
        (phase_of (m, fs) k = Some EXPLOIT \<longrightarrow> phase_of (m', fs') k = Some EXPLOIT)"
  proof (cases "\<exists>c. gr = Inr (Some c)")
    case True
    then obtain c where rc: "gr = Inr (Some c)" by blast
    note g' = g [unfolded rc]
    from get_effect [OF g' con] have cid: "campaign_id c = cid" by simp
    from r g' have rf: "recommend_for lib m1 fs1 fid cid c n ex pen ad = (res, m', fs')"
      by (simp add: recommend_next_def)
    from recommend_for_effect [OF rf cid] obtain c' where c':
      "campaigns m' = (campaigns m1)(cid \<mapsto> c')" "campaign_id c' = cid"
      "campaign_phase c' =
             (if should_transition
                   (m1\<lparr>step_counters := (step_counters m1)
                        (cid \<mapsto> (case step_counters m1 cid of Some s \<Rightarrow> s | None \<Rightarrow> 0) + 1)\<rparr>) c
              then EXPLOIT else campaign_phase c)"
      "storage_dir m' = storage_dir m1"
      "\<forall>storage. disk_ok storage fs1 \<and> storage_dir m1 = Some storage \<longrightarrow> disk_ok storage fs'"
      by blast
    have mono: "campaign_phase c = EXPLOIT \<Longrightarrow> campaign_phase c' = EXPLOIT"
      using c'(3) by simp
    from step_found(1) [OF con g' c'(1,2) mono c'(4,5)]
      step_found(2) [OF con g' c'(1,2) mono c'(4,5), where k = k]
    show ?thesis by blast
  next
    case False
    then have nf: "\<And>c. gr \<noteq> Inr (Some c)" by blast
    with r g have "m' = m1" "fs' = fs1"
      by (auto simp: recommend_next_def split: sum.splits option.splits)
    with step_not_found(1) [OF con g nf] step_not_found(2) [OF con g nf, where k = k]
    show ?thesis by simp
  qed
  then show "consistent (m', fs')"
    and "phase_of (m, fs) k = Some EXPLOIT \<Longrightarrow> phase_of (m', fs') k = Some EXPLOIT"
    by blast+
qed

lemma ingest_results_preserves:
  assumes con: "consistent (m, fs)"
    and r: "ingest_results m fs cid atts evs = (res, m', fs')"
  shows "consistent (m', fs')"
    and "phase_of (m, fs) k = Some EXPLOIT \<Longrightarrow> phase_of (m', fs') k = Some EXPLOIT"
proof -
  obtain gr m1 fs1 where g: "get m fs cid = (gr, m1, fs1)" by (metis prod_cases3)
  have "consistent (m', fs') \<and>
        (phase_of (m, fs) k = Some EXPLOIT \<longrightarrow> phase_of (m', fs') k = Some EXPLOIT)"
  proof (cases "\<exists>c. gr = Inr (Some c)")
    case True
    then obtain c where rc: "gr = Inr (Some c)" by blast
    note g' = g [unfolded rc]
    from get_effect [OF g' con] have cid: "campaign_id c = cid" by simp
    from r g' have rf: "ingest_for m1 fs1 cid c atts evs = (res, m', fs')"
      by (simp add: ingest_results_def)
    from ingest_for_effect [OF rf cid] obtain c' where c':
      "campaigns m' = (campaigns m1)(cid \<mapsto> c')" "campaign_id c' = cid"
      "campaign_phase c' = campaign_phase c"
      "storage_dir m' = storage_dir m1"
      "\<forall>storage. disk_ok storage fs1 \<and> storage_dir m1 = Some storage \<longrightarrow> disk_ok storage fs'"
      by blast
    have mono: "campaign_phase c = EXPLOIT \<Longrightarrow> campaign_phase c' = EXPLOIT"
      using c'(3) by simp
    from step_found(1) [OF con g' c'(1,2) mono c'(4,5)]
      step_found(2) [OF con g' c'(1,2) mono c'(4,5), where k = k]
    show ?thesis by blast
  next
    case False
    then have nf: "\<And>c. gr \<noteq> Inr (Some c)" by blast
    with r g have "m' = m1" "fs' = fs1"
      by (auto simp: ingest_results_def split: sum.splits option.splits)
    with step_not_found(1) [OF con g nf] step_not_found(2) [OF con g nf, where k = k]
    show ?thesis by simp
  qed
  then show "consistent (m', fs')"
    and "phase_of (m, fs) k = Some EXPLOIT \<Longrightarrow> phase_of (m', fs') k = Some EXPLOIT"
    by blast+
qed

lemma update_status_preserves:
  assumes con: "consistent (m, fs)"
    and r: "update_status m fs cid s = (res, m', fs')"
  shows "consistent (m', fs')"
    and "phase_of (m, fs) k = Some EXPLOIT \<Longrightarrow> phase_of (m', fs') k = Some EXPLOIT"
proof -
  obtain gr m1 fs1 where g: "get m fs cid = (gr, m1, fs1)" by (metis prod_cases3)
  have "consistent (m', fs') \<and>
        (phase_of (m, fs) k = Some EXPLOIT \<longrightarrow> phase_of (m', fs') k = Some EXPLOIT)"
  proof (cases "\<exists>c. gr = Inr (Some c)")
    case True
    then obtain c where rc: "gr = Inr (Some c)" by blast
    note g' = g [unfolded rc]
    from get_effect [OF g' con] have cid: "campaign_id c = cid" by simp
    obtain sr where sv:
      "save (m1\<lparr>campaigns := (campaigns m1)(cid \<mapsto> c\<lparr>status := s\<rparr>)\<rparr>) fs1 (c\<lparr>status := s\<rparr>)
         = (sr, m', fs')"
      using r g' by (auto simp: update_status_def Let_def split: prod.splits option.splits)
    from update_status_effect_core [OF sv cid] obtain c' where c':
      "campaigns m' = (campaigns m1)(cid \<mapsto> c')" "campaign_id c' = cid"
      "campaign_phase c' = campaign_phase c"
      "storage_dir m' = storage_dir m1"
      "\<forall>storage. disk_ok storage fs1 \<and> storage_dir m1 = Some storage \<longrightarrow> disk_ok storage fs'"
      by blast
    have mono: "campaign_phase c = EXPLOIT \<Longrightarrow> campaign_phase c' = EXPLOIT"
      using c'(3) by simp
    from step_found(1) [OF con g' c'(1,2) mono c'(4,5)]
      step_found(2) [OF con g' c'(1,2) mono c'(4,5), where k = k]
    show ?thesis by blast
  next
    case False
    then have nf: "\<And>c. gr \<noteq> Inr (Some c)" by blast
    with r g have "m' = m1" "fs' = fs1"
      by (auto simp: update_status_def split: sum.splits option.splits)
    with step_not_found(1) [OF con g nf] step_not_found(2) [OF con g nf, where k = k]
    show ?thesis by simp
  qed
  then show "consistent (m', fs')"
    and "phase_of (m, fs) k = Some EXPLOIT \<Longrightarrow> phase_of (m', fs') k = Some EXPLOIT"
    by blast+
qed

lemma create_effect:
  assumes r: "create lib m fs fid rnd target nm auto_plan adaptive seed = (res, m', fs')"
    and con: "consistent (m, fs)"
  shows "consistent (m', fs') \<and> (\<forall>k. k \<noteq> fid \<longrightarrow> campaigns m' k = campaigns m k) \<and>
         registry m' = registry m \<and>
         (\<forall>c. res = Inr c \<longrightarrow>
            campaigns m' fid = Some c \<and> campaign_id c = fid \<and> campaign_phase c = PROBE \<and>
            techniques_tried (state c) = [] \<and> step_counters m' fid = Some 0)"
proof -
  define campaign0 where "campaign0 =
            \<lparr>campaign_id = fid,
             campaign_name = (if nm = [] then ''campaign-'' @ fid else nm),
             status = PLANNING, campaign_phase = PROBE, campaign_target = target,
             campaign_plan = None,
             state = \<lparr>attempts = [], evaluations = [], techniques_tried = [], queries_used = 0\<rparr>,
             posterior_state = (if adaptive
                                then Some \<lparr>posteriors = Map.empty, prior_strength = 8\<rparr>
                                else None),
             metadata = \<lparr>md_adaptive = Some adaptive,
                         md_campaign_seed = (if adaptive \<and> seed = None then Some rnd else seed)\<rparr>\<rparr>"
  define step1 where "step1 =
            (if \<not> auto_plan then (Inr campaign0, m)
             else (case (if adaptive then adaptive_planner m else None) of
                     Some planner \<Rightarrow>
                       (case plan lib planner target (registry m) (posterior_state campaign0) None
                               10 False 0 None 0 PROBE of
                          (Inl e, _, planner') \<Rightarrow> (Inl e, m\<lparr>adaptive_planner := Some planner'\<rparr>)
                        | (Inr pl, pst', planner') \<Rightarrow>
                            (Inr (campaign0\<lparr>campaign_plan := Some pl,
                                           posterior_state := Some pst', status := ACTIVE\<rparr>),
                             m\<lparr>adaptive_planner := Some planner'\<rparr>))
                   | None \<Rightarrow>
                       (Inr (campaign0\<lparr>campaign_plan :=
                                         Some (engine_plan lib (mgr_engine m) target (registry m)
                                                 None None),
                                       status := ACTIVE\<rparr>), m)))"
  obtain res0 m1 where s1: "step1 = (res0, m1)" by (metis prod.exhaust)
  have m1: "campaigns m1 = campaigns m" "step_counters m1 = step_counters m"
    "storage_dir m1 = storage_dir m" "registry m1 = registry m"
    using s1 unfolding step1_def
    by (auto split: if_splits option.splits prod.splits sum.splits)
  have c0: "campaign_id c = fid \<and> campaign_phase c = PROBE \<and> techniques_tried (state c) = []"
    if "res0 = Inr c" for c
    using s1 that unfolding step1_def
    by (auto simp: campaign0_def split: if_splits option.splits prod.splits sum.splits)
  have body: "(res, m', fs') =
      (case res0 of
           Inl e \<Rightarrow> (Inl e, m1, fs)
         | Inr campaign \<Rightarrow>
             (let m2 = m1\<lparr>campaigns := (campaigns m1)(fid \<mapsto> campaign),
                          step_counters := (step_counters m1)(fid \<mapsto> 0)\<rparr>
              in case save m2 fs campaign of
                   (Some e, m3, fs') \<Rightarrow> (Inl e, m3, fs')
                 | (None, m3, fs') \<Rightarrow> (Inr campaign, m3, fs')))"
    using r s1 unfolding create_def Let_def campaign0_def [symmetric] step1_def [symmetric]
    by simp
  show ?thesis
  proof (cases res0)
    case (Inl e)
    with body have "res = Inl e" "m' = m1" "fs' = fs" by simp_all
    with con m1 show ?thesis by (auto simp: consistent_def)
  next
    case (Inr c)
    note c = c0 [OF Inr]
    define m2 where "m2 = m1\<lparr>step_counters := (step_counters m1)(fid \<mapsto> 0)\<rparr>"
    have m2: "campaigns m2 = campaigns m" "step_counters m2 fid = Some 0"
      "storage_dir m2 = storage_dir m" "registry m2 = registry m"
      using m1 by (simp_all add: m2_def)
    have eq: "m1\<lparr>campaigns := (campaigns m1)(fid \<mapsto> c),
                 step_counters := (step_counters m1)(fid \<mapsto> 0)\<rparr>
              = m2\<lparr>campaigns := (campaigns m2)(fid \<mapsto> c)\<rparr>"
      by (simp add: m2_def)
    obtain sr m3 fs3 where sv:
      "save (m2\<lparr>campaigns := (campaigns m2)(fid \<mapsto> c)\<rparr>) fs c = (sr, m3, fs3)"
      by (metis prod_cases3)
    from c have cid: "campaign_id c = fid" by simp
    note m3 = save_after_update [OF sv cid]
    from sv have sv': "save (m1\<lparr>campaigns := (campaigns m1)(fid \<mapsto> c),
                 step_counters := (step_counters m1)(fid \<mapsto> 0)\<rparr>) fs c = (sr, m3, fs3)"
      unfolding eq .
    from body Inr sv' have res: "m' = m3" "fs' = fs3" "res = Inr c \<or> (\<exists>e. res = Inl e)"
      by (auto simp: Let_def split: option.splits)
    have cm: "campaigns m' = (campaigns m)(fid \<mapsto> c)" using m3 m2 res by simp
    have sd: "storage_dir m' = storage_dir m" using m3 m2 res by simp
    have d: "\<forall>storage. disk_ok storage fs \<and> storage_dir m = Some storage \<longrightarrow> disk_ok storage fs'"
      using m3 m2 res by simp
    have "consistent (m', fs')" by (rule consistent_update [OF con cm cid sd d])
    moreover have "step_counters m' fid = Some 0" using m3 m2 res by simp
    moreover have "registry m' = registry m" using m3 m2 res by simp
    ultimately show ?thesis using cm c res(3) by auto
  qed
qed

lemma apply_op_preserves:
  assumes con: "consistent s" and nc: "\<not> creates op k"
  shows "consistent (apply_op lib s op)"
    and "phase_of s k = Some EXPLOIT \<Longrightarrow> phase_of (apply_op lib s op) k = Some EXPLOIT"
proof -
  obtain m fs where s: "s = (m, fs)" by (cases s)
  have "consistent (apply_op lib s op) \<and>
        (phase_of s k = Some EXPLOIT \<longrightarrow> phase_of (apply_op lib s op) k = Some EXPLOIT)"
  proof (cases op)
    case (Create fid rnd target nm auto_plan adaptive seed)
    obtain res m' fs' where r:
      "create lib m fs fid rnd target nm auto_plan adaptive seed = (res, m', fs')"
      by (metis prod_cases3)
    from nc Create have "k \<noteq> fid" by auto
    with create_effect [OF r con [unfolded s]] show ?thesis
      by (simp add: Create s r phase_of_def)
  next
    case (IngestResults cid atts evs)
    obtain res m' fs' where r: "ingest_results m fs cid atts evs = (res, m', fs')"
      by (metis prod_cases3)
    from ingest_results_preserves(1) [OF con [unfolded s] r]
      ingest_results_preserves(2) [OF con [unfolded s] r, where k = k]
    show ?thesis by (simp add: IngestResults s r)
  next
    case (RecommendNext fid cid n ex pen ad)
    obtain res m' fs' where r: "recommend_next lib m fs fid cid n ex pen ad = (res, m', fs')"
      by (metis prod_cases3)
    from recommend_next_preserves(1) [OF con [unfolded s] r]
      recommend_next_preserves(2) [OF con [unfolded s] r, where k = k]
    show ?thesis by (simp add: RecommendNext s r)
  next
    case (UpdateStatus cid st)
    obtain res m' fs' where r: "update_status m fs cid st = (res, m', fs')"
      by (metis prod_cases3)
    from update_status_preserves(1) [OF con [unfolded s] r]
      update_status_preserves(2) [OF con [unfolded s] r, where k = k]
    show ?thesis by (simp add: UpdateStatus s r)
  next
    case (Get cid)
    obtain res m' fs' where r: "get m fs cid = (res, m', fs')"
      by (metis prod_cases3)
    from get_preserves(1) [OF con [unfolded s] r]
      get_preserves(2) [OF con [unfolded s] r, where k = k]
    show ?thesis by (simp add: Get s r)
  qed
  then show "consistent (apply_op lib s op)"
    and "phase_of s k = Some EXPLOIT \<Longrightarrow> phase_of (apply_op lib s op) k = Some EXPLOIT"
    by blast+
qed

lemma run_ops_preserves:
  assumes "consistent s" and "\<forall>op \<in> set ops. \<not> creates op k"
  shows "consistent (run_ops lib s ops) \<and>
         (phase_of s k = Some EXPLOIT \<longrightarrow> phase_of (run_ops lib s ops) k = Some EXPLOIT)"
  using assms
proof (induction ops arbitrary: s)
  case Nil
  then show ?case by (simp add: run_ops_def)
next
  case (Cons op ops)
  from Cons.prems have nc: "\<not> creates op k" and rest: "\<forall>op \<in> set ops. \<not> creates op k"
    by simp_all
  note a = apply_op_preserves [OF Cons.prems(1) nc, of lib]
  from Cons.IH [OF a(1) rest] a(2) show ?case
    by (simp add: run_ops_def)
qed

lemma initial_consistent:
  "consistent (CampaignManager_init reg eng planner storage, empty_fs)"
  by (simp add: consistent_def CampaignManager_init_def disk_ok_def empty_fs_def
        split: option.splits)

subsection \<open>Phase transition\<close>

text \<open>
  The registry is a dictionary keyed by technique id, so the ids in the list of its
  techniques are distinct; a lookup then finds exactly the technique with that id.
\<close>

lemma registry_get_distinct:
  assumes "distinct (map tid reg)"
  shows "registry_get reg i = Some t \<longleftrightarrow> t \<in> set reg \<and> tid t = i"
  using assms
proof (induction reg)
  case Nil
  then show ?case by (simp add: registry_get_def)
next
  case (Cons a reg)
  from Cons.prems have "tid a \<notin> set (map tid reg)" by (simp del: set_map)
  then have a: "\<And>x. x \<in> set reg \<Longrightarrow> tid x \<noteq> tid a"
    by (metis image_eqI set_map)
  from Cons have IH: "registry_get reg i = Some t \<longleftrightarrow> t \<in> set reg \<and> tid t = i"
    by simp
  show ?case
  proof (cases "tid a = i")
    case True
    then have "registry_get (a # reg) i = Some a" by (simp add: registry_get_def)
    with a True show ?thesis by (metis option.inject set_ConsD list.set_intros(1))
  next
    case False
    then have "registry_get (a # reg) i = registry_get reg i" by (simp add: registry_get_def)
    with IH False show ?thesis by auto
  qed
qed

lemma card_Surface: "card (UNIV :: Surface set) = 6"
proof -
  have u: "(UNIV :: Surface set) = {MODEL, DATA, RETRIEVAL, TOOL, ACTION, GUARDRAIL}"
    using Surface.exhaust by auto
  show ?thesis unfolding u by simp
qed

text \<open>
  The surfaces that \<open>_should_transition\<close> collects are the surfaces of the techniques of
  the registry whose id is among the tried ids of the campaign, each once.
\<close>

lemma tested_surfaces_set:
  assumes "distinct (map tid (registry m))"
  shows "set (tested_surfaces m c) =
           surface ` {t \<in> set (registry m). tid t \<in> set (techniques_tried (state c))}"
proof -
  have "set (tested_surfaces m c) =
          {surface t | t i. i \<in> set (techniques_tried (state c)) \<and>
                            registry_get (registry m) i = Some t}"
    unfolding tested_surfaces_def by (auto split: option.splits) metis
  also have "\<dots> = surface ` {t \<in> set (registry m). tid t \<in> set (techniques_tried (state c))}"
    unfolding registry_get_distinct [OF assms] by auto
  finally show ?thesis .
qed

lemma tested_surfaces_length:
  assumes "distinct (map tid (registry m))"
  shows "length (tested_surfaces m c) =
           card (surface ` {t \<in> set (registry m). tid t \<in> set (techniques_tried (state c))})"
proof -
  have "distinct (tested_surfaces m c)" by (simp add: tested_surfaces_def)
  then have "length (tested_surfaces m c) = card (set (tested_surfaces m c))"
    by (simp add: distinct_card)
  then show ?thesis by (simp add: tested_surfaces_set [OF assms])
qed

lemma should_transition_probe:
  assumes "campaign_phase c = PROBE"
  shows "should_transition m c \<longleftrightarrow>
           (case step_counters m (campaign_id c) of Some s \<Rightarrow> s | None \<Rightarrow> 0) \<ge> 3 \<or>
           real (length (tested_surfaces m c)) / 6 \<ge> 6 / 10"
  using assms by (auto simp: should_transition_def Let_def all_surfaces_def)

lemma tested_surfaces_registry:
  "registry m' = registry m \<Longrightarrow> tested_surfaces m' c = tested_surfaces m c"
  by (simp add: tested_surfaces_def)

lemma recommend_next_counted:
  assumes con: "consistent (m, fs)"
    and c: "campaigns m cid = Some c" "campaign_phase c = PROBE"
      "techniques_tried (state c) = []" "step_counters m cid = Some n"
    and r: "recommend_next lib m fs fid cid k ex pen ad = (res, m', fs')"
  shows "consistent (m', fs') \<and>
         (\<exists>c'. campaigns m' cid = Some c' \<and>
            campaign_phase c' = (if n + 1 \<ge> 3 then EXPLOIT else PROBE) \<and>
            techniques_tried (state c') = [] \<and> step_counters m' cid = Some (n + 1))"
proof -
  have g: "get m fs cid = (Inr (Some c), m, fs)" using c(1) by (simp add: get_def)
  from recommend_next_found [OF r g con] obtain c' where cid: "campaign_id c = cid"
    and c': "campaigns m' = (campaigns m)(cid \<mapsto> c')" "state c' = state c"
      "campaign_phase c' =
         (if should_transition
               (m\<lparr>step_counters := (step_counters m)
                    (cid \<mapsto> (case step_counters m cid of Some s \<Rightarrow> s | None \<Rightarrow> 0) + 1)\<rparr>) c
          then EXPLOIT else campaign_phase c)"
      "step_counters m' = (step_counters m)
                    (cid \<mapsto> (case step_counters m cid of Some s \<Rightarrow> s | None \<Rightarrow> 0) + 1)"
    and con': "consistent (m', fs')"
    by blast
  have ts: "tested_surfaces (m\<lparr>step_counters := (step_counters m)(cid \<mapsto> n + 1)\<rparr>) c = []"
    using c(3) by (simp add: tested_surfaces_def)
  have st: "should_transition (m\<lparr>step_counters := (step_counters m)(cid \<mapsto> n + 1)\<rparr>) c
            \<longleftrightarrow> n + 1 \<ge> 3"
    unfolding should_transition_probe [OF c(2)] ts using cid by simp
  have "campaigns m' cid = Some c'" using c'(1) by simp
  moreover have "campaign_phase c' = (if n + 1 \<ge> 3 then EXPLOIT else PROBE)"
    using c'(3) st c(2,4) by simp
  moreover have "techniques_tried (state c') = []" using c'(2) c(3) by simp
  moreover have "step_counters m' cid = Some (n + 1)" using c'(4) c(4) by simp
  ultimately show ?thesis using con' by blast
qed

lemma three_recommendations:
  assumes con: "consistent (m, fs)"
    and cr: "create lib m fs fid rnd target nm auto_plan adaptive seed = (Inr c, m0, fs0)"
  shows "phase_of (run_ops lib (m0, fs0)
                     [RecommendNext f1 fid k1 e1 p1 a1, RecommendNext f2 fid k2 e2 p2 a2]) fid
           = Some PROBE \<and>
         phase_of (run_ops lib (m0, fs0)
                     [RecommendNext f1 fid k1 e1 p1 a1, RecommendNext f2 fid k2 e2 p2 a2,
                      RecommendNext f3 fid k3 e3 p3 a3]) fid
           = Some EXPLOIT"
proof -
  from create_effect [OF cr con] have s0: "consistent (m0, fs0)"
    "campaigns m0 fid = Some c" "campaign_phase c = PROBE" "techniques_tried (state c) = []"
    "step_counters m0 fid = Some 0"
    by simp_all
  obtain r1 m1 fs1 where r1: "recommend_next lib m0 fs0 f1 fid k1 e1 p1 a1 = (r1, m1, fs1)"
    by (metis prod_cases3)
  from recommend_next_counted [OF s0 r1] obtain c1 where s1: "consistent (m1, fs1)"
    "campaigns m1 fid = Some c1" "campaign_phase c1 = PROBE" "techniques_tried (state c1) = []"
    "step_counters m1 fid = Some 1"
    by auto
  obtain r2 m2 fs2 where r2: "recommend_next lib m1 fs1 f2 fid k2 e2 p2 a2 = (r2, m2, fs2)"
    by (metis prod_cases3)
  from recommend_next_counted [OF s1 r2] obtain c2 where s2: "consistent (m2, fs2)"
    "campaigns m2 fid = Some c2" "campaign_phase c2 = PROBE" "techniques_tried (state c2) = []"
    "step_counters m2 fid = Some 2"
    by auto
  obtain r3 m3 fs3 where r3: "recommend_next lib m2 fs2 f3 fid k3 e3 p3 a3 = (r3, m3, fs3)"
    by (metis prod_cases3)
  from recommend_next_counted [OF s2 r3] obtain c3 where s3:
    "campaigns m3 fid = Some c3" "campaign_phase c3 = EXPLOIT"
    by auto
  show ?thesis using r1 r2 r3 s2(2,3) s3 by (simp add: run_ops_def phase_of_def)
qed

text \<open>
  C4. (a) When \<open>recommend_next\<close> finds the campaign and it is in the probe phase, the
  campaign is in the exploit phase afterwards if and only if the step counter, which the
  call has just incremented, is at least 3, or the number of distinct surfaces of the
  techniques of the registry whose id is among the tried ids of the campaign, divided by
  the number of surfaces, is at least 0.6. (b) From a consistent state, a campaign in the
  exploit phase stays in it under every sequence of operations of the manager (creation of
  a campaign under the same id, which takes a collision of generated ids, apart). (c) After
  two successive \<open>recommend_next\<close> calls on a campaign just created the phase is still
  probe, and after the third it is exploit.
\<close>

theorem phase_transition:
  "(consistent (m, fs) \<and> distinct (map tid (registry m)) \<and>
    get m fs cid = (Inr (Some c), m1, fs1) \<and> campaign_phase c = PROBE \<longrightarrow>
      (phase_of (snd (recommend_next lib m fs fid cid k ex pen ad)) cid = Some EXPLOIT \<longleftrightarrow>
         (case step_counters m cid of Some s \<Rightarrow> s | None \<Rightarrow> 0) + 1 \<ge> 3 \<or>
         real (card (surface ` {t \<in> set (registry m).
                                 tid t \<in> set (techniques_tried (state c))}))
           / real (card (UNIV :: Surface set)) \<ge> 6 / 10)) \<and>
   (consistent s \<and> (\<forall>op \<in> set ops. \<not> creates op cid) \<and> phase_of s cid = Some EXPLOIT \<longrightarrow>
      phase_of (run_ops lib s ops) cid = Some EXPLOIT) \<and>
   (consistent (m, fs) \<and>
    (\<exists>c0. fst (create lib m fs cid rnd target nm auto_plan adaptive seed) = Inr c0) \<longrightarrow>
      phase_of (run_ops lib (snd (create lib m fs cid rnd target nm auto_plan adaptive seed))
                  [RecommendNext f1 cid k1 e1 p1 a1, RecommendNext f2 cid k2 e2 p2 a2]) cid
        = Some PROBE \<and>
      phase_of (run_ops lib (snd (create lib m fs cid rnd target nm auto_plan adaptive seed))
                  [RecommendNext f1 cid k1 e1 p1 a1, RecommendNext f2 cid k2 e2 p2 a2,
                   RecommendNext f3 cid k3 e3 p3 a3]) cid
        = Some EXPLOIT)"
proof (intro conjI impI)
  assume a: "consistent (m, fs) \<and> distinct (map tid (registry m)) \<and>
             get m fs cid = (Inr (Some c), m1, fs1) \<and> campaign_phase c = PROBE"
  obtain res m' fs' where r: "recommend_next lib m fs fid cid k ex pen ad = (res, m', fs')"
    by (metis prod_cases3)
  from a have con: "consistent (m, fs)" and d: "distinct (map tid (registry m))"
    and g: "get m fs cid = (Inr (Some c), m1, fs1)"
    and p: "campaign_phase c = PROBE" by simp_all
  from get_effect [OF g con] have m1: "m1 = m\<lparr>campaigns := (campaigns m)(cid \<mapsto> c)\<rparr>"
    by simp
  from recommend_next_found [OF r g con] obtain c' where cid: "campaign_id c = cid"
    and c': "campaigns m' = (campaigns m)(cid \<mapsto> c')"
      "campaign_phase c' =
         (if should_transition
               (m1\<lparr>step_counters := (step_counters m)
                    (cid \<mapsto> (case step_counters m cid of Some s \<Rightarrow> s | None \<Rightarrow> 0) + 1)\<rparr>) c
          then EXPLOIT else campaign_phase c)"
    by blast
  have ts: "tested_surfaces
              (m1\<lparr>step_counters := (step_counters m)
                    (cid \<mapsto> (case step_counters m cid of Some s \<Rightarrow> s | None \<Rightarrow> 0) + 1)\<rparr>) c
            = tested_surfaces m c"
    by (rule tested_surfaces_registry) (simp add: m1)
  have st: "should_transition
               (m1\<lparr>step_counters := (step_counters m)
                    (cid \<mapsto> (case step_counters m cid of Some s \<Rightarrow> s | None \<Rightarrow> 0) + 1)\<rparr>) c
            \<longleftrightarrow> (case step_counters m cid of Some s \<Rightarrow> s | None \<Rightarrow> 0) + 1 \<ge> 3 \<or>
                real (card (surface ` {t \<in> set (registry m).
                                        tid t \<in> set (techniques_tried (state c))}))
                  / real (card (UNIV :: Surface set)) \<ge> 6 / 10"
    unfolding should_transition_probe [OF p] ts tested_surfaces_length [OF d] card_Surface
    using cid by simp
  have "phase_of (m', fs') cid = Some (campaign_phase c')"
    using c'(1) by (simp add: phase_of_def)
  with c'(2) st p r
  show "phase_of (snd (recommend_next lib m fs fid cid k ex pen ad)) cid = Some EXPLOIT \<longleftrightarrow>
         (case step_counters m cid of Some s \<Rightarrow> s | None \<Rightarrow> 0) + 1 \<ge> 3 \<or>
         real (card (surface ` {t \<in> set (registry m).
                                 tid t \<in> set (techniques_tried (state c))}))
           / real (card (UNIV :: Surface set)) \<ge> 6 / 10"
    by simp
next
  assume "consistent s \<and> (\<forall>op \<in> set ops. \<not> creates op cid) \<and> phase_of s cid = Some EXPLOIT"
  then show "phase_of (run_ops lib s ops) cid = Some EXPLOIT"
    using run_ops_preserves [of s ops cid lib] by blast
next
  assume a: "consistent (m, fs) \<and>
    (\<exists>c0. fst (create lib m fs cid rnd target nm auto_plan adaptive seed) = Inr c0)"
  then obtain c0 m0 fs0 where
    cr: "create lib m fs cid rnd target nm auto_plan adaptive seed = (Inr c0, m0, fs0)"
    by (metis prod.collapse)
  from a have con: "consistent (m, fs)" by simp
  from three_recommendations [OF con cr, of f1 k1 e1 p1 a1 f2 k2 e2 p2 a2]
  show "phase_of (run_ops lib (snd (create lib m fs cid rnd target nm auto_plan adaptive seed))
                  [RecommendNext f1 cid k1 e1 p1 a1, RecommendNext f2 cid k2 e2 p2 a2]) cid
        = Some PROBE"
    by (simp add: cr)
  from three_recommendations [OF con cr, of f1 k1 e1 p1 a1 f2 k2 e2 p2 a2 f3 k3 e3 p3 a3]
  show "phase_of (run_ops lib (snd (create lib m fs cid rnd target nm auto_plan adaptive seed))
                  [RecommendNext f1 cid k1 e1 p1 a1, RecommendNext f2 cid k2 e2 p2 a2,
                   RecommendNext f3 cid k3 e3 p3 a3]) cid
        = Some EXPLOIT"
    by (simp add: cr)
qed

lemma example_id_valid: "validate_campaign_id ''0123456789ab'' = None"
  by code_simp

lemma example_create:
  "\<exists>c0. fst (create stub_lib example_manager empty_fs ''0123456789ab'' 7 example_target []
                 False False None) = Inr c0"
  by (simp add: create_def save_def example_id_valid example_manager_def
        CampaignManager_init_def Let_def)

lemma surface_registry_distinct: "distinct (map tid surface_registry)"
  by code_simp

lemma surface_manager_consistent: "consistent (surface_manager, empty_fs)"
  by (simp add: consistent_def surface_manager_def CampaignManager_init_def wide_campaign_def
        narrow_campaign_def probe_campaign_def)

lemma wide_surfaces:
  "surface ` {t \<in> set (registry surface_manager).
               tid t \<in> set (techniques_tried (state wide_campaign))}
     = {MODEL, DATA, RETRIEVAL, TOOL}"
  by (simp only: set_filter [symmetric] image_set)
    (simp add: surface_manager_def CampaignManager_init_def surface_registry_def
       surface_technique_def example_technique_def wide_campaign_def probe_campaign_def)

lemma narrow_surfaces:
  "surface ` {t \<in> set (registry surface_manager).
               tid t \<in> set (techniques_tried (state narrow_campaign))}
     = {MODEL, DATA, GUARDRAIL}"
  by (simp only: set_filter [symmetric] image_set)
    (simp add: surface_manager_def CampaignManager_init_def surface_registry_def
       surface_technique_def example_technique_def narrow_campaign_def probe_campaign_def)

text \<open>
  The first call on the campaign that has tried techniques on four of the six surfaces
  moves it to the exploit phase, where it stays; the first call on the campaign with three
  surfaces leaves it in the probe phase; and a campaign just created is in the exploit
  phase after its third call.
\<close>

theorem phase_transition_witness:
  "consistent (surface_manager, empty_fs) \<and> distinct (map tid (registry surface_manager)) \<and>
   get surface_manager empty_fs ''wide'' = (Inr (Some wide_campaign), surface_manager, empty_fs) \<and>
   campaign_phase wide_campaign = PROBE \<and> step_counters surface_manager ''wide'' = None \<and>
   phase_of (snd (recommend_next stub_lib surface_manager empty_fs ''s1'' ''wide'' 5 False 0
                    None)) ''wide'' = Some EXPLOIT \<and>
   phase_of (run_ops stub_lib
               (snd (recommend_next stub_lib surface_manager empty_fs ''s1'' ''wide'' 5 False 0
                       None))
               [UpdateStatus ''wide'' PAUSED, RecommendNext ''s2'' ''wide'' 5 False 0 None,
                Get ''wide'']) ''wide'' = Some EXPLOIT \<and>
   get surface_manager empty_fs ''narrow''
     = (Inr (Some narrow_campaign), surface_manager, empty_fs) \<and>
   phase_of (snd (recommend_next stub_lib surface_manager empty_fs ''s1'' ''narrow'' 5 False 0
                    None)) ''narrow'' = Some PROBE \<and>
   (\<exists>c0. fst (create stub_lib example_manager empty_fs ''0123456789ab'' 7 example_target []
                 False False None) = Inr c0) \<and>
   phase_of (run_ops stub_lib
               (snd (create stub_lib example_manager empty_fs ''0123456789ab'' 7 example_target
                       [] False False None))
               [RecommendNext ''s1'' ''0123456789ab'' 5 False 0 None,
                RecommendNext ''s2'' ''0123456789ab'' 5 False 0 None,
                RecommendNext ''s3'' ''0123456789ab'' 5 False 0 None]) ''0123456789ab''
     = Some EXPLOIT"
proof -
  note con = surface_manager_consistent
  have d: "distinct (map tid (registry surface_manager))"
    using surface_registry_distinct by (simp add: surface_manager_def CampaignManager_init_def)
  have gw: "get surface_manager empty_fs ''wide''
              = (Inr (Some wide_campaign), surface_manager, empty_fs)"
    by (simp add: get_def surface_manager_def)
  have gn: "get surface_manager empty_fs ''narrow''
              = (Inr (Some narrow_campaign), surface_manager, empty_fs)"
    by (simp add: get_def surface_manager_def)
  have pw: "campaign_phase wide_campaign = PROBE"
    by (simp add: wide_campaign_def probe_campaign_def)
  have pn: "campaign_phase narrow_campaign = PROBE"
    by (simp add: narrow_campaign_def probe_campaign_def)
  have sw: "step_counters surface_manager ''wide'' = None"
    by (simp add: surface_manager_def CampaignManager_init_def)
  have sn: "step_counters surface_manager ''narrow'' = None"
    by (simp add: surface_manager_def CampaignManager_init_def)
  have cw: "card {MODEL, DATA, RETRIEVAL, TOOL} = 4" by simp
  have cn: "card {MODEL, DATA, GUARDRAIL} = 3" by simp
  let ?sw = "snd (recommend_next stub_lib surface_manager empty_fs ''s1'' ''wide'' 5 False 0
                    None)"
  have wide: "phase_of ?sw ''wide'' = Some EXPLOIT"
    using phase_transition
            [where m = surface_manager and fs = empty_fs and cid = "''wide''"
               and c = wide_campaign and ?m1.0 = surface_manager and ?fs1.0 = empty_fs
               and lib = stub_lib and fid = "''s1''" and k = 5 and ex = False and pen = 0
               and ad = None]
      con d gw pw
    unfolding wide_surfaces cw card_Surface sw by simp
  have narrow: "phase_of (snd (recommend_next stub_lib surface_manager empty_fs ''s1''
                                 ''narrow'' 5 False 0 None)) ''narrow'' = Some PROBE"
  proof -
    obtain res m' fs' where r:
      "recommend_next stub_lib surface_manager empty_fs ''s1'' ''narrow'' 5 False 0 None
         = (res, m', fs')"
      by (metis prod_cases3)
    from recommend_next_found [OF r gn con] obtain c' where
      c': "campaigns m' = (campaigns surface_manager)(''narrow'' \<mapsto> c')"
      and ph: "campaign_phase c' = EXPLOIT \<or> campaign_phase c' = campaign_phase narrow_campaign"
      by (metis (full_types))
    have ne: "phase_of (m', fs') ''narrow'' \<noteq> Some EXPLOIT"
      using phase_transition
              [where m = surface_manager and fs = empty_fs and cid = "''narrow''"
                 and c = narrow_campaign and ?m1.0 = surface_manager and ?fs1.0 = empty_fs
                 and lib = stub_lib and fid = "''s1''" and k = 5 and ex = False and pen = 0
                 and ad = None]
        con d gn pn
      unfolding narrow_surfaces cn card_Surface sn r by simp
    have "phase_of (m', fs') ''narrow'' = Some (campaign_phase c')"
      using c' by (simp add: phase_of_def)
    with ne ph pn show ?thesis by (auto simp: r)
  qed
  obtain res m' fs' where r:
    "recommend_next stub_lib surface_manager empty_fs ''s1'' ''wide'' 5 False 0 None
       = (res, m', fs')"
    by (metis prod_cases3)
  have con': "consistent ?sw"
    using recommend_next_preserves(1) [OF con r] by (simp add: r)
  have nc: "\<forall>op \<in> set [UpdateStatus ''wide'' PAUSED, RecommendNext ''s2'' ''wide'' 5 False 0 None,
                         Get ''wide'']. \<not> creates op ''wide''"
    by simp
  have stays: "phase_of (run_ops stub_lib ?sw
                 [UpdateStatus ''wide'' PAUSED, RecommendNext ''s2'' ''wide'' 5 False 0 None,
                  Get ''wide'']) ''wide'' = Some EXPLOIT"
    using phase_transition
            [where s = ?sw and cid = "''wide''" and lib = stub_lib
               and ops = "[UpdateStatus ''wide'' PAUSED,
                           RecommendNext ''s2'' ''wide'' 5 False 0 None, Get ''wide'']",
             THEN conjunct2, THEN conjunct1]
      con' nc wide
    by blast
  have con0: "consistent (example_manager, empty_fs)"
    unfolding example_manager_def by (rule initial_consistent)
  from phase_transition
         [where m = example_manager and fs = empty_fs and cid = "''0123456789ab''"
            and lib = stub_lib and rnd = 7 and target = example_target and nm = "[]"
            and auto_plan = False and adaptive = False and seed = None
            and ?f1.0 = "''s1''" and ?k1.0 = 5 and ?e1.0 = False and ?p1.0 = 0 and ?a1.0 = None
            and ?f2.0 = "''s2''" and ?k2.0 = 5 and ?e2.0 = False and ?p2.0 = 0 and ?a2.0 = None
            and ?f3.0 = "''s3''" and ?k3.0 = 5 and ?e3.0 = False and ?p3.0 = 0 and ?a3.0 = None]
    con0 example_create
  have fresh: "phase_of (run_ops stub_lib
               (snd (create stub_lib example_manager empty_fs ''0123456789ab'' 7 example_target
                       [] False False None))
               [RecommendNext ''s1'' ''0123456789ab'' 5 False 0 None,
                RecommendNext ''s2'' ''0123456789ab'' 5 False 0 None,
                RecommendNext ''s3'' ''0123456789ab'' 5 False 0 None]) ''0123456789ab''
     = Some EXPLOIT"
    by blast
  from con d gw pw sw wide stays gn narrow example_create fresh show ?thesis by blast
qed

subsection \<open>The planning step\<close>

lemma plan_scored:
  "plan lib p target reg pst rs k ex pen tr step ph =
     (case scored_candidates lib p target reg pst rs ex pen tr step ph of
        (Inl e, st) \<Rightarrow>
          (Inl e, st,
           p\<lparr>correlation := map_option (\<lambda>c. register_techniques c reg) (correlation p)\<rparr>)
      | (Inr cs, st) \<Rightarrow>
          (case build_entries lib
                  (p\<lparr>correlation := map_option (\<lambda>c. register_techniques c reg) (correlation p)\<rparr>)
                  st 1 (slice_to (sort_desc c_utility cs) k) of
             Inl e \<Rightarrow>
               (Inl e, st,
                p\<lparr>correlation := map_option (\<lambda>c. register_techniques c reg) (correlation p)\<rparr>)
           | Inr es \<Rightarrow>
               (Inr \<lparr>plan_target = target, entries = es,
                     config_used = plan_config p step (derive_step_seed lib p step) ex pen ph\<rparr>,
                st,
                p\<lparr>correlation := map_option (\<lambda>c. register_techniques c reg)
                                     (correlation p)\<rparr>)))"
  by (simp add: plan_def scored_candidates_def Let_def)

lemma score_candidate_technique:
  assumes "score_candidate lib p target rs tried pen tr igw cw mc t rng st = (Inr (c, rng'), st')"
  shows "c_technique c = t"
  using assms
  by (auto simp: score_candidate_def Let_def split: prod.splits option.splits sum.splits)

lemma candidates_loop_techniques:
  assumes "\<And>t rng st c rng' st'. step t rng st = (Inr (c, rng'), st') \<Longrightarrow> c_technique c = t"
    and "candidates_loop step skip ts rng st = (Inr cs, st')"
  shows "map c_technique cs = filter (\<lambda>t. \<not> skip t) ts"
  using assms(2)
proof (induction ts arbitrary: rng st cs st')
  case Nil
  then show ?case by simp
next
  case (Cons t ts)
  show ?case
  proof (cases "skip t")
    case True
    with Cons show ?thesis by simp
  next
    case False
    obtain r st1 where s: "step t rng st = (r, st1)" by (metis prod.exhaust)
    show ?thesis
    proof (cases r)
      case (Inl e)
      with Cons.prems False s show ?thesis by simp
    next
      case (Inr x)
      obtain c rng1 where x: "x = (c, rng1)" by (metis prod.exhaust)
      obtain r2 st2 where l: "candidates_loop step skip ts rng1 st1 = (r2, st2)"
        by (metis prod.exhaust)
      from Cons.prems False s Inr x l obtain cs' where
        r2: "r2 = Inr cs'" and cs: "cs = c # cs'" and st: "st' = st2"
        by (auto split: sum.splits)
      from assms(1) s Inr x have "c_technique c = t" by simp
      moreover from Cons.IH [OF l [unfolded r2]]
      have "map c_technique cs' = filter (\<lambda>t. \<not> skip t) ts" .
      ultimately show ?thesis using False cs by simp
    qed
  qed
qed

lemma scored_candidates_techniques:
  assumes "scored_candidates lib p target reg pst rs ex pen tr step ph = (Inr cs, st)"
  shows "map c_technique cs =
           filter (\<lambda>t. \<not> (ex \<and> tid t \<in> eval_technique_id `
                                    set (case rs of None \<Rightarrow> [] | Some r \<Rightarrow> r)))
             (filter (\<lambda>t. passes_all_filters t target \<and>
                          base_cost t \<le> (case planner_max_cost p of Some m \<Rightarrow> m | None \<Rightarrow> 1))
                reg)"
  using candidates_loop_techniques
          [OF score_candidate_technique assms [unfolded scored_candidates_def Let_def]]
  by simp

lemma build_entries_ids:
  assumes "build_entries lib p st n cs = Inr es"
  shows "map entry_technique_id es = map (\<lambda>c. tid (c_technique c)) cs"
  using assms
proof (induction cs arbitrary: n es)
  case Nil
  then show ?case by simp
next
  case (Cons c cs)
  from Cons.prems obtain e es' where e: "build_entry lib p st n c = Inr e"
    and es': "build_entries lib p st (n + 1) cs = Inr es'" and es: "es = e # es'"
    by (auto split: sum.splits)
  from e have "entry_technique_id e = tid (c_technique c)"
    by (auto simp: build_entry_def Let_def split: sum.splits)
  with Cons.IH [OF es'] es show ?case by simp
qed

lemma set_slice_to: "set (slice_to xs n) \<subseteq> set xs"
  by (auto simp: slice_to_def dest: in_set_takeD)

lemma set_sort_desc [simp]: "set (sort_desc f xs) = set xs"
  by (simp add: sort_desc_def)

text \<open>
  The plan that \<open>plan\<close> returns lists the scored candidates by descending utility, cut to
  \<open>max_techniques\<close>.
\<close>

lemma plan_technique_ids:
  assumes "plan lib p target reg pst rs k ex pen tr step ph = (Inr pl, st', p')"
  shows "\<exists>cs. scored_candidates lib p target reg pst rs ex pen tr step ph = (Inr cs, st') \<and>
           technique_ids pl = map (\<lambda>c. tid (c_technique c)) (slice_to (sort_desc c_utility cs) k)"
proof -
  obtain r st where sc: "scored_candidates lib p target reg pst rs ex pen tr step ph = (r, st)"
    by (metis prod.exhaust)
  show ?thesis
  proof (cases r)
    case (Inl e)
    with assms sc show ?thesis by (simp add: plan_scored)
  next
    case (Inr cs)
    let ?p = "p\<lparr>correlation := map_option (\<lambda>c. register_techniques c reg) (correlation p)\<rparr>"
    show ?thesis
    proof (cases "build_entries lib ?p st 1 (slice_to (sort_desc c_utility cs) k)")
      case (Inl e)
      with assms sc Inr show ?thesis by (simp add: plan_scored)
    next
      case es: (Inr es)
      with assms sc Inr have "entries pl = es" "st' = st" by (auto simp: plan_scored)
      with build_entries_ids [OF es] sc Inr show ?thesis by (simp add: technique_ids_def)
    qed
  qed
qed

lemma plan_entry_ids:
  assumes "plan lib p target reg pst rs k ex pen tr step ph = (Inr pl, st', p')"
    and "e \<in> set (entries pl)"
  shows "\<exists>t \<in> set reg. entry_technique_id e = tid t \<and>
           \<not> (ex \<and> tid t \<in> eval_technique_id ` set (case rs of None \<Rightarrow> [] | Some r \<Rightarrow> r))"
proof -
  from plan_technique_ids [OF assms(1)] obtain cs where
    sc: "scored_candidates lib p target reg pst rs ex pen tr step ph = (Inr cs, st')"
    and ids: "technique_ids pl = map (\<lambda>c. tid (c_technique c)) (slice_to (sort_desc c_utility cs) k)"
    by blast
  from assms(2) have "entry_technique_id e \<in> set (technique_ids pl)"
    by (simp add: technique_ids_def)
  then obtain c where c: "c \<in> set (slice_to (sort_desc c_utility cs) k)"
    "entry_technique_id e = tid (c_technique c)"
    unfolding ids by auto
  from c(1) set_slice_to have "c \<in> set cs" by fastforce
  then have "c_technique c \<in> set (map c_technique cs)" by (metis imageI set_map)
  then show ?thesis
    unfolding scored_candidates_techniques [OF sc] using c(2) by auto
qed

text \<open>Entries are built for every candidate whose posterior has positive parameters.\<close>

lemma beta_variance_ok:
  assumes "0 < a" and "0 < b"
  shows "\<exists>v. beta_variance a b = Inr v \<and> 0 \<le> v"
proof -
  from assms have "a + b \<noteq> 0" "a + b + 1 \<noteq> 0" by simp_all
  moreover from assms have "0 \<le> a * b / ((a + b)\<^sup>2 * (a + b + 1))" by simp
  ultimately show ?thesis by (simp add: beta_variance_def py_div_def)
qed

lemma beta_ci_ok:
  assumes "0 < a" and "0 < b"
  shows "\<exists>ci. beta_ci a b = Inr ci"
proof -
  from assms have "a + b \<noteq> 0" "a + b + 1 \<noteq> 0" by simp_all
  moreover from assms have "\<not> a * b / ((a + b)\<^sup>2 * (a + b + 1)) < 0"
    by (simp add: not_less)
  ultimately show ?thesis by (simp add: beta_ci_def py_div_def Let_def)
qed

lemma build_entry_ok:
  assumes "0 < alpha (c_posterior c)" and "0 < beta (c_posterior c)"
  shows "\<exists>e. build_entry lib p st n c = Inr e"
proof -
  from beta_ci_ok [OF assms] obtain ci where
    ci: "beta_ci (alpha (c_posterior c)) (beta (c_posterior c)) = Inr ci" by blast
  from beta_variance_ok [OF assms] obtain v where
    v: "beta_variance (alpha (c_posterior c)) (beta (c_posterior c)) = Inr v" by blast
  from assms have "alpha (c_posterior c) + beta (c_posterior c) \<noteq> 0" by simp
  with ci v show ?thesis by (simp add: build_entry_def Let_def py_div_def)
qed

lemma build_entries_ok:
  assumes "\<forall>c \<in> set cs. 0 < alpha (c_posterior c) \<and> 0 < beta (c_posterior c)"
  shows "\<exists>es. build_entries lib p st n cs = Inr es"
  using assms
proof (induction cs arbitrary: n)
  case Nil
  then show ?case by simp
next
  case (Cons c cs)
  from Cons.prems build_entry_ok obtain e where "build_entry lib p st n c = Inr e"
    by (metis list.set_intros(1))
  moreover from Cons obtain es where "build_entries lib p st (n + 1) cs = Inr es"
    by (metis list.set_intros(2))
  ultimately show ?case by simp
qed

lemma plan_ok:
  assumes sc: "scored_candidates lib p target reg pst rs ex pen tr step ph = (Inr cs, st)"
    and pos: "\<forall>c \<in> set cs. 0 < alpha (c_posterior c) \<and> 0 < beta (c_posterior c)"
  shows "\<exists>pl. fst (plan lib p target reg pst rs k ex pen tr step ph) = Inr pl \<and>
           technique_ids pl = map (\<lambda>c. tid (c_technique c)) (slice_to (sort_desc c_utility cs) k)"
proof -
  let ?p = "p\<lparr>correlation := map_option (\<lambda>c. register_techniques c reg) (correlation p)\<rparr>"
  from pos set_slice_to [of "sort_desc c_utility cs" k]
  have "\<forall>c \<in> set (slice_to (sort_desc c_utility cs) k).
          0 < alpha (c_posterior c) \<and> 0 < beta (c_posterior c)"
    by auto
  from build_entries_ok [OF this] obtain es where
    es: "build_entries lib ?p st 1 (slice_to (sort_desc c_utility cs) k) = Inr es" by blast
  from build_entries_ids [OF es] sc es show ?thesis
    by (simp add: plan_scored technique_ids_def)
qed

subsection \<open>The branches of \<open>recommend_next\<close>\<close>

lemma get_fields:
  assumes "get m fs cid = (r, m1, fs1)"
  shows "registry m1 = registry m" and "adaptive_planner m1 = adaptive_planner m"
    and "step_counters m1 = step_counters m" and "storage_dir m1 = storage_dir m"
    and "mgr_engine m1 = mgr_engine m"
proof -
  have "\<exists>cs. m1 = m\<lparr>campaigns := cs\<rparr>"
  proof (cases "campaigns m cid")
    case (Some c)
    with assms have "m1 = m" by (simp add: get_def)
    then show ?thesis by (metis CampaignManager.surjective CampaignManager.update_convs(5))
  next
    case None
    with assms have l: "load m fs cid = (r, m1, fs1)" by (simp add: get_def)
    from load_effect [OF l] show ?thesis
      by (cases r; cases "projr r")
        (auto, (metis CampaignManager.surjective CampaignManager.update_convs(5))+)
  qed
  then obtain cs where "m1 = m\<lparr>campaigns := cs\<rparr>" by blast
  then show "registry m1 = registry m" and "adaptive_planner m1 = adaptive_planner m"
    and "step_counters m1 = step_counters m" and "storage_dir m1 = storage_dir m"
    and "mgr_engine m1 = mgr_engine m"
    by simp_all
qed

lemma transition_step_target:
  assumes "transition_step m1 cid c = (m3, c1, n)"
  shows "campaign_target c1 = campaign_target c"
  using assms by (auto simp: transition_step_def Let_def)

text \<open>
  The rule-based branch: \<open>exclude_tried\<close> and \<open>repeat_penalty\<close> are not passed on.
\<close>

lemma recommend_next_rule_based:
  assumes g: "get m fs cid = (Inr (Some c), m1, fs1)"
    and ad: "\<not> (case ad of Some a \<Rightarrow> a
                | None \<Rightarrow> (case md_adaptive (metadata c) of Some a \<Rightarrow> a | None \<Rightarrow> False))"
  shows "fst (recommend_next lib m fs fid cid k ex pen ad) =
           Inr (engine_plan lib (mgr_engine m) (campaign_target c) (registry m)
                  (Some (evaluations (state c))) (Some k))"
proof -
  obtain m3 c1 n where ts: "transition_step m1 cid c = (m3, c1, n)" by (metis prod_cases3)
  note t = transition_step_effect [OF ts] transition_step_target [OF ts] get_fields [OF g]
  from g ad ts t show ?thesis
    by (simp add: recommend_next_def recommend_for_def)
qed

text \<open>The adaptive branch returns the plan of \<open>plan\<close>.\<close>

lemma recommend_next_adaptive:
  assumes g: "get m fs cid = (Inr (Some c), m1, fs1)"
    and ad: "case ad of Some a \<Rightarrow> a
             | None \<Rightarrow> (case md_adaptive (metadata c) of Some a \<Rightarrow> a | None \<Rightarrow> False)"
    and pl: "adaptive_planner m = Some planner"
    and ps: "posterior_state c = Some pst"
  shows "fst (recommend_next lib m fs fid cid k ex pen ad) = Inr pln \<Longrightarrow>
           fst (plan lib planner (campaign_target c) (registry m) (Some pst)
                  (Some (evaluations (state c))) k ex pen
                  (Some (tracker_of_tried (registry m) (techniques_tried (state c))))
                  (case step_counters m cid of Some s \<Rightarrow> s | None \<Rightarrow> 0)
                  (if should_transition
                        (m1\<lparr>step_counters := (step_counters m)
                              (cid \<mapsto> (case step_counters m cid of Some s \<Rightarrow> s | None \<Rightarrow> 0) + 1)\<rparr>)
                        c
                   then EXPLOIT else campaign_phase c)) = Inr pln"
    and "storage_dir m = None \<Longrightarrow> validate_campaign_id (campaign_id c) = None \<Longrightarrow>
           fst (recommend_next lib m fs fid cid k ex pen ad) =
           fst (plan lib planner (campaign_target c) (registry m) (Some pst)
                  (Some (evaluations (state c))) k ex pen
                  (Some (tracker_of_tried (registry m) (techniques_tried (state c))))
                  (case step_counters m cid of Some s \<Rightarrow> s | None \<Rightarrow> 0)
                  (if should_transition
                        (m1\<lparr>step_counters := (step_counters m)
                              (cid \<mapsto> (case step_counters m cid of Some s \<Rightarrow> s | None \<Rightarrow> 0) + 1)\<rparr>)
                        c
                   then EXPLOIT else campaign_phase c))"
proof -
  obtain m3 c1 n where ts: "transition_step m1 cid c = (m3, c1, n)" by (metis prod_cases3)
  note f = get_fields [OF g]
  note t = transition_step_effect [OF ts, unfolded f] transition_step_target [OF ts]
  let ?plan = "plan lib planner (campaign_target c) (registry m) (Some pst)
                  (Some (evaluations (state c))) k ex pen
                  (Some (tracker_of_tried (registry m) (techniques_tried (state c))))
                  (case step_counters m cid of Some s \<Rightarrow> s | None \<Rightarrow> 0)
                  (if should_transition
                        (m1\<lparr>step_counters := (step_counters m)
                              (cid \<mapsto> (case step_counters m cid of Some s \<Rightarrow> s | None \<Rightarrow> 0) + 1)\<rparr>)
                        c
                   then EXPLOIT else campaign_phase c)"
  have rn: "recommend_next lib m fs fid cid k ex pen ad =
              adaptive_recommend lib m3 fs1 fid cid c1 planner pst n k ex pen"
    using g ad ts t pl ps by (simp add: recommend_next_def recommend_for_def)
  have args: "plan lib planner (campaign_target c1) (registry m3) (Some pst)
                (Some (evaluations (state c1))) k ex pen
                (Some (tracker_of_tried (registry m3) (techniques_tried (state c1)))) n
                (campaign_phase c1) = ?plan"
    using t by simp
  obtain res pst' planner' where p: "?plan = (res, pst', planner')" by (metis prod_cases3)
  {
    assume "fst (recommend_next lib m fs fid cid k ex pen ad) = Inr pln"
    then show "fst ?plan = Inr pln"
      unfolding rn adaptive_recommend_def Let_def args p
      by (cases res) (auto split: prod.splits option.splits sum.splits)
  }
  {
    assume s: "storage_dir m = None" and v: "validate_campaign_id (campaign_id c) = None"
    from t have "storage_dir m3 = None" "campaign_id c1 = campaign_id c" using s by simp_all
    then show "fst (recommend_next lib m fs fid cid k ex pen ad) = fst ?plan"
      unfolding rn adaptive_recommend_def Let_def args p using v
      by (cases res) (simp_all add: save_def)
  }
qed

subsection \<open>Exclusion of tried techniques\<close>

lemma scored_candidates_loop:
  "scored_candidates lib p target reg (Some st0) (Some rs) ex pen (Some tr) step ph =
     candidates_loop
       (score_candidate lib
          (p\<lparr>correlation := map_option (\<lambda>c. register_techniques c reg) (correlation p)\<rparr>)
          target rs (set (map eval_technique_id rs)) pen tr
          (case ph of PROBE \<Rightarrow> info_gain_weight p * (15 / 10)
                    | EXPLOIT \<Rightarrow> info_gain_weight p * (3 / 10))
          (case ph of PROBE \<Rightarrow> cost_weight p * (7 / 10) | EXPLOIT \<Rightarrow> cost_weight p * (12 / 10))
          (case planner_max_cost p of Some m \<Rightarrow> m | None \<Rightarrow> 1))
       (\<lambda>t. ex \<and> tid t \<in> set (map eval_technique_id rs))
       (filter (\<lambda>t. passes_all_filters t target \<and>
                     base_cost t \<le> (case planner_max_cost p of Some m \<Rightarrow> m | None \<Rightarrow> 1)) reg)
       (Random lib (derive_step_seed lib p step)) st0"
  unfolding scored_candidates_def Let_def by (simp only: option.case)

lemma stub_rng: "Random stub_lib (derive_step_seed stub_lib p n) = 0"
  by (simp add: stub_lib_def derive_step_seed_def)

text \<open>
  With a result for \<open>A\<close> and \<open>exclude_tried\<close>, the scoring loop on the example registry
  scores \<open>B\<close> and \<open>C\<close>; with no result, it scores \<open>A\<close> as well.
\<close>

lemma example_scored:
  "\<not> isl (fst (scored_candidates stub_lib example_planner example_target example_family
                 (Some (empty_state 8)) (Some tried_evaluations) True 0
                 (Some (tracker_of_tried example_family [''A''])) 0 PROBE))"
  "list_all (\<lambda>c. 0 < alpha (c_posterior c) \<and> 0 < beta (c_posterior c))
     (projr (fst (scored_candidates stub_lib example_planner example_target example_family
                    (Some (empty_state 8)) (Some tried_evaluations) True 0
                    (Some (tracker_of_tried example_family [''A''])) 0 PROBE)))"
  "map (\<lambda>c. tid (c_technique c))
     (slice_to (sort_desc c_utility
        (projr (fst (scored_candidates stub_lib example_planner example_target example_family
                       (Some (empty_state 8)) (Some tried_evaluations) True 0
                       (Some (tracker_of_tried example_family [''A''])) 0 PROBE)))) 5)
   = [''B'', ''C'']"
  unfolding scored_candidates_loop stub_rng by code_simp+

lemma example_scored_unevaluated:
  "\<not> isl (fst (scored_candidates stub_lib example_planner example_target example_family
                 (Some (empty_state 8)) (Some []) True 0
                 (Some (tracker_of_tried example_family [''A''])) 0 PROBE))"
  "list_all (\<lambda>c. 0 < alpha (c_posterior c) \<and> 0 < beta (c_posterior c))
     (projr (fst (scored_candidates stub_lib example_planner example_target example_family
                    (Some (empty_state 8)) (Some []) True 0
                    (Some (tracker_of_tried example_family [''A''])) 0 PROBE)))"
  "map (\<lambda>c. tid (c_technique c))
     (slice_to (sort_desc c_utility
        (projr (fst (scored_candidates stub_lib example_planner example_target example_family
                       (Some (empty_state 8)) (Some []) True 0
                       (Some (tracker_of_tried example_family [''A''])) 0 PROBE)))) 5)
   = [''A'', ''B'', ''C'']"
  unfolding scored_candidates_loop stub_rng by code_simp+

lemma example_rule_based:
  "technique_ids (engine_plan stub_lib example_engine example_target example_family
                    (Some tried_evaluations) (Some 5)) = [''B'', ''C'', ''A'']"
  by code_simp

lemma plan_ok_ids:
  assumes "\<not> isl (fst (scored_candidates lib p target reg pst rs ex pen tr step ph))"
    and "list_all (\<lambda>c. 0 < alpha (c_posterior c) \<and> 0 < beta (c_posterior c))
           (projr (fst (scored_candidates lib p target reg pst rs ex pen tr step ph)))"
  shows "map_sum id technique_ids (fst (plan lib p target reg pst rs k ex pen tr step ph)) =
           Inr (map (\<lambda>c. tid (c_technique c))
                  (slice_to (sort_desc c_utility
                     (projr (fst (scored_candidates lib p target reg pst rs ex pen tr step ph))))
                     k))"
proof -
  let ?s = "scored_candidates lib p target reg pst rs ex pen tr step ph"
  from assms(1) have "?s = (Inr (projr (fst ?s)), snd ?s)"
    by (cases ?s; cases "fst ?s") auto
  moreover from assms(2)
  have "\<forall>c \<in> set (projr (fst ?s)). 0 < alpha (c_posterior c) \<and> 0 < beta (c_posterior c)"
    by (simp add: list_all_iff)
  ultimately obtain pl where "fst (plan lib p target reg pst rs k ex pen tr step ph) = Inr pl"
    and "technique_ids pl = map (\<lambda>c. tid (c_technique c))
                              (slice_to (sort_desc c_utility (projr (fst ?s))) k)"
    using plan_ok [of lib p target reg pst rs ex pen tr step ph "projr (fst ?s)" "snd ?s" k]
    by blast
  then show ?thesis by simp
qed

lemma tried_manager_get:
  "get (tried_manager evs) empty_fs ''camp'' =
     (Inr (Some (tried_campaign evs)), tried_manager evs, empty_fs)"
  by (simp add: get_def tried_manager_def)

lemma tried_manager_stays_probe:
  "\<not> should_transition
        ((tried_manager evs)\<lparr>step_counters := (step_counters (tried_manager evs))
            (''camp'' \<mapsto> (case step_counters (tried_manager evs) ''camp'' of
                              Some s \<Rightarrow> s | None \<Rightarrow> 0) + 1)\<rparr>)
        (tried_campaign evs)"
  by (simp add: should_transition_def tested_surfaces_def registry_get_def tried_manager_def
        tried_campaign_def CampaignManager_init_def example_family_def example_technique_def
        all_surfaces_def Let_def)

lemma camp_valid: "validate_campaign_id ''camp'' = None"
  by code_simp

lemma tried_manager_adaptive:
  "fst (recommend_next stub_lib (tried_manager evs) empty_fs fid ''camp'' k ex pen None) =
     fst (plan stub_lib example_planner example_target example_family (Some (empty_state 8))
            (Some evs) k ex pen (Some (tracker_of_tried example_family [''A''])) 0 PROBE)"
proof -
  have f: "adaptive_planner (tried_manager evs) = Some example_planner"
    "posterior_state (tried_campaign evs) = Some (empty_state 8)"
    "storage_dir (tried_manager evs) = None"
    "validate_campaign_id (campaign_id (tried_campaign evs)) = None"
    "case None of Some a \<Rightarrow> a
     | None \<Rightarrow> (case md_adaptive (metadata (tried_campaign evs)) of
                  Some a \<Rightarrow> a | None \<Rightarrow> False)"
    by (simp_all add: tried_manager_def tried_campaign_def CampaignManager_init_def camp_valid)
  have a: "campaign_target (tried_campaign evs) = example_target"
    "registry (tried_manager evs) = example_family"
    "evaluations (state (tried_campaign evs)) = evs"
    "techniques_tried (state (tried_campaign evs)) = [''A'']"
    "step_counters (tried_manager evs) ''camp'' = None"
    "campaign_phase (tried_campaign evs) = PROBE"
    by (simp_all add: tried_manager_def tried_campaign_def CampaignManager_init_def)
  from recommend_next_adaptive(2) [OF tried_manager_get f(5) f(1) f(2) f(3) f(4),
         of stub_lib fid k ex pen]
  show ?thesis
    using tried_manager_stays_probe [of evs] unfolding a by simp
qed

text \<open>
  C5, as the code has it. A call of \<open>recommend_next\<close> with \<open>exclude_tried\<close> that the
  adaptive planner serves (the call or the campaign asks for it, and the manager has a
  planner and the campaign a posterior state) returns a plan whose entries are techniques of
  the registry, none of which has the technique id of an evaluation result of the campaign.
\<close>

theorem exclude_tried_adaptive:
  assumes "get m fs cid = (Inr (Some c), m1, fs1)"
    and "case ad of Some a \<Rightarrow> a
         | None \<Rightarrow> (case md_adaptive (metadata c) of Some a \<Rightarrow> a | None \<Rightarrow> False)"
    and "adaptive_planner m = Some planner"
    and "posterior_state c = Some pst"
    and "fst (recommend_next lib m fs fid cid k True pen ad) = Inr pl"
  shows "\<forall>e \<in> set (entries pl).
           entry_technique_id e \<in> tid ` set (registry m) \<and>
           entry_technique_id e \<notin> eval_technique_id ` set (evaluations (state c))"
proof
  fix e
  assume e: "e \<in> set (entries pl)"
  let ?plan = "plan lib planner (campaign_target c) (registry m) (Some pst)
                  (Some (evaluations (state c))) k True pen
                  (Some (tracker_of_tried (registry m) (techniques_tried (state c))))
                  (case step_counters m cid of Some s \<Rightarrow> s | None \<Rightarrow> 0)
                  (if should_transition
                        (m1\<lparr>step_counters := (step_counters m)
                              (cid \<mapsto> (case step_counters m cid of Some s \<Rightarrow> s | None \<Rightarrow> 0) + 1)\<rparr>)
                        c
                   then EXPLOIT else campaign_phase c)"
  from recommend_next_adaptive(1) [OF assms(1-4) assms(5)]
  have "fst ?plan = Inr pl" .
  then have "?plan = (Inr pl, fst (snd ?plan), snd (snd ?plan))"
    by (metis prod.collapse)
  from plan_entry_ids [OF this e] obtain t where t: "t \<in> set (registry m)"
    "entry_technique_id e = tid t"
    "tid t \<notin> eval_technique_id ` set (evaluations (state c))"
    by auto
  from t(1) have "tid t \<in> tid ` set (registry m)" by (rule imageI)
  with t(2,3)
  show "entry_technique_id e \<in> tid ` set (registry m) \<and>
        entry_technique_id e \<notin> eval_technique_id ` set (evaluations (state c))"
    by (simp only: simp_thms)
qed

theorem exclude_tried_adaptive_witness:
  "map_sum id technique_ids
     (fst (recommend_next stub_lib (tried_manager tried_evaluations) empty_fs ''s1'' ''camp'' 5
             True 0 None)) = Inr [''B'', ''C''] \<and>
   eval_technique_id ` set (evaluations (state (tried_campaign tried_evaluations))) = {''A''} \<and>
   ''A'' \<notin> entry_technique_id `
     set (entries (projr (fst (recommend_next stub_lib (tried_manager tried_evaluations)
                                 empty_fs ''s1'' ''camp'' 5 True 0 None))))"
proof -
  let ?r = "fst (recommend_next stub_lib (tried_manager tried_evaluations) empty_fs ''s1''
                   ''camp'' 5 True 0 None)"
  have ids: "map_sum id technique_ids ?r = Inr [''B'', ''C'']"
    unfolding tried_manager_adaptive plan_ok_ids [OF example_scored(1,2)] example_scored(3) ..
  then have r: "?r = Inr (projr ?r)" by (cases ?r) simp_all
  have ev: "eval_technique_id ` set (evaluations (state (tried_campaign tried_evaluations)))
              = {''A''}"
    by (simp add: tried_campaign_def tried_evaluations_def example_evaluation_def)
  have f: "adaptive_planner (tried_manager tried_evaluations) = Some example_planner"
    "posterior_state (tried_campaign tried_evaluations) = Some (empty_state 8)"
    "case None of Some a \<Rightarrow> a
     | None \<Rightarrow> (case md_adaptive (metadata (tried_campaign tried_evaluations)) of
                  Some a \<Rightarrow> a | None \<Rightarrow> False)"
    by (simp_all add: tried_manager_def tried_campaign_def CampaignManager_init_def)
  from exclude_tried_adaptive [OF tried_manager_get f(3) f(1) f(2) r]
  have "''A'' \<notin> entry_technique_id ` set (entries (projr ?r))"
    unfolding ev by auto
  with ids ev show ?thesis by blast
qed

text \<open>
  The claim as stated fails twice. The campaign has tried \<open>A\<close>. With no evaluation result
  for \<open>A\<close> yet, the adaptive branch returns \<open>A\<close> under \<open>exclude_tried\<close>; and with a
  result for \<open>A\<close>, the rule-based branch returns \<open>A\<close> under \<open>exclude_tried\<close>.
\<close>

theorem exclude_tried_emits_tried:
  "techniques_tried (state (tried_campaign [])) = [''A''] \<and>
   map_sum id technique_ids
     (fst (recommend_next stub_lib (tried_manager []) empty_fs ''s1'' ''camp'' 5 True 0 None))
     = Inr [''A'', ''B'', ''C''] \<and>
   techniques_tried (state (tried_campaign tried_evaluations)) = [''A''] \<and>
   map_sum id technique_ids
     (fst (recommend_next stub_lib (tried_manager tried_evaluations) empty_fs ''s1'' ''camp'' 5
             True 0 (Some False)))
     = Inr [''B'', ''C'', ''A'']"
proof -
  have "map_sum id technique_ids
          (fst (recommend_next stub_lib (tried_manager []) empty_fs ''s1'' ''camp'' 5 True 0
                  None)) = Inr [''A'', ''B'', ''C'']"
    unfolding tried_manager_adaptive plan_ok_ids [OF example_scored_unevaluated(1,2)]
      example_scored_unevaluated(3) ..
  moreover have "map_sum id technique_ids
          (fst (recommend_next stub_lib (tried_manager tried_evaluations) empty_fs ''s1''
                  ''camp'' 5 True 0 (Some False))) = Inr [''B'', ''C'', ''A'']"
  proof -
    have a: "mgr_engine (tried_manager tried_evaluations) = example_engine"
      "campaign_target (tried_campaign tried_evaluations) = example_target"
      "registry (tried_manager tried_evaluations) = example_family"
      "evaluations (state (tried_campaign tried_evaluations)) = tried_evaluations"
      by (simp_all add: tried_manager_def tried_campaign_def CampaignManager_init_def)
    have "\<not> (case Some False of Some a \<Rightarrow> a
              | None \<Rightarrow> (case md_adaptive (metadata (tried_campaign tried_evaluations)) of
                           Some a \<Rightarrow> a | None \<Rightarrow> False))"
      by simp
    from recommend_next_rule_based [OF tried_manager_get this, of stub_lib "''s1''" 5 True 0]
    show ?thesis unfolding a by (simp add: example_rule_based)
  qed
  moreover have "techniques_tried (state (tried_campaign xs)) = [''A'']" for xs
    by (simp add: tried_campaign_def)
  ultimately show ?thesis by blast
qed

end
